theory Spec2Isabelle
  imports Complex_Main "HOL-Library.Monad_Syntax"
begin

section \<open>The analysis core of Janus (janus\_core.py)\<close>

text \<open>
  The class \<open>core\<close> of \<open>janus_core.py\<close> holds one Wind/FC ion spectrum, the data
  selections made from it and the results of the moments and the non-linear analyses.
  Its methods mutate the object and emit Qt signals. Here the object is a record, a
  method is a function from the record to the new record, and the signals emitted are
  appended to a log kept in the record. A method that raises an exception which it does
  not catch returns \<open>None\<close>.

  Python floats are modelled by the reals: sums, products and comparisons are exact.
  NumPy arrays are nested lists.
\<close>

subsection \<open>Python and NumPy primitives\<close>

text \<open>An integer index into a sequence of length \<open>n\<close>: a negative index counts from
  the end, an index out of range raises IndexError.\<close>

definition py_index :: "nat \<Rightarrow> int \<Rightarrow> nat option" where
  "py_index n i =
     (if 0 \<le> i \<and> i < int n then Some (nat i)
      else if - int n \<le> i \<and> i < 0 then Some (nat (int n + i))
      else None)"

text \<open>Reading \<open>xs[i]\<close>.\<close>

definition py_nth :: "'a list \<Rightarrow> int \<Rightarrow> 'a option" where
  "py_nth xs i = map_option (\<lambda>j. xs ! j) (py_index (length xs) i)"

text \<open>Reading \<open>xs[i]\<close> for an index produced by \<open>range\<close> (never negative).\<close>

definition nth_opt :: "'a list \<Rightarrow> nat \<Rightarrow> 'a option" where
  "nth_opt xs i = (if i < length xs then Some (xs ! i) else None)"

text \<open>\<open>arr[t,p,:]\<close> for an array attribute that may still be \<open>None\<close>.\<close>

definition row3 :: "'a list list list option \<Rightarrow> nat \<Rightarrow> nat \<Rightarrow> 'a list option" where
  "row3 arr t p = do { a \<leftarrow> arr; pl \<leftarrow> nth_opt a t; nth_opt pl p }"

text \<open>\<open>arr[t,p]\<close> for a two-dimensional array attribute.\<close>

definition elem2 :: "'a list list option \<Rightarrow> nat \<Rightarrow> nat \<Rightarrow> 'a option" where
  "elem2 arr t p = do { a \<leftarrow> arr; r \<leftarrow> nth_opt a t; nth_opt r p }"

text \<open>\<open>tile(x, [n_alt, n_azm])\<close> and \<open>tile(x, [n_alt, n_azm, n_vel])\<close>.\<close>

definition tile2 :: "'a \<Rightarrow> nat \<Rightarrow> nat \<Rightarrow> 'a list list" where
  "tile2 x n_t n_p = replicate n_t (replicate n_p x)"

definition tile3 :: "'a \<Rightarrow> nat \<Rightarrow> nat \<Rightarrow> nat \<Rightarrow> 'a list list list" where
  "tile3 x n_t n_p n_v = replicate n_t (replicate n_p (replicate n_v x))"

text \<open>\<open>len(where(mask)[0])\<close>: the number of \<open>True\<close> entries of a mask.\<close>

definition count_true :: "bool list \<Rightarrow> nat" where
  "count_true bs = length (filter id bs)"

definition count_true2 :: "bool list list \<Rightarrow> nat" where
  "count_true2 m = sum_list (map count_true m)"

definition count_true3 :: "bool list list list \<Rightarrow> nat" where
  "count_true3 m = sum_list (map count_true2 m)"

text \<open>The bounds of a Python slice \<open>xs[a:b]\<close> on a sequence of length \<open>n\<close>: a negative
  bound counts from the end, and both are clipped to \<open>[0, n]\<close>.\<close>

definition py_slice_bound :: "nat \<Rightarrow> int \<Rightarrow> nat" where
  "py_slice_bound n i = (if i < 0 then nat (max 0 (int n + i)) else min n (nat i))"

text \<open>\<open>xs[a:b] = x\<close>.\<close>

definition py_slice_set :: "'a list \<Rightarrow> int \<Rightarrow> int \<Rightarrow> 'a \<Rightarrow> 'a list" where
  "py_slice_set xs a b x =
     map (\<lambda>j. if py_slice_bound (length xs) a \<le> j \<and> j < py_slice_bound (length xs) b
               then x else xs ! j) [0..<length xs]"

subsection \<open>Loading a spectrum: the number of velocity windows (load\_spec, lines 704-736)\<close>

text \<open>
  \<^verbatim>\<open>
  n_vel = 1
  while ( ( n_vel < len( cup1_c_vel ) ) and ( n_vel < len( cup2_c_vel ) ) ) :
      if ( ( cup1_c_vel[n_vel] < cup1_c_vel[n_vel-1] ) or
           ( cup2_c_vel[n_vel] < cup2_c_vel[n_vel-1] )    ) :
          break
      else :
          n_vel += 1
  \<close>
  The counter starts at 1, so \<open>n_vel-1\<close> is never negative and both reads are in range.
\<close>

function n_vel_while :: "real list \<Rightarrow> real list \<Rightarrow> nat \<Rightarrow> nat" where
  "n_vel_while cup1_c_vel cup2_c_vel n_vel =
     (if n_vel < length cup1_c_vel \<and> n_vel < length cup2_c_vel then
        (if cup1_c_vel ! n_vel < cup1_c_vel ! (n_vel - 1) \<or>
            cup2_c_vel ! n_vel < cup2_c_vel ! (n_vel - 1)
         then n_vel
         else n_vel_while cup1_c_vel cup2_c_vel (n_vel + 1))
      else n_vel)"
  by pat_completeness auto
termination
  by (relation "measure (\<lambda>(c1, c2, n). length c1 - n)") auto

declare n_vel_while.simps [simp del]

definition load_spec_n_vel :: "real list \<Rightarrow> real list \<Rightarrow> nat" where
  "load_spec_n_vel cup1_c_vel cup2_c_vel = n_vel_while cup1_c_vel cup2_c_vel 1"

text \<open>The arrays of one cup after \<open>x = x[0:n_vel]\<close> and \<open>cur = cur[:,0:n_vel]\<close>.\<close>

record cup =
  c_vel :: "real list"
  d_vel :: "real list"
  cup_cur :: "real list list"

definition load_spec_trunc :: "nat \<Rightarrow> cup \<Rightarrow> cup" where
  "load_spec_trunc n c =
     \<lparr> c_vel = take n (c_vel c), d_vel = take n (d_vel c),
       cup_cur = map (take n) (cup_cur c) \<rparr>"

subsection \<open>Loading a spectrum: the validity of each current (load\_spec, lines 760-802)\<close>

text \<open>
  The body of the loop over \<open>v\<close> for one look direction, \<open>row\<close> being \<open>self.cur[t,p,:]\<close>.
  Each \<open>continue\<close> is a return; \<open>and\<close> evaluates its second operand only when the
  first is true, so the read of \<open>row[v+1]\<close> in the last test is skipped when the
  comparison with \<open>row[v-1]\<close> fails. For \<open>v = 0\<close> the read \<open>row[v-1]\<close> is \<open>row[-1]\<close>,
  the last element.

  The currents and the jump factor are floating-point numbers, here the reals they
  denote. A comparison of two of them is exact. A product \<open>self.cur_jmp * self.cur[t,p,v+1]\<close>
  is not: the machine rounds it (\<open>100. * 0.03\<close> is \<open>3.0\<close>, although the number that
  \<open>0.03\<close> denotes is smaller than three hundredths). The floating-point product is the
  parameter \<open>fmul\<close> of the model.
\<close>

definition cur_vld_bin ::
  "(real \<Rightarrow> real \<Rightarrow> real) \<Rightarrow> real \<Rightarrow> real \<Rightarrow> nat \<Rightarrow> real list \<Rightarrow> nat \<Rightarrow> bool option" where
  "cur_vld_bin fmul cur_jmp cur_min n_vel row v = do {
     c \<leftarrow> py_nth row (int v);
     if c < cur_min then Some False
     else do {
       first_jmp \<leftarrow> (if v = 0
                      then do { nx \<leftarrow> py_nth row (int v + 1); Some (c > fmul cur_jmp nx) }
                      else Some False);
       if first_jmp then Some False
       else do {
         last_jmp \<leftarrow> (if int v = int n_vel - 1
                       then do { pv \<leftarrow> py_nth row (int v - 1); Some (c > fmul cur_jmp pv) }
                       else Some False);
         if last_jmp then Some False
         else do {
           pv \<leftarrow> py_nth row (int v - 1);
           if c > fmul cur_jmp pv
           then do { nx \<leftarrow> py_nth row (int v + 1); Some (\<not> (c > fmul cur_jmp nx)) }
           else Some True
         }
       }
     }
   }"

text \<open>
  The three loops. The mask starts as \<open>tile(True, [n_alt, n_azm, n_vel])\<close>; for
  \<open>n_vel < 2\<close> the loop over \<open>t\<close> skips every row (\<open>continue\<close>), so the mask stays
  all \<open>True\<close>.
\<close>

definition load_spec_cur_vld ::
  "(real \<Rightarrow> real \<Rightarrow> real) \<Rightarrow> real \<Rightarrow> real \<Rightarrow> nat \<Rightarrow> nat \<Rightarrow> nat \<Rightarrow> real list list list \<Rightarrow>
     bool list list list option" where
  "load_spec_cur_vld fmul cur_jmp cur_min n_alt n_azm n_vel cur =
     those (map (\<lambda>t.
       if n_vel < 2 then Some (replicate n_azm (replicate n_vel True))
       else those (map (\<lambda>p. do {
              row \<leftarrow> row3 (Some cur) t p;
              those (map (cur_vld_bin fmul cur_jmp cur_min n_vel row) [0..<n_vel])
            }) [0..<n_azm])) [0..<n_alt])"

subsection \<open>The state of the core\<close>

text \<open>The signals of the core, with their arguments.\<close>

datatype signal =
    Janus_rset
  | Janus_mesg string string string
  | Janus_chng_spc
  | Janus_chng_mom_sel_all
  | Janus_chng_mom_sel_cur int int int
  | Janus_chng_mom_sel_azm nat nat
  | Janus_chng_mom_res
  | Janus_chng_nln_ion
  | Janus_chng_nln_set
  | Janus_chng_nln_gss
  | Janus_chng_nln_sel_all
  | Janus_chng_nln_sel_cur int int int
  | Janus_chng_nln_res
  | Janus_chng_dsp
  | Janus_chng_dyn

text \<open>The variables that hold the results of the moments analysis
  (\<open>rset_var\<close>, lines 344-372).\<close>

record mom_res =
  mom_n_eta :: nat
  mom_eta_ind_t :: "nat list option"
  mom_eta_ind_p :: "nat list option"
  mom_eta_n :: "real list option"
  mom_eta_v :: "real list option"
  mom_eta_w :: "real list option"
  mom_eta_t :: "real list option"
  mom_corr_pears :: "real option"
  mom_corr_spear :: "real option"
  mom_n :: "real option"
  mom_v :: "real option"
  mom_w :: "real option"
  mom_t :: "real option"
  mom_r :: "real option"
  mom_v_vec :: "real list option"
  mom_w_per :: "real option"
  mom_w_par :: "real option"
  mom_t_per :: "real option"
  mom_t_par :: "real option"
  mom_cur :: "real list list list option"

text \<open>
  Modelled from the spec: the classes \<open>plas\<close> and \<open>series\<close> of the module
  \<open>janus_pyon\<close> are not part of the sources at hand. An ion population has flags for
  drift and anisotropy, the mass and charge of its species, and numeric values (density,
  drift speed, thermal speeds) that may be unset. A \<open>plas\<close> object holds the reference
  velocity, the populations and, for a fit result, the time stamp, the field vector,
  the covariance matrix and the uncertainties. The results log is an append-only
  sequence of \<open>plas\<close> objects.
\<close>

record pop =
  pop_drift :: bool
  pop_aniso :: bool
  pop_m :: "real option"
  pop_q :: "real option"
  pop_n :: "real option"
  pop_dv :: "real option"
  pop_w :: "real option"
  pop_w_per :: "real option"
  pop_w_par :: "real option"

record plas =
  enforce :: bool
  vec_v0 :: "real option list"
  arr_pop :: "pop list"
  covar :: "real list list option"
  plas_time :: "real option"
  vec_b0 :: "real option list"
  sig_v0 :: "real option list"

definition plas_new :: "bool \<Rightarrow> plas" where
  "plas_new e =
     \<lparr> enforce = e, vec_v0 = [None, None, None], arr_pop = [], covar = None,
       plas_time = None, vec_b0 = [None, None, None], sig_v0 = [None, None, None] \<rparr>"

definition pop_new :: "bool \<Rightarrow> bool \<Rightarrow> real option \<Rightarrow> real option \<Rightarrow> pop" where
  "pop_new drift aniso m q =
     \<lparr> pop_drift = drift, pop_aniso = aniso, pop_m = m, pop_q = q, pop_n = None,
       pop_dv = None, pop_w = None, pop_w_per = None, pop_w_par = None \<rparr>"

text \<open>
  The attributes of the core that the functions below read or write, in the order of
  \<open>rset_var\<close>, and the log of the signals emitted.
\<close>

record core =
  time_epc :: "real option"
  alt :: "real list option"
  azm :: "real list list option"
  vel_cen :: "real list option"
  vel_wid :: "real list option"
  cur :: "real list list list option"
  cur_vld :: "bool list list list option"
  cur_jmp :: real
  cur_min :: real
  mag_x :: "real list option"
  mag_y :: "real list option"
  mag_z :: "real list option"
  n_alt :: nat
  n_azm :: nat
  n_vel :: nat
  n_mfi :: nat
  mfi_avg_nrm :: "real list option"
  mom_win_azm_req :: "int option"
  mom_win_cur_req :: "int option"
  mom_win_azm_txt :: string
  mom_win_cur_txt :: string
  mom_win_azm :: int
  mom_win_cur :: int
  mom_n_sel_azm :: nat
  mom_n_sel_cur :: "nat list list option"
  mom_min_sel_azm :: int
  mom_min_sel_cur :: int
  mom_sel_azm :: "bool list list option"
  mom_sel_cur :: "bool list list list option"
  mom :: mom_res
  nln_n_pop :: nat
  nln_pyon :: plas
  nln_pop_use :: "bool list"
  nln_pop_vld :: "bool list"
  nln_set_gss_n :: "real option list"
  nln_set_gss_d :: "real option list"
  nln_set_gss_w :: "real option list"
  nln_set_gss_vld :: "bool list"
  nln_set_sel_a :: "real option list"
  nln_set_sel_b :: "real option list"
  nln_set_sel_vld :: "bool list"
  nln_gss_vld :: "bool list"
  nln_gss_pop :: "nat list"
  nln_gss_prm :: "real option list"
  nln_gss_cur_tot :: "real list list list option"
  nln_gss_cur_ion :: "real list list list list option"
  nln_sel :: "bool list list list option"
  nln_n_sel :: nat
  nln_min_sel :: nat
  nln_res_plas :: plas
  nln_res_sel :: "bool list list list option"
  nln_res_cur_tot :: "real list list list option"
  nln_res_cur_ion :: "real list list list list option"
  series :: "plas list"
  dsp :: "string option"
  dyn_mom :: bool
  dyn_gss :: bool
  dyn_sel :: bool
  dyn_nln :: bool
  emitted :: "signal list"

text \<open>\<open>self.emit( SIGNAL(...), ... )\<close>.\<close>

definition emit :: "signal \<Rightarrow> core \<Rightarrow> core" where
  "emit sg s = s\<lparr>emitted := emitted s @ [sg]\<rparr>"

text \<open>
  The numerical routines that the analyses call (NumPy and SciPy linear algebra,
  least squares, the error function, and the bookkeeping of \<open>janus_pyon\<close>) are
  parameters of the model. Each takes the state at the point of the call; \<open>None\<close>
  means that the routine raised an exception.
  \<^item> \<open>k_anls_mom\<close>: the moments computation of \<open>anls_mom\<close> (lines 1732-1982), giving
    the values that lines 1988-2011 store;
  \<^item> \<open>k_auto_nln_gss\<close>: the initial guesses that \<open>auto_nln_gss\<close> writes into
    \<open>self.nln_pyon\<close> (lines 2368-2441; every failure there is caught);
  \<^item> \<open>k_pop_valid\<close>: \<open>arr_pop[i].valid( require_val=True )\<close>;
  \<^item> \<open>k_pop_valid_ion\<close>: \<open>arr_pop[p].valid( require_val=False )\<close>;
  \<^item> \<open>k_calc_nln_cur\<close>: \<open>calc_nln_cur( pop, x, prm, ret_comp=True )\<close> over the whole
    grid, reshaped to \<open>[n_alt, n_azm, n_vel, len(pop)]\<close>;
  \<^item> \<open>k_curve_fit\<close>: the body of the \<open>try\<close> of \<open>anls_nln\<close> (lines 3043-3046) on the
    data arrays \<open>x\<close> and \<open>y\<close> and the guess, giving \<open>(fit, covar, sigma)\<close>;
  \<^item> \<open>k_nln_res_plas\<close>: the result object that lines 3088-3165 fill in.
\<close>

record kernels =
  k_anls_mom :: "core \<Rightarrow> mom_res option"
  k_auto_nln_gss :: "core \<Rightarrow> plas"
  k_pop_valid :: "pop \<Rightarrow> bool"
  k_pop_valid_ion :: "pop \<Rightarrow> bool"
  k_calc_nln_cur :: "core \<Rightarrow> nat list \<Rightarrow> real option list \<Rightarrow> real list list list list option"
  k_curve_fit ::
    "core \<Rightarrow> real list list \<Rightarrow> real list \<Rightarrow> real option list \<Rightarrow>
       (real list \<times> real list list \<times> real list) option"
  k_nln_res_plas :: "core \<Rightarrow> real list \<Rightarrow> real list list \<Rightarrow> real list \<Rightarrow> plas option"

subsection \<open>Resetting the variables (rset\_var, lines 248-545)\<close>

text \<open>The keyword arguments of \<open>rset_var\<close>; each defaults to \<open>False\<close>.\<close>

record rset_flags =
  var_swe :: bool
  var_mfi :: bool
  var_mom_win :: bool
  var_mom_sel :: bool
  var_mom_res :: bool
  var_nln_ion :: bool
  var_nln_set :: bool
  var_nln_gss :: bool
  var_nln_sel :: bool
  var_nln_res :: bool
  var_dsp :: bool
  var_dyn :: bool

definition no_var :: rset_flags where
  "no_var =
     \<lparr> var_swe = False, var_mfi = False, var_mom_win = False, var_mom_sel = False,
       var_mom_res = False, var_nln_ion = False, var_nln_set = False, var_nln_gss = False,
       var_nln_sel = False, var_nln_res = False, var_dsp = False, var_dyn = False \<rparr>"

definition rset_swe :: "core \<Rightarrow> core" where
  "rset_swe s =
     s\<lparr> time_epc := None, alt := None, azm := None, vel_cen := None, vel_wid := None,
        cur := None, cur_vld := None, cur_jmp := 100, cur_min := 1,
        mag_x := None, mag_y := None, mag_z := None,
        n_alt := 0, n_azm := 0, n_vel := 0 \<rparr>"

definition rset_mfi :: "core \<Rightarrow> core" where
  "rset_mfi s = s\<lparr> n_mfi := 0, mfi_avg_nrm := None \<rparr>"

text \<open>Line 325 reads \<open>self.mom_win_cur = self.mom_win_azm_req\<close>; both requests are 7.\<close>

definition rset_mom_win :: "core \<Rightarrow> core" where
  "rset_mom_win s =
     s\<lparr> mom_win_azm_req := Some 7, mom_win_cur_req := Some 7,
        mom_win_azm_txt := [], mom_win_cur_txt := [],
        mom_win_azm := 7, mom_win_cur := 7 \<rparr>"

definition rset_mom_sel :: "core \<Rightarrow> core" where
  "rset_mom_sel s =
     s\<lparr> mom_n_sel_azm := 0, mom_n_sel_cur := None,
        mom_min_sel_azm := 5, mom_min_sel_cur := 3,
        mom_sel_azm := None, mom_sel_cur := None \<rparr>"

definition mom_res_empty :: mom_res where
  "mom_res_empty =
     \<lparr> mom_n_eta = 0, mom_eta_ind_t = None, mom_eta_ind_p = None,
       mom_eta_n = None, mom_eta_v = None, mom_eta_w = None, mom_eta_t = None,
       mom_corr_pears = None, mom_corr_spear = None,
       mom_n = None, mom_v = None, mom_w = None, mom_t = None, mom_r = None,
       mom_v_vec = None,
       mom_w_per = None, mom_w_par = None, mom_t_per = None, mom_t_par = None,
       mom_cur = None \<rparr>"

definition rset_mom_res :: "core \<Rightarrow> core" where
  "rset_mom_res s = s\<lparr> mom := mom_res_empty \<rparr>"

text \<open>
  Four species (proton, alpha and two empty slots) and five populations: proton core,
  proton beam, alpha core, alpha beam and one without a species.
\<close>

definition rset_nln_ion :: "core \<Rightarrow> core" where
  "rset_nln_ion s =
     s\<lparr> nln_n_pop := 5,
        nln_pyon := (plas_new True)\<lparr> arr_pop :=
          [ pop_new False True (Some 1) (Some 1),
            pop_new True False (Some 1) (Some 1),
            pop_new True True (Some 4) (Some 2),
            pop_new True False (Some 4) (Some 2),
            pop_new False False None None ] \<rparr>,
        nln_pop_use := [True, False, True, False, False],
        nln_pop_vld := [True, True, True, True, False] \<rparr>"

text \<open>The arrays are \<open>tile( None, self.nln_n_pop )\<close> with the entries 0 to 4 assigned;
  \<open>nln_n_pop\<close> is 5 whenever this runs. A decimal literal denotes the nearest
  floating-point number: \<open>0.20\<close> is \<open>3602879701896397 / 2 ^ 54\<close>, and so on (lines
  440-484).\<close>

definition rset_nln_set :: "core \<Rightarrow> core" where
  "rset_nln_set s =
     s\<lparr> nln_set_gss_n :=
          map (\<lambda>i. if i < 4 then Some ([1, 3602879701896397 / 2 ^ 54, 5764607523034235 / 2 ^ 58,
                                         5764607523034235 / 2 ^ 59] ! i) else None)
            [0..<nln_n_pop s],
        nln_set_gss_d :=
          map (\<lambda>i. if 1 \<le> i \<and> i < 4
                    then Some ([0, 1080863910568919 / 2 ^ 55, 5764607523034235 / 2 ^ 59,
                                3602879701896397 / 2 ^ 56] ! i) else None)
            [0..<nln_n_pop s],
        nln_set_gss_w :=
          map (\<lambda>i. if i < 4 then Some ([1, 5 / 4, 1, 5 / 4] ! i) else None) [0..<nln_n_pop s],
        nln_set_gss_vld := map (\<lambda>i. i < 4) [0..<nln_n_pop s],
        nln_set_sel_a := map (\<lambda>i. if i < 5 then Some (- 3) else None) [0..<nln_n_pop s],
        nln_set_sel_b := map (\<lambda>i. if i < 5 then Some 3 else None) [0..<nln_n_pop s],
        nln_set_sel_vld := map (\<lambda>i. i < 5) [0..<nln_n_pop s] \<rparr>"

definition pop_clear :: "pop \<Rightarrow> pop" where
  "pop_clear pp =
     pp\<lparr> pop_n := None, pop_dv := None, pop_w := None, pop_w_per := None,
         pop_w_par := None \<rparr>"

text \<open>The loop over \<open>range( self.nln_n_pop )\<close> clears the values of each population;
  \<open>arr_pop\<close> has \<open>nln_n_pop\<close> entries.\<close>

definition rset_nln_gss :: "core \<Rightarrow> core" where
  "rset_nln_gss s =
     s\<lparr> nln_pyon := (nln_pyon s)\<lparr> arr_pop :=
          map pop_clear (take (nln_n_pop s) (arr_pop (nln_pyon s)))
            @ drop (nln_n_pop s) (arr_pop (nln_pyon s)) \<rparr>,
        nln_gss_vld := replicate (nln_n_pop s) False,
        nln_gss_pop := [], nln_gss_prm := [],
        nln_gss_cur_tot := None, nln_gss_cur_ion := None \<rparr>"

definition rset_nln_sel :: "core \<Rightarrow> core" where
  "rset_nln_sel s = s\<lparr> nln_sel := None, nln_n_sel := 0, nln_min_sel := 30 \<rparr>"

definition rset_nln_res :: "core \<Rightarrow> core" where
  "rset_nln_res s =
     s\<lparr> nln_res_plas := plas_new False, nln_res_sel := None,
        nln_res_cur_tot := None, nln_res_cur_ion := None \<rparr>"

definition rset_dsp :: "core \<Rightarrow> core" where
  "rset_dsp s = s\<lparr> dsp := Some ''mom'' \<rparr>"

definition rset_dyn :: "core \<Rightarrow> core" where
  "rset_dyn s = s\<lparr> dyn_mom := True, dyn_gss := True, dyn_sel := True, dyn_nln := False \<rparr>"

definition rset_var :: "rset_flags \<Rightarrow> core \<Rightarrow> core" where
  "rset_var f s0 =
     (let s = (if var_swe f then rset_swe s0 else s0);
          s = (if var_mfi f then rset_mfi s else s);
          s = (if var_mom_win f then rset_mom_win s else s);
          s = (if var_mom_sel f then rset_mom_sel s else s);
          s = (if var_mom_res f then rset_mom_res s else s);
          s = (if var_nln_ion f then rset_nln_ion s else s);
          s = (if var_nln_set f then rset_nln_set s else s);
          s = (if var_nln_gss f then rset_nln_gss s else s);
          s = (if var_nln_sel f then rset_nln_sel s else s);
          s = (if var_nln_res f then rset_nln_res s else s);
          s = (if var_dsp f then rset_dsp s else s)
      in if var_dyn f then rset_dyn s else s)"

text \<open>The core as \<open>__init__\<close> leaves it when no time is given: an empty results log,
  no signal emitted yet, and every variable reset (\<open>init_var\<close>, lines 198-203).\<close>

definition init_var :: core where
  "init_var =
     rset_var
       \<lparr> var_swe = True, var_mfi = True, var_mom_win = True, var_mom_sel = True,
         var_mom_res = True, var_nln_ion = True, var_nln_set = True, var_nln_gss = True,
         var_nln_sel = True, var_nln_res = True, var_dsp = True, var_dyn = True \<rparr>
       \<lparr> time_epc = None, alt = None, azm = None, vel_cen = None, vel_wid = None,
         cur = None, cur_vld = None, cur_jmp = 0, cur_min = 0,
         mag_x = None, mag_y = None, mag_z = None, n_alt = 0, n_azm = 0, n_vel = 0,
         n_mfi = 0, mfi_avg_nrm = None,
         mom_win_azm_req = None, mom_win_cur_req = None,
         mom_win_azm_txt = [], mom_win_cur_txt = [], mom_win_azm = 0, mom_win_cur = 0,
         mom_n_sel_azm = 0, mom_n_sel_cur = None, mom_min_sel_azm = 0,
         mom_min_sel_cur = 0, mom_sel_azm = None, mom_sel_cur = None,
         mom = mom_res_empty,
         nln_n_pop = 0, nln_pyon = plas_new True, nln_pop_use = [], nln_pop_vld = [],
         nln_set_gss_n = [], nln_set_gss_d = [], nln_set_gss_w = [], nln_set_gss_vld = [],
         nln_set_sel_a = [], nln_set_sel_b = [], nln_set_sel_vld = [],
         nln_gss_vld = [], nln_gss_pop = [], nln_gss_prm = [],
         nln_gss_cur_tot = None, nln_gss_cur_ion = None,
         nln_sel = None, nln_n_sel = 0, nln_min_sel = 0,
         nln_res_plas = plas_new False, nln_res_sel = None,
         nln_res_cur_tot = None, nln_res_cur_ion = None,
         series = [], dsp = None,
         dyn_mom = False, dyn_gss = False, dyn_sel = False, dyn_nln = False,
         emitted = [] \<rparr>"

subsection \<open>The displayed analysis and the dynamic flags (lines 3185-3260)\<close>

definition chng_dsp :: "string \<Rightarrow> core \<Rightarrow> core" where
  "chng_dsp val s =
     (if dsp s = Some val then s
      else emit Janus_chng_dsp
             (s\<lparr> dsp := (if val = ''mom'' \<or> val = ''gsl'' \<or> val = ''nln''
                          then Some val else None) \<rparr>))"

text \<open>
  \<open>chng_dyn( anal, value, rerun=False )\<close>: the flag named by \<open>anal\<close> takes the value;
  when it already has it, or \<open>anal\<close> names no analysis, the function returns at once;
  otherwise it emits \<open>janus_chng_dyn\<close>. With \<open>rerun=False\<close> nothing is re-run. Every
  call of \<open>chng_dyn\<close> in the functions below passes \<open>rerun=False\<close>.
\<close>

definition chng_dyn :: "string \<Rightarrow> bool \<Rightarrow> core \<Rightarrow> core" where
  "chng_dyn anal val s =
     (if anal = ''mom'' then
        (if dyn_mom s \<noteq> val then emit Janus_chng_dyn (s\<lparr> dyn_mom := val \<rparr>) else s)
      else if anal = ''gss'' then
        (if dyn_gss s \<noteq> val then emit Janus_chng_dyn (s\<lparr> dyn_gss := val \<rparr>) else s)
      else if anal = ''sel'' then
        (if dyn_sel s \<noteq> val then emit Janus_chng_dyn (s\<lparr> dyn_sel := val \<rparr>) else s)
      else if anal = ''nln'' then
        (if dyn_nln s \<noteq> val then emit Janus_chng_dyn (s\<lparr> dyn_nln := val \<rparr>) else s)
      else s)"

subsection \<open>The non-linear analysis (anls\_nln, lines 2973-3179)\<close>

text \<open>\<open>where( mask )\<close>: the indices of the \<open>True\<close> entries, in row-major order.\<close>

definition where2 :: "bool list list \<Rightarrow> (nat \<times> nat) list" where
  "where2 m =
     concat (map (\<lambda>t. map (\<lambda>p. (t, p)) (filter (\<lambda>p. m ! t ! p) [0..<length (m ! t)]))
       [0..<length m])"

definition where3 :: "bool list list list \<Rightarrow> (nat \<times> nat \<times> nat) list" where
  "where3 m =
     concat (map (\<lambda>t. concat (map (\<lambda>p.
         map (\<lambda>v. (t, p, v)) (filter (\<lambda>v. m ! t ! p ! v) [0..<length (m ! t ! p)]))
       [0..<length (m ! t)])) [0..<length m])"

text \<open>The data arrays \<open>x\<close> and \<open>y\<close> of the fit (lines 3023-3036). Indexing an
  attribute that is \<open>None\<close>, or out of range, raises.\<close>

definition nln_fit_data :: "core \<Rightarrow> bool list list list \<Rightarrow> (real list list \<times> real list) option" where
  "nln_fit_data s sel = do {
     vc \<leftarrow> vel_cen s;
     vw \<leftarrow> vel_wid s;
     al \<leftarrow> alt s;
     az \<leftarrow> azm s;
     mx \<leftarrow> mag_x s;
     my \<leftarrow> mag_y s;
     mz \<leftarrow> mag_z s;
     cu \<leftarrow> cur s;
     x_vel_cen \<leftarrow> those (map (\<lambda>(t, p, v). nth_opt vc v) (where3 sel));
     x_vel_wid \<leftarrow> those (map (\<lambda>(t, p, v). nth_opt vw v) (where3 sel));
     x_alt \<leftarrow> those (map (\<lambda>(t, p, v). nth_opt al t) (where3 sel));
     x_azm \<leftarrow> those (map (\<lambda>(t, p, v). elem2 (Some az) t p) (where3 sel));
     x_mag_x \<leftarrow> those (map (\<lambda>(t, p, v). nth_opt mx v) (where3 sel));
     x_mag_y \<leftarrow> those (map (\<lambda>(t, p, v). nth_opt my v) (where3 sel));
     x_mag_z \<leftarrow> those (map (\<lambda>(t, p, v). nth_opt mz v) (where3 sel));
     y \<leftarrow> those (map (\<lambda>(t, p, v). do { r \<leftarrow> row3 (Some cu) t p; nth_opt r v }) (where3 sel));
     Some ([x_vel_cen, x_vel_wid, x_alt, x_azm, x_mag_x, x_mag_y, x_mag_z], y)
   }"

text \<open>
  \<open>anls_nln\<close>. The results are reset first. Without a spectrum, field data, a usable
  guess or enough selected data the function reports that it did not run. Otherwise it
  saves the selection, builds the data arrays and attempts the fit inside a \<open>try\<close>; the
  \<open>except\<close> branch reports the failure and resets the results again. After a successful
  fit the modelled currents and the result object are stored and the result is appended
  to the log \<open>self.series\<close>.
\<close>

definition anls_nln :: "kernels \<Rightarrow> core \<Rightarrow> core option" where
  "anls_nln K s0 =
     (let s = rset_var (no_var\<lparr> var_nln_res := True \<rparr>) s0;
          pop = nln_gss_pop s;
          gss = nln_gss_prm s
      in if n_vel s = 0 \<or> n_mfi s = 0 \<or> length pop = 0 \<or> 0 \<notin> set pop \<or>
            length gss = 0 \<or> nln_n_sel s < nln_min_sel s
         then Some (emit Janus_chng_nln_res (emit (Janus_mesg ''core'' ''norun'' ''nln'') s))
         else do {
           let s = emit (Janus_mesg ''core'' ''begin'' ''nln'') s;
           sel \<leftarrow> nln_sel s;
           let s = s\<lparr> nln_res_sel := Some sel \<rparr>;
           (x, y) \<leftarrow> nln_fit_data s sel;
           case k_curve_fit K s x y gss of
             None \<Rightarrow>
               Some (emit Janus_chng_nln_res
                      (rset_var (no_var\<lparr> var_nln_res := True \<rparr>)
                        (emit (Janus_mesg ''core'' ''fail'' ''nln'') s)))
           | Some (fit, cov, sigma) \<Rightarrow> do {
               cur_ion \<leftarrow> k_calc_nln_cur K s pop (map Some fit);
               let s = s\<lparr> nln_res_cur_ion := Some cur_ion,
                          nln_res_cur_tot := Some (map (map (map sum_list)) cur_ion) \<rparr>;
               pl \<leftarrow> k_nln_res_plas K s fit cov sigma;
               let s = s\<lparr> nln_res_plas := pl \<rparr>;
               let s = s\<lparr> series := series s @ [nln_res_plas s] \<rparr>;
               Some (emit Janus_chng_nln_res (emit (Janus_mesg ''core'' ''end'' ''nln'') s))
             }
         })"

subsection \<open>The data selection for the non-linear analysis (lines 2669-2842)\<close>

text \<open>\<open>prop_nln_sel( pnt )\<close>. Both callers have assigned \<open>self.nln_sel\<close> before.\<close>

definition prop_nln_sel :: "kernels \<Rightarrow> (int \<times> int \<times> int) option \<Rightarrow> core \<Rightarrow> core option" where
  "prop_nln_sel K pnt s0 =
     (let s = s0\<lparr> nln_n_sel := (case nln_sel s0 of None \<Rightarrow> 0 | Some m \<Rightarrow> count_true3 m) \<rparr>;
          s = (case pnt of
                 None \<Rightarrow> emit Janus_chng_nln_sel_all s
               | Some (t, p, v) \<Rightarrow> emit (Janus_chng_nln_sel_cur t p v) s)
      in if dyn_nln s then anls_nln K s else Some (chng_dsp ''gsl'' s))"

text \<open>\<open>calc_dir_look( alt, azm )\<close> for scalar arguments (lines 1103-1123), and the dot
  product of two vectors.\<close>

definition deg2rad :: "real \<Rightarrow> real" where
  "deg2rad d = d * pi / 180"

definition calc_dir_look :: "real \<Rightarrow> real \<Rightarrow> real list" where
  "calc_dir_look al az =
     (let the = - al + 90; phi = - az
      in [ sin (deg2rad the) * cos (deg2rad phi),
           sin (deg2rad the) * sin (deg2rad phi),
           cos (deg2rad the) ])"

definition np_dot :: "real list \<Rightarrow> real list \<Rightarrow> real" where
  "np_dot a b = sum_list (map2 (\<lambda>x y. x * y) a b)"

text \<open>
  The effective thermal speed of a population along the look direction \<open>dlk\<close>, as
  \<open>auto_nln_sel\<close> computes it (lines 2751-2759):
  \<^verbatim>\<open>
  if ( self.nln_pyon.arr_pop[i]['aniso'] ) :
      ang = abs( dot( dlk, self.mfi_avg_nrm ))
      w = sqrt( ( self.nln_pyon.arr_pop[i]['w_per'] * sin(ang) )**2 +
                ( self.nln_pyon.arr_pop[i]['w_par'] * cos(ang) )**2   )
  else :
      w = self.nln_pyon.arr_pop[i]['w']
  \<close>
  Arithmetic on a value that is \<open>None\<close> raises.
\<close>

definition auto_nln_sel_w :: "real list option \<Rightarrow> real list \<Rightarrow> pop \<Rightarrow> real option" where
  "auto_nln_sel_w avg_nrm dlk pp =
     (if pop_aniso pp then do {
        nrm \<leftarrow> avg_nrm;
        let ang = \<bar>np_dot dlk nrm\<bar>;
        w_per \<leftarrow> pop_w_per pp;
        w_par \<leftarrow> pop_w_par pp;
        Some (sqrt ((w_per * sin ang)\<^sup>2 + (w_par * cos ang)\<^sup>2))
      }
      else pop_w pp)"

text \<open>
  The effective thermal speed along the look direction in the forward model
  \<open>calc_cur_bmx\<close> (lines 1217-1241), for one look direction and one field vector:
  \<^verbatim>\<open>
  dlk = self.calc_dir_look( dir_alt, dir_azm )
  mag = array( [ mag_x, mag_y, mag_z ] )
  dmg = self.calc_arr_nrm( mag )
  dmg_dlk = self.calc_arr_dot( dmg, dlk )
  prm_w = sqrt( ( ( 1. - dmg_dlk**2 ) * prm_w_per**2 ) +
                (        dmg_dlk**2   * prm_w_par**2 )   )
  \<close>
  with \<open>calc_arr_nrm( a ) = a / sqrt( sum( a**2 ) )\<close> and \<open>calc_arr_dot( a, b ) = dot( a, b )\<close>
  for vectors (lines 1048-1050, 1073-1075).
\<close>

definition calc_arr_nrm :: "real list \<Rightarrow> real list" where
  "calc_arr_nrm a = map (\<lambda>x. x / sqrt (sum_list (map (\<lambda>y. y\<^sup>2) a))) a"

definition calc_arr_dot :: "real list \<Rightarrow> real list \<Rightarrow> real" where
  "calc_arr_dot a b = np_dot a b"

definition calc_cur_bmx_w :: "real \<Rightarrow> real \<Rightarrow> real list \<Rightarrow> real \<Rightarrow> real \<Rightarrow> real" where
  "calc_cur_bmx_w dir_alt dir_azm mag prm_w_per prm_w_par =
     (let dlk = calc_dir_look dir_alt dir_azm;
          dmg = calc_arr_nrm mag;
          dmg_dlk = calc_arr_dot dmg dlk
      in sqrt (((1 - dmg_dlk\<^sup>2) * prm_w_per\<^sup>2) + (dmg_dlk\<^sup>2 * prm_w_par\<^sup>2)))"

text \<open>The range \<open>(v_min, v_max)\<close> of inflow speeds of population \<open>i\<close> along \<open>dlk\<close>
  (lines 2734-2771). The vectors have three components.\<close>

definition auto_nln_sel_rng :: "core \<Rightarrow> real list \<Rightarrow> nat \<Rightarrow> (real \<times> real) option" where
  "auto_nln_sel_rng s dlk i = do {
     pp \<leftarrow> nth_opt (arr_pop (nln_pyon s)) i;
     vel0 \<leftarrow> those (vec_v0 (nln_pyon s));
     vel \<leftarrow> (if pop_drift pp
             then do { nrm \<leftarrow> mfi_avg_nrm s; dv \<leftarrow> pop_dv pp;
                       Some (map2 (\<lambda>a b. a + b * dv) vel0 nrm) }
             else Some vel0);
     vel_x \<leftarrow> nth_opt vel 0;
     vel_y \<leftarrow> nth_opt vel 1;
     vel_z \<leftarrow> nth_opt vel 2;
     let v = sqrt (vel_x\<^sup>2 + vel_y\<^sup>2 + vel_z\<^sup>2);
     let v_proj = - np_dot vel dlk;
     w \<leftarrow> auto_nln_sel_w (mfi_avg_nrm s) dlk pp;
     a \<leftarrow> Option.bind (nth_opt (nln_set_sel_a s) i) id;
     b \<leftarrow> Option.bind (nth_opt (nln_set_sel_b s) i) id;
     m \<leftarrow> pop_m pp;
     q \<leftarrow> pop_q pp;
     Some ((v_proj + (a * w * v_proj / v)) * sqrt (m / q),
           (v_proj + (b * w * v_proj / v)) * sqrt (m / q))
   }"

text \<open>The loop over the populations for one look direction: every valid bin whose
  velocity lies in the range is selected (lines 2777-2782).\<close>

fun auto_nln_sel_pops ::
  "core \<Rightarrow> real list \<Rightarrow> bool list \<Rightarrow> real list \<Rightarrow> nat list \<Rightarrow> bool list \<Rightarrow> bool list option" where
  "auto_nln_sel_pops s dlk vld vc [] row = Some row"
| "auto_nln_sel_pops s dlk vld vc (i # pop) row = do {
     (v_min, v_max) \<leftarrow> auto_nln_sel_rng s dlk i;
     if length vld = length vc \<and> length vc = length row
     then auto_nln_sel_pops s dlk vld vc pop
            (map (\<lambda>v. row ! v \<or> (vld ! v \<and> vc ! v \<ge> v_min \<and> vc ! v \<le> v_max))
               [0..<length row])
     else None
   }"

text \<open>The loop over the look directions selected for the moments analysis.\<close>

fun auto_nln_sel_dirs ::
  "core \<Rightarrow> nat list \<Rightarrow> (nat \<times> nat) list \<Rightarrow> bool list list list \<Rightarrow> bool list list list option" where
  "auto_nln_sel_dirs s pop [] sel = Some sel"
| "auto_nln_sel_dirs s pop ((t, p) # tk) sel = do {
     als \<leftarrow> alt s;
     al \<leftarrow> nth_opt als t;
     az \<leftarrow> elem2 (azm s) t p;
     vld \<leftarrow> row3 (cur_vld s) t p;
     vc \<leftarrow> vel_cen s;
     row \<leftarrow> row3 (Some sel) t p;
     row' \<leftarrow> auto_nln_sel_pops s (calc_dir_look al az) vld vc pop row;
     auto_nln_sel_dirs s pop tk (sel[t := (sel ! t)[p := row']])
   }"

text \<open>
  \<open>auto_nln_sel\<close>. When no population can be used or there are no field data, the
  function calls \<open>self.vldt_nln_sel( )\<close>, a method the class does not define: the call
  raises AttributeError.
\<close>

definition auto_nln_sel :: "kernels \<Rightarrow> core \<Rightarrow> core option" where
  "auto_nln_sel K s0 =
     (let s = chng_dyn ''sel'' True s0;
          s = rset_var (no_var\<lparr> var_nln_sel := True \<rparr>) s;
          s = s\<lparr> nln_sel := Some (tile3 False (n_alt s) (n_azm s) (n_vel s)) \<rparr>
      in if length (nln_gss_vld s) \<noteq> length (nln_set_sel_vld s) then None
         else
           (let pop = filter (\<lambda>i. nln_gss_vld s ! i \<and> nln_set_sel_vld s ! i)
                        [0..<length (nln_gss_vld s)]
            in if length pop = 0 \<or> n_mfi s = 0 then None
               else do {
                 sel_azm \<leftarrow> mom_sel_azm s;
                 sel \<leftarrow> auto_nln_sel_dirs s pop (where2 sel_azm)
                          (tile3 False (n_alt s) (n_azm s) (n_vel s));
                 prop_nln_sel K None (s\<lparr> nln_sel := Some sel \<rparr>)
               }))"

text \<open>\<open>arr[t,p,v] = not arr[t,p,v]\<close> for integer indices.\<close>

definition toggle3 :: "bool list list list \<Rightarrow> int \<Rightarrow> int \<Rightarrow> int \<Rightarrow> bool list list list option" where
  "toggle3 m t p v = do {
     ti \<leftarrow> py_index (length m) t;
     pi \<leftarrow> py_index (length (m ! ti)) p;
     vi \<leftarrow> py_index (length (m ! ti ! pi)) v;
     Some (m[ti := (m ! ti)[pi := (m ! ti ! pi)[vi := \<not> m ! ti ! pi ! vi]]])
   }"

definition chng_nln_sel :: "kernels \<Rightarrow> int \<Rightarrow> int \<Rightarrow> int \<Rightarrow> core \<Rightarrow> core option" where
  "chng_nln_sel K t p v s0 =
     (let s = chng_dyn ''sel'' False s0;
          s = (if nln_sel s = None
               then s\<lparr> nln_sel := Some (tile3 False (n_alt s) (n_azm s) (n_vel s)) \<rparr>
               else s)
      in do {
        sel \<leftarrow> nln_sel s;
        sel' \<leftarrow> toggle3 sel t p v;
        prop_nln_sel K (Some (t, p, v)) (s\<lparr> nln_sel := Some sel' \<rparr>)
      })"

subsection \<open>The initial guess for the non-linear analysis (lines 2343-2663)\<close>

definition prop_nln_gss :: "kernels \<Rightarrow> core \<Rightarrow> core option" where
  "prop_nln_gss K s0 =
     (let s = emit Janus_chng_nln_gss s0
      in if dyn_sel s then auto_nln_sel K s
         else if dyn_nln s then anls_nln K s
         else Some (chng_dsp ''gsl'' s))"

text \<open>The entries of the guess vector for one population (lines 2594-2603).\<close>

definition pop_prm :: "pop \<Rightarrow> real option list" where
  "pop_prm pp =
     [pop_n pp] @ (if pop_drift pp then [pop_dv pp] else [])
       @ (if pop_aniso pp then [pop_w_per pp, pop_w_par pp] else [pop_w pp])"

text \<open>
  \<open>make_nln_gss\<close>. The loop over \<open>range( self.nln_n_pop )\<close> assigns
  \<open>self.nln_gss_vld[i]\<close>; \<open>and\<close> reaches \<open>arr_pop[i]\<close> only for a population that is
  in use and valid.
\<close>

definition make_nln_gss :: "kernels \<Rightarrow> core \<Rightarrow> core option" where
  "make_nln_gss K s0 = do {
     gv \<leftarrow> those (map (\<lambda>i. do {
             u \<leftarrow> nth_opt (nln_pop_use s0) i;
             vl \<leftarrow> nth_opt (nln_pop_vld s0) i;
             if u \<and> vl
             then map_option (k_pop_valid K) (nth_opt (arr_pop (nln_pyon s0)) i)
             else Some False
           }) [0..<nln_n_pop s0]);
     if length (nln_gss_vld s0) < nln_n_pop s0 then None
     else do {
       let vld = gv @ drop (nln_n_pop s0) (nln_gss_vld s0);
       let pop = filter (\<lambda>i. vld ! i) [0..<length vld];
       let s = s0\<lparr> nln_gss_vld := vld, nln_gss_pop := pop, nln_gss_prm := [],
                   nln_gss_cur_ion := None, nln_gss_cur_tot := None \<rparr>;
       if length pop = 0 \<or> 0 \<notin> set pop \<or> None \<in> set (vec_v0 (nln_pyon s)) \<or> n_mfi s = 0
       then Some (emit Janus_chng_nln_gss s)
       else do {
         pps \<leftarrow> those (map (nth_opt (arr_pop (nln_pyon s))) pop);
         let s = s\<lparr> nln_gss_prm := vec_v0 (nln_pyon s) @ concat (map pop_prm pps) \<rparr>;
         cur_ion \<leftarrow> k_calc_nln_cur K s pop (nln_gss_prm s);
         let s = s\<lparr> nln_gss_cur_ion := Some cur_ion,
                    nln_gss_cur_tot := Some (map (map (map sum_list)) cur_ion) \<rparr>;
         prop_nln_gss K s
       }
     }
   }"

definition auto_nln_gss :: "kernels \<Rightarrow> core \<Rightarrow> core option" where
  "auto_nln_gss K s0 =
     (let s = chng_dyn ''gss'' True s0;
          s = rset_var (no_var\<lparr> var_nln_gss := True \<rparr>) s
      in if mom_n (mom s) = None then make_nln_gss K s
         else make_nln_gss K (s\<lparr> nln_pyon := k_auto_nln_gss K s \<rparr>))"

text \<open>
  \<open>chng_nln_gss( i, param, val )\<close>: the manual change of one value of the guess (lines
  2452-2537). The dynamic generation of the guess is switched off first, also when the
  index is then found out of range. Modelled from the spec: the item assignments of
  \<open>janus_pyon\<close> (\<open>self.nln_pyon['v0_x'] = val\<close>, \<open>arr_pop[i]['n'] = val\<close>) store the
  value, or \<open>None\<close> when they do not accept it; \<open>val\<close> is here the value stored.
\<close>

definition pop_set :: "string \<Rightarrow> real option \<Rightarrow> pop \<Rightarrow> pop" where
  "pop_set param val pp =
     (if param = ''n'' then pp\<lparr> pop_n := val \<rparr>
      else if param = ''dv'' then pp\<lparr> pop_dv := val \<rparr>
      else if param = ''w'' then pp\<lparr> pop_w := val \<rparr>
      else if param = ''w_per'' then pp\<lparr> pop_w_per := val \<rparr>
      else if param = ''w_par'' then pp\<lparr> pop_w_par := val \<rparr>
      else pp)"

definition chng_nln_gss_store :: "int \<Rightarrow> string \<Rightarrow> real option \<Rightarrow> plas \<Rightarrow> plas option" where
  "chng_nln_gss_store i param val pl =
     (if param = ''v_x'' then Some (pl\<lparr> vec_v0 := (vec_v0 pl)[0 := val] \<rparr>)
      else if param = ''v_y'' then Some (pl\<lparr> vec_v0 := (vec_v0 pl)[1 := val] \<rparr>)
      else if param = ''v_z'' then Some (pl\<lparr> vec_v0 := (vec_v0 pl)[2 := val] \<rparr>)
      else if param \<in> set [''n'', ''dv'', ''w'', ''w_per'', ''w_par''] then
        map_option (\<lambda>j. pl\<lparr> arr_pop := (arr_pop pl)[j := pop_set param val (arr_pop pl ! j)] \<rparr>)
          (py_index (length (arr_pop pl)) i)
      else Some pl)"

definition chng_nln_gss :: "kernels \<Rightarrow> int \<Rightarrow> string \<Rightarrow> real option \<Rightarrow> core \<Rightarrow> core option" where
  "chng_nln_gss K i param val s0 =
     (let s = chng_dyn ''gss'' False s0
      in if param \<noteq> ''v_x'' \<and> param \<noteq> ''v_y'' \<and> param \<noteq> ''v_z'' \<and>
            (i < 0 \<or> int (nln_n_pop s) \<le> i)
         then Some s
         else do {
           pl \<leftarrow> chng_nln_gss_store i param val (nln_pyon s);
           make_nln_gss K (s\<lparr> nln_pyon := pl \<rparr>)
         })"

subsection \<open>The settings and the ion populations (lines 2198-2337)\<close>

text \<open>
  \<open>prop_nln_set( chng )\<close>: after a change of a setting, the guess (\<open>'gss'\<close>) or the
  selection (\<open>'sel'\<close>) is regenerated by \<open>auto_nln_gss\<close> or \<open>auto_nln_sel\<close>.
\<close>

definition prop_nln_set :: "kernels \<Rightarrow> string \<Rightarrow> core \<Rightarrow> core option" where
  "prop_nln_set K chng s0 =
     (let s = emit Janus_chng_nln_set s0
      in if chng = ''gss'' then do {
           s \<leftarrow> auto_nln_gss K s;
           Some (if \<not> dyn_nln s then chng_dsp ''gsl'' s else s)
         }
         else if chng = ''sel'' then do {
           s \<leftarrow> auto_nln_sel K s;
           Some (if \<not> dyn_nln s then chng_dsp ''gsl'' s else s)
         }
         else Some s)"

text \<open>
  The argument \<open>val\<close> of \<open>chng_nln_set\<close> as the function reads it: \<open>float( val )\<close>,
  \<open>float( val[0] )\<close> and \<open>float( val[1] )\<close>, each \<open>None\<close> when the conversion raises.
\<close>

record set_val =
  val_float :: "real option"
  val_first :: "real option"
  val_second :: "real option"

text \<open>The assignment of the setting (lines 2238-2281). A density or a thermal speed
  that is not positive is stored as \<open>None\<close>, and so are both bounds of a selection
  window when the lower is not below the upper.\<close>

definition set_pos :: "real option \<Rightarrow> real option" where
  "set_pos x = (case x of None \<Rightarrow> None | Some r \<Rightarrow> if r \<le> 0 then None else Some r)"

definition chng_nln_set_store :: "nat \<Rightarrow> string \<Rightarrow> set_val \<Rightarrow> core \<Rightarrow> core option" where
  "chng_nln_set_store i param val s =
     (if param = ''gss_n'' then
        (if i < length (nln_set_gss_n s)
         then Some (s\<lparr> nln_set_gss_n := (nln_set_gss_n s)[i := set_pos (val_float val)] \<rparr>)
         else None)
      else if param = ''gss_d'' then
        (if i < length (nln_set_gss_d s)
         then Some (s\<lparr> nln_set_gss_d := (nln_set_gss_d s)[i := val_float val] \<rparr>)
         else None)
      else if param = ''gss_w'' then
        (if i < length (nln_set_gss_w s)
         then Some (s\<lparr> nln_set_gss_w := (nln_set_gss_w s)[i := set_pos (val_float val)] \<rparr>)
         else None)
      else
        (if i < length (nln_set_sel_a s) \<and> i < length (nln_set_sel_b s)
         then (let bad = (case (val_first val, val_second val) of
                            (Some a, Some b) \<Rightarrow> a \<ge> b
                          | _ \<Rightarrow> False)
               in Some (s\<lparr> nln_set_sel_a :=
                             (nln_set_sel_a s)[i := if bad then None else val_first val],
                           nln_set_sel_b :=
                             (nln_set_sel_b s)[i := if bad then None else val_second val] \<rparr>))
         else None))"

text \<open>The validation of the settings of population \<open>i\<close> (lines 2285-2300).\<close>

definition chng_nln_set_vldt :: "nat \<Rightarrow> core \<Rightarrow> core option" where
  "chng_nln_set_vldt i s = do {
     n \<leftarrow> nth_opt (nln_set_gss_n s) i;
     w \<leftarrow> nth_opt (nln_set_gss_w s) i;
     gv \<leftarrow> (if n = None \<or> w = None then Some False
            else do {
              pp \<leftarrow> nth_opt (arr_pop (nln_pyon s)) i;
              if pop_drift pp then map_option (\<lambda>d. d \<noteq> None) (nth_opt (nln_set_gss_d s) i)
              else Some True
            });
     a \<leftarrow> nth_opt (nln_set_sel_a s) i;
     b \<leftarrow> nth_opt (nln_set_sel_b s) i;
     if i < length (nln_set_gss_vld s) \<and> i < length (nln_set_sel_vld s)
     then Some (s\<lparr> nln_set_gss_vld := (nln_set_gss_vld s)[i := gv],
                   nln_set_sel_vld := (nln_set_sel_vld s)[i := (a \<noteq> None \<and> b \<noteq> None)] \<rparr>)
     else None
   }"

text \<open>
  \<open>chng_nln_set( i, param, val )\<close>: the manual change of a setting of population \<open>i\<close>.
  An index out of range and an unknown parameter return at once. The propagation gets
  \<open>param[0:3]\<close>.
\<close>

definition chng_nln_set :: "kernels \<Rightarrow> int \<Rightarrow> string \<Rightarrow> set_val \<Rightarrow> core \<Rightarrow> core option" where
  "chng_nln_set K i param val s0 =
     (if i < 0 \<or> int (nln_n_pop s0) \<le> i then Some s0
      else if param \<notin> set [''gss_n'', ''gss_d'', ''gss_w'', ''sel''] then Some s0
      else do {
        s \<leftarrow> chng_nln_set_store (nat i) param val s0;
        s \<leftarrow> chng_nln_set_vldt (nat i) s;
        prop_nln_set K (take 3 param) s
      })"

text \<open>
  \<open>prop_nln_ion\<close> (lines 2198-2219), with which the changes of an ion species
  (\<open>chng_nln_spc\<close>) and of an ion population (\<open>chng_nln_pop\<close>) end: the validity of each
  population is recorded, and the guess is regenerated.
\<close>

definition prop_nln_ion :: "kernels \<Rightarrow> core \<Rightarrow> core option" where
  "prop_nln_ion K s0 = do {
     pv \<leftarrow> those (map (\<lambda>p. map_option (k_pop_valid_ion K) (nth_opt (arr_pop (nln_pyon s0)) p))
             [0..<nln_n_pop s0]);
     if length (nln_pop_vld s0) < nln_n_pop s0 then None
     else do {
       let s = emit Janus_chng_nln_ion
                 (s0\<lparr> nln_pop_vld := pv @ drop (nln_n_pop s0) (nln_pop_vld s0) \<rparr>);
       if dyn_gss s then auto_nln_gss K s else make_nln_gss K s
     }
   }"

subsection \<open>The automatic selection of look directions (auto\_mom\_sel\_azm, lines 1406-1481)\<close>

text \<open>The largest valid current of a look direction, \<open>0.\<close> when none is valid
  (lines 1445-1450).\<close>

definition max_valid_cur :: "bool list \<Rightarrow> real list \<Rightarrow> real option" where
  "max_valid_cur vld row = do {
     vals \<leftarrow> those (map (nth_opt row) (filter (\<lambda>v. vld ! v) [0..<length vld]));
     Some (case vals of [] \<Rightarrow> 0 | c # cs \<Rightarrow> fold max cs c)
   }"

text \<open>\<open>where( xs == amax( xs ) )[0][0]\<close>; \<open>amax\<close> of an empty array raises.\<close>

definition first_max_index :: "real list \<Rightarrow> nat option" where
  "first_max_index xs =
     (case xs of
        [] \<Rightarrow> None
      | x # r \<Rightarrow> Some (length (takeWhile (\<lambda>y. y \<noteq> fold max r x) xs)))"

definition auto_mom_sel_azm :: "core \<Rightarrow> core option" where
  "auto_mom_sel_azm s = do {
     max_cur \<leftarrow> those (map (\<lambda>t. those (map (\<lambda>p. do {
                    vld \<leftarrow> row3 (cur_vld s) t p;
                    row \<leftarrow> row3 (cur s) t p;
                    max_valid_cur vld row
                  }) [0..<n_azm s])) [0..<n_alt s]);
     let mm_cur = map (\<lambda>mc. map (\<lambda>p.
                    sum_list (map (\<lambda>w. mc ! ((p + w) mod n_azm s)) [0..<nat (mom_win_azm s)]))
                    [0..<n_azm s]) max_cur;
     sel \<leftarrow> those (map (\<lambda>mm. do {
                p0 \<leftarrow> first_max_index mm;
                Some (map (\<lambda>p. p \<in> set (map (\<lambda>q. q mod n_azm s)
                                            [p0..<p0 + nat (mom_win_azm s)]))
                        [0..<n_azm s])
              }) mm_cur);
     Some (s\<lparr> mom_sel_azm := Some sel, mom_n_sel_azm := count_true2 sel \<rparr>)
   }"

subsection \<open>The automatic selection of data (auto\_mom\_sel\_cur, lines 1488-1566)\<close>

text \<open>
  The total valid current of the span of \<open>mom_win_cur\<close> bins that starts at \<open>v\<close>
  (lines 1543-1551):
  \<^verbatim>\<open>
  tk = where( ( v_rng >= v ) & ( v_rng < ( v + self.mom_win_cur ) ) &
              ( self.cur_vld[t,p,:] ) )
  if ( len( tk ) > 0 ) : cur_v = sum( self.cur[t,p,tk] )
  else : cur_v = 0.
  \<close>
  The mask \<open>cur_vld[t,p,:]\<close> is combined with \<open>v_rng = arange( n_vel )\<close>; arrays of
  different lengths raise.
\<close>

definition auto_mom_sel_cur_sum :: "core \<Rightarrow> nat \<Rightarrow> nat \<Rightarrow> nat \<Rightarrow> real option" where
  "auto_mom_sel_cur_sum s t p v = do {
     vld \<leftarrow> row3 (cur_vld s) t p;
     row \<leftarrow> row3 (cur s) t p;
     if length vld \<noteq> n_vel s then None
     else do {
       vals \<leftarrow> those (map (nth_opt row)
                 (filter (\<lambda>j. j \<ge> v \<and> int j < int v + mom_win_cur s \<and> vld ! j)
                    [0..<n_vel s]));
       Some (sum_list vals)
     }
   }"

text \<open>
  The search for the best span (lines 1538-1555), over the totals of the spans that
  start at \<open>v\<close>, \<open>v+1\<close>, ...:
  \<^verbatim>\<open>
  v_0   = 0
  cur_0 = 0.
  for v in range( self.n_vel - self.mom_win_cur) :
      ...
      if ( cur_v > cur_0 ) :
          v_0   = v
          cur_0 = cur_v
  \<close>
\<close>

fun win_scan :: "real list \<Rightarrow> nat \<Rightarrow> nat \<times> real \<Rightarrow> nat \<times> real" where
  "win_scan [] v acc = acc"
| "win_scan (cur_v # rest) v (v_0, cur_0) =
     win_scan rest (v + 1) (if cur_v > cur_0 then (v, cur_v) else (v_0, cur_0))"

text \<open>The selection made in one look direction: none when the direction is not
  selected, else the slice \<open>v_0:(v_0+self.mom_win_cur)\<close> of the best span.\<close>

definition auto_mom_sel_cur_dir :: "core \<Rightarrow> nat \<Rightarrow> nat \<Rightarrow> bool list option" where
  "auto_mom_sel_cur_dir s t p = do {
     used \<leftarrow> elem2 (mom_sel_azm s) t p;
     if \<not> used then Some (replicate (n_vel s) False)
     else do {
       totals \<leftarrow> those (map (auto_mom_sel_cur_sum s t p)
                 [0..<nat (int (n_vel s) - mom_win_cur s)]);
       let v_0 = fst (win_scan totals 0 (0, 0));
       Some (py_slice_set (replicate (n_vel s) False)
               (int v_0) (int v_0 + mom_win_cur s) True)
     }
   }"

definition auto_mom_sel_cur :: "core \<Rightarrow> core option" where
  "auto_mom_sel_cur s = do {
     sel \<leftarrow> those (map (\<lambda>t. those (map (auto_mom_sel_cur_dir s t) [0..<n_azm s]))
              [0..<n_alt s]);
     Some (s\<lparr> mom_sel_cur := Some sel, mom_n_sel_cur := Some (map (map count_true) sel) \<rparr>)
   }"

subsection \<open>Validating the selection (vldt\_mom\_sel, lines 1612-1679)\<close>

text \<open>
  The counts of selected data are recomputed; a look direction is selected when its
  count reaches \<open>mom_min_sel_cur\<close>; when fewer than \<open>mom_min_sel_azm\<close> directions are
  selected, all are deselected. A signal is emitted for each direction whose status
  differs from the old one. The comparison with the old selection needs an array of
  the same shape: \<open>( tk_t, tk_p ) = where( ... )\<close> raises otherwise.
\<close>

definition vldt_mom_sel :: "core \<Rightarrow> core option" where
  "vldt_mom_sel s = do {
     n_cur \<leftarrow> those (map (\<lambda>t. those (map (\<lambda>p.
                  map_option count_true (row3 (mom_sel_cur s) t p)) [0..<n_azm s]))
                [0..<n_alt s]);
     let sel0 = map (map (\<lambda>n. int n \<ge> mom_min_sel_cur s)) n_cur;
     let few = (int (count_true2 sel0) < mom_min_sel_azm s);
     let sel = (if few then tile2 False (n_alt s) (n_azm s) else sel0);
     let n = (if few then 0 else count_true2 sel0);
     old \<leftarrow> mom_sel_azm s;
     if \<not> (length old = n_alt s \<and> list_all (\<lambda>r. length r = n_azm s) old) then None
     else Some (fold (\<lambda>(t, p). emit (Janus_chng_mom_sel_azm t p))
                 (filter (\<lambda>(t, p). sel ! t ! p \<noteq> old ! t ! p)
                    (concat (map (\<lambda>t. map (\<lambda>p. (t, p)) [0..<n_azm s]) [0..<n_alt s])))
                 (s\<lparr> mom_n_sel_cur := Some n_cur, mom_sel_azm := Some sel,
                     mom_n_sel_azm := n \<rparr>))
   }"

subsection \<open>The automatic selection and the moments analysis (lines 1291-1399, 1686-2050)\<close>

text \<open>
  The first part of \<open>auto_mom_sel( win_azm, win_cur )\<close> (lines 1302-1362): the
  selection for the non-linear analysis is reset and the widths of the two windows are
  taken from the arguments and clipped; each assignment to an attribute is a binding
  here, and the attributes are stored at the end. A window argument is \<open>None\<close> or a value with
  its text \<open>str( win )\<close> and its integer \<open>int( win )\<close>, which is \<open>None\<close> when the
  conversion raises.
\<close>

definition auto_mom_sel_win ::
  "(string \<times> int option) option \<Rightarrow> (string \<times> int option) option \<Rightarrow> core \<Rightarrow> core" where
  "auto_mom_sel_win win_azm win_cur s0 =
     (let s = rset_var (no_var\<lparr> var_nln_sel := True \<rparr>) s0;
          azm_txt = (case win_azm of None \<Rightarrow> mom_win_azm_txt s | Some (txt, w) \<Rightarrow> txt);
          cur_txt = (case win_cur of None \<Rightarrow> mom_win_cur_txt s | Some (txt, w) \<Rightarrow> txt);
          azm_req = (case win_azm of None \<Rightarrow> mom_win_azm_req s | Some (txt, w) \<Rightarrow> w);
          cur_req = (case win_cur of None \<Rightarrow> mom_win_cur_req s | Some (txt, w) \<Rightarrow> w);
          w_azm = (case azm_req of None \<Rightarrow> mom_win_azm s | Some w \<Rightarrow> w);
          w_cur = (case cur_req of None \<Rightarrow> mom_win_cur s | Some w \<Rightarrow> w);
          w_azm = max w_azm (mom_min_sel_azm s);
          w_azm = min w_azm (int (n_azm s));
          w_cur = max w_cur (mom_min_sel_cur s);
          w_cur = min w_cur (int (n_vel s))
      in s\<lparr> mom_win_azm_txt := azm_txt, mom_win_cur_txt := cur_txt,
            mom_win_azm_req := azm_req, mom_win_cur_req := cur_req,
            mom_win_azm := w_azm, mom_win_cur := w_cur \<rparr>)"

text \<open>
  \<open>auto_mom_sel( win_azm, win_cur, no_anls_mom=True )\<close>: everything that
  \<open>auto_mom_sel\<close> does before the moments analysis.
\<close>

definition auto_mom_sel_no_anls ::
  "(string \<times> int option) option \<Rightarrow> (string \<times> int option) option \<Rightarrow> core \<Rightarrow> core option" where
  "auto_mom_sel_no_anls win_azm win_cur s0 = do {
     s \<leftarrow> auto_mom_sel_azm (auto_mom_sel_win win_azm win_cur s0);
     s \<leftarrow> auto_mom_sel_cur s;
     vldt_mom_sel (emit Janus_chng_mom_sel_all s)
   }"

text \<open>
  \<open>anls_mom\<close>. The results are reset; when the selection arrays are not populated the
  automatic selection runs first; then, without a spectrum or with too few selected
  directions, the function reports that it did not run and returns. Otherwise the
  moments are computed and stored, and the guess for the non-linear analysis is
  regenerated when \<open>dyn_gss\<close> is set.
\<close>

definition anls_mom :: "kernels \<Rightarrow> core \<Rightarrow> core option" where
  "anls_mom K s0 = do {
     let s = rset_var (no_var\<lparr> var_mom_res := True \<rparr>) s0;
     s \<leftarrow> (if mom_sel_azm s = None \<or> mom_sel_cur s = None
           then auto_mom_sel_no_anls None None s else Some s);
     if time_epc s = None \<or> n_vel s = 0 \<or> int (mom_n_sel_azm s) < mom_min_sel_azm s
     then Some (emit Janus_chng_mom_res (emit (Janus_mesg ''core'' ''norun'' ''mom'') s))
     else do {
       let s = emit (Janus_mesg ''core'' ''begin'' ''mom'') s;
       sel_azm \<leftarrow> mom_sel_azm s;
       r \<leftarrow> k_anls_mom K s;
       let s = s\<lparr> mom := r\<lparr> mom_n_eta := mom_n_sel_azm s,
                             mom_eta_ind_t := Some (map fst (where2 sel_azm)),
                             mom_eta_ind_p := Some (map snd (where2 sel_azm)),
                             mom_corr_pears := mom_corr_pears (mom s),
                             mom_corr_spear := mom_corr_spear (mom s) \<rparr> \<rparr>;
       let s = emit (Janus_mesg ''core'' ''end'' ''mom'') s;
       let s = emit Janus_chng_mom_res s;
       if dyn_gss s then auto_nln_gss K s else Some (chng_dsp ''mom'' s)
     }
   }"

definition auto_mom_sel ::
  "kernels \<Rightarrow> (string \<times> int option) option \<Rightarrow> (string \<times> int option) option \<Rightarrow> bool \<Rightarrow>
     core \<Rightarrow> core option" where
  "auto_mom_sel K win_azm win_cur no_anls_mom s0 = do {
     s \<leftarrow> auto_mom_sel_no_anls win_azm win_cur s0;
     if \<not> no_anls_mom then anls_mom K s else Some s
   }"

text \<open>\<open>chng_mom_sel( t, p, v )\<close>: the manual change of the selection of one datum.\<close>

definition chng_mom_sel :: "kernels \<Rightarrow> int \<Rightarrow> int \<Rightarrow> int \<Rightarrow> core \<Rightarrow> core option" where
  "chng_mom_sel K t p v s0 = do {
     sel \<leftarrow> mom_sel_cur s0;
     sel' \<leftarrow> toggle3 sel t p v;
     let s = emit (Janus_chng_mom_sel_cur t p v) (s0\<lparr> mom_sel_cur := Some sel' \<rparr>);
     s \<leftarrow> vldt_mom_sel s;
     let s = chng_dyn ''mom'' True s;
     anls_mom K s
   }"

subsection \<open>Storing a loaded spectrum (load\_spec, lines 671-802)\<close>

text \<open>
  The part of \<open>load_spec\<close> that follows the reading of a spectrum from the archive: the
  time stamp, the velocity arrays of the two cups truncated to \<open>n_vel\<close> windows, the
  currents, the counts and the validity mask. The conversion from voltages to
  velocities (lines 680-701) is done by the caller of this function. The first
  argument is the floating-point product.
\<close>

definition load_spec_store ::
  "(real \<Rightarrow> real \<Rightarrow> real) \<Rightarrow> real \<Rightarrow> real list \<Rightarrow> real list \<Rightarrow> cup \<Rightarrow> cup \<Rightarrow> core \<Rightarrow>
     core option" where
  "load_spec_store fmul epc cup1_azm cup2_azm cup1 cup2 s0 =
     (let n = load_spec_n_vel (c_vel cup1) (c_vel cup2);
          c1 = load_spec_trunc n cup1;
          c2 = load_spec_trunc n cup2;
          s = s0\<lparr> time_epc := Some epc,
                  alt := Some [15, - 15], azm := Some [cup1_azm, cup2_azm],
                  vel_cen := Some (c_vel c1), vel_wid := Some (d_vel c1),
                  cur := Some [cup_cur c1, cup_cur c2],
                  n_alt := 2, n_azm := 20, n_vel := n \<rparr>
      in do {
        vld \<leftarrow> load_spec_cur_vld fmul (cur_jmp s) (cur_min s) (n_alt s) (n_azm s) (n_vel s)
                 [cup_cur c1, cup_cur c2];
        Some (s\<lparr> cur_vld := Some vld \<rparr>)
      })"

subsection \<open>Shapes of arrays\<close>

definition shape2 :: "nat \<Rightarrow> nat \<Rightarrow> 'a list list \<Rightarrow> bool" where
  "shape2 n_t n_p a = (length a = n_t \<and> list_all (\<lambda>r. length r = n_p) a)"

definition shape3 :: "nat \<Rightarrow> nat \<Rightarrow> nat \<Rightarrow> 'a list list list \<Rightarrow> bool" where
  "shape3 n_t n_p n_v a = (length a = n_t \<and> list_all (shape2 n_p n_v) a)"

subsection \<open>The validity of a current as the specification words it\<close>

text \<open>
  A bin is invalid when its current is below the floor, when it is the first or the
  last bin and its current exceeds the jump factor times its single neighbour, or when
  it is an interior bin and its current exceeds the jump factor times both neighbours.
  Every other bin is valid. The products are floating-point products.
\<close>

definition spec_cur_vld_bin :: "(real \<Rightarrow> real \<Rightarrow> real) \<Rightarrow> real \<Rightarrow> real \<Rightarrow> real list \<Rightarrow> nat \<Rightarrow> bool" where
  "spec_cur_vld_bin fmul jmp cmin row v =
     (\<not> (row ! v < cmin
         \<or> (v = 0 \<and> row ! 0 > fmul jmp (row ! 1))
         \<or> (v = length row - 1 \<and> row ! v > fmul jmp (row ! (v - 1)))
         \<or> (0 < v \<and> v < length row - 1 \<and>
             row ! v > fmul jmp (row ! (v - 1)) \<and> row ! v > fmul jmp (row ! (v + 1)))))"

text \<open>The first index at which an element is not larger than its predecessor.\<close>

definition first_non_increasing :: "real list \<Rightarrow> nat option" where
  "first_non_increasing c = find (\<lambda>k. c ! k \<le> c ! (k - 1)) [1..<length c]"

subsection \<open>Example inputs\<close>

text \<open>The floating-point product of two numbers whose exact product is a floating-point
  number again is that product. This is so for every product formed on the example
  inputs below: the jump factor 100 times an integer below 1000 or times one half.\<close>

definition fmul_exact :: "real \<Rightarrow> real \<Rightarrow> real" where
  "fmul_exact x y = x * y"

text \<open>A cup with the given bin centres and widths whose twenty look directions all
  measured the same currents.\<close>

definition ex_cup :: "real list \<Rightarrow> real list \<Rightarrow> real list \<Rightarrow> cup" where
  "ex_cup cs ds row = \<lparr> c_vel = cs, d_vel = ds, cup_cur = replicate 20 row \<rparr>"

definition ex_azm :: "real list" where
  "ex_azm = map (\<lambda>i. 9 + 18 * real i) [0..<20]"

text \<open>A core that has just been initialised and on which the dynamic moments
  analysis and the dynamic generation of the guess have been switched off
  (\<open>chng_dyn( 'gss', False )\<close>, \<open>chng_dyn( 'mom', False )\<close>).\<close>

definition ex_init :: core where
  "ex_init = chng_dyn ''mom'' False (chng_dyn ''gss'' False init_var)"

text \<open>That core after a spectrum with four velocity windows and the currents 1, 1, 5
  and 5 pA in every look direction has been stored.\<close>

definition ex_spec :: core where
  "ex_spec =
     ex_init\<lparr> time_epc := Some 0, alt := Some [15, - 15], azm := Some [ex_azm, ex_azm],
              vel_cen := Some [300, 320, 340, 360], vel_wid := Some [20, 20, 20, 20],
              cur := Some (replicate 2 (replicate 20 [1, 1, 5, 5])),
              n_alt := 2, n_azm := 20, n_vel := 4,
              cur_vld := Some (replicate 2 (replicate 20 [True, True, True, True])) \<rparr>"

text \<open>The state after \<open>auto_mom_sel( win_cur='3', no_anls_mom=True )\<close> on that
  spectrum: the first seven directions of each cup and the first three bins of each
  of them are selected.\<close>

definition ex_sel :: core where
  "ex_sel =
     ex_spec\<lparr> mom_win_cur_req := Some 3, mom_win_cur_txt := ''3'', mom_win_cur := 3,
              mom_sel_azm := Some (replicate 2 (replicate 7 True @ replicate 13 False)),
              mom_n_sel_azm := 14,
              mom_sel_cur := Some (replicate 2 (replicate 7 [True, True, True, False]
                                      @ replicate 13 [False, False, False, False])),
              mom_n_sel_cur := Some (replicate 2 (replicate 7 3 @ replicate 13 0)),
              emitted := [Janus_chng_dyn, Janus_chng_dyn, Janus_chng_mom_sel_all] \<rparr>"

text \<open>The state in which \<open>chng_mom_sel( 0, 0, 0 )\<close> calls \<open>vldt_mom_sel\<close>: the first
  bin of the first direction has been deselected.\<close>

definition ex_toggled :: core where
  "ex_toggled =
     ex_sel\<lparr> mom_sel_cur := Some ([[False, True, True, False] # replicate 6 [True, True, True, False]
                                      @ replicate 13 [False, False, False, False],
                                    replicate 7 [True, True, True, False]
                                      @ replicate 13 [False, False, False, False]]),
             emitted := [Janus_chng_dyn, Janus_chng_dyn, Janus_chng_mom_sel_all,
                         Janus_chng_mom_sel_cur 0 0 0] \<rparr>"

text \<open>The state after that validation: the first direction is no longer selected.\<close>

definition ex_vldt :: core where
  "ex_vldt =
     ex_toggled\<lparr> mom_sel_azm := Some [False # replicate 6 True @ replicate 13 False,
                                       replicate 7 True @ replicate 13 False],
                 mom_n_sel_azm := 13,
                 mom_n_sel_cur := Some [2 # replicate 6 3 @ replicate 13 0,
                                        replicate 7 3 @ replicate 13 0],
                 emitted := [Janus_chng_dyn, Janus_chng_dyn, Janus_chng_mom_sel_all,
                             Janus_chng_mom_sel_cur 0 0 0, Janus_chng_mom_sel_azm 0 0] \<rparr>"

text \<open>The state after \<open>auto_mom_sel( no_anls_mom=True )\<close> on the example spectrum:
  the window of seven bins is clipped to the four bins there are.\<close>

definition ex_auto :: core where
  "ex_auto =
     ex_spec\<lparr> mom_win_cur := 4,
              mom_sel_azm := Some (replicate 2 (replicate 7 True @ replicate 13 False)),
              mom_n_sel_azm := 14,
              mom_sel_cur := Some (replicate 2 (replicate 7 [True, True, True, True]
                                      @ replicate 13 [False, False, False, False])),
              mom_n_sel_cur := Some (replicate 2 (replicate 7 4 @ replicate 13 0)),
              emitted := [Janus_chng_dyn, Janus_chng_dyn, Janus_chng_mom_sel_all] \<rparr>"

text \<open>The example spectrum with every current marked invalid, and the state after
  \<open>auto_mom_sel( win_cur='3', no_anls_mom=True )\<close> on it.\<close>

definition ex_dark :: core where
  "ex_dark = ex_spec\<lparr> cur_vld := Some (replicate 2 (replicate 20 [False, False, False, False])) \<rparr>"

definition ex_dark_sel :: core where
  "ex_dark_sel = ex_sel\<lparr> cur_vld := Some (replicate 2 (replicate 20 [False, False, False, False])) \<rparr>"

text \<open>An anisotropic population of protons with a perpendicular thermal speed of 1 km/s
  and a parallel one of 2 km/s.\<close>

definition ex_aniso :: pop where
  "ex_aniso = (pop_new False True (Some 1) (Some 1))\<lparr> pop_w_per := Some 1, pop_w_par := Some 2 \<rparr>"

text \<open>A state ready for the non-linear analysis: field data, a guess for the first
  population and a selection of all data of the example spectrum.\<close>

definition ex_fit :: core where
  "ex_fit =
     ex_auto\<lparr> n_mfi := 1, mfi_avg_nrm := Some [1, 0, 0],
              mag_x := Some [1, 1, 1, 1], mag_y := Some [0, 0, 0, 0],
              mag_z := Some [0, 0, 0, 0],
              nln_gss_pop := [0],
              nln_gss_prm := [Some (- 400), Some 0, Some 0, Some 5, Some 30, Some 30],
              nln_sel := Some (replicate 2 (replicate 20 [True, True, True, True])),
              nln_n_sel := 160 \<rparr>"

text \<open>A state in which the first population has a usable guess, no look direction is
  selected for the moments analysis and the dynamic selection is switched off; and a
  value for a setting: 2 as a number, -2 and 2 as the bounds of a window.\<close>

definition ex_manual :: core where
  "ex_manual =
     ex_fit\<lparr> mom_sel_azm := Some (replicate 2 (replicate 20 False)), mom_n_sel_azm := 0,
             nln_gss_vld := [True, False, False, False, False], dyn_sel := False \<rparr>"

definition ex_set_val :: set_val where
  "ex_set_val = \<lparr> val_float = Some 2, val_first = Some (- 2), val_second = Some 2 \<rparr>"

text \<open>Example routines: the moments computation returns fixed values, no population
  has a complete guess, and the model and the fit raise.\<close>

definition ex_kernels :: kernels where
  "ex_kernels =
     \<lparr> k_anls_mom = (\<lambda>s. Some (mom_res_empty\<lparr> mom_n := Some 5, mom_v := Some 400,
                                   mom_w := Some 30, mom_v_vec := Some [- 400, 0, 0] \<rparr>)),
       k_auto_nln_gss = (\<lambda>s. nln_pyon s),
       k_pop_valid = (\<lambda>pp. False),
       k_pop_valid_ion = (\<lambda>pp. True),
       k_calc_nln_cur = (\<lambda>s pop prm. None),
       k_curve_fit = (\<lambda>s x y gss. None),
       k_nln_res_plas = (\<lambda>s fit cov sigma. None) \<rparr>"

subsection \<open>Auxiliary definitions for the proofs\<close>

text \<open>The counts of selected data that \<open>vldt_mom_sel\<close> computes, the selection of
  directions it derives from them, and the signals it emits.\<close>

definition mom_n_cur :: "core \<Rightarrow> nat list list option" where
  "mom_n_cur s = those (map (\<lambda>t. those (map (\<lambda>p.
                  map_option count_true (row3 (mom_sel_cur s) t p)) [0..<n_azm s]))
                [0..<n_alt s])"

definition vldt_sel :: "core \<Rightarrow> nat list list \<Rightarrow> bool list list" where
  "vldt_sel s n_cur =
     (if int (count_true2 (map (map (\<lambda>n. int n \<ge> mom_min_sel_cur s)) n_cur)) < mom_min_sel_azm s
      then tile2 False (n_alt s) (n_azm s)
      else map (map (\<lambda>n. int n \<ge> mom_min_sel_cur s)) n_cur)"

definition vldt_n :: "core \<Rightarrow> nat list list \<Rightarrow> nat" where
  "vldt_n s n_cur =
     (if int (count_true2 (map (map (\<lambda>n. int n \<ge> mom_min_sel_cur s)) n_cur)) < mom_min_sel_azm s
      then 0 else count_true2 (map (map (\<lambda>n. int n \<ge> mom_min_sel_cur s)) n_cur))"

definition vldt_chng :: "core \<Rightarrow> bool list list \<Rightarrow> bool list list \<Rightarrow> signal list" where
  "vldt_chng s sel old =
     map (\<lambda>(t, p). Janus_chng_mom_sel_azm t p)
       (filter (\<lambda>(t, p). sel ! t ! p \<noteq> old ! t ! p)
          (concat (map (\<lambda>t. map (\<lambda>p. (t, p)) [0..<n_azm s]) [0..<n_alt s])))"

text \<open>The attributes that the analyses downstream of the moments selection leave
  alone.\<close>

definition mom_frame ::
  "core \<Rightarrow> bool list list option \<times> bool list list list option \<times> nat list list option \<times> nat \<times>
     int \<times> int \<times> nat \<times> nat \<times> bool" where
  "mom_frame s =
     (mom_sel_azm s, mom_sel_cur s, mom_n_sel_cur s, mom_n_sel_azm s,
      mom_min_sel_azm s, mom_min_sel_cur s, n_alt s, n_azm s, dyn_mom s)"

text \<open>The attributes that fix the span of data selected in a look direction.\<close>

definition win_frame :: "core \<Rightarrow> int \<times> nat \<times> bool list list list option" where
  "win_frame s = (mom_win_cur s, n_vel s, cur_vld s)"

text \<open>The state in which \<open>anls_mom\<close> decides whether to run: after the reset of the
  results and, when the selection arrays are not populated, the automatic selection
  (lines 1691-1700).\<close>

definition anls_mom_sel :: "core \<Rightarrow> core option" where
  "anls_mom_sel s =
     (if mom_sel_azm s = None \<or> mom_sel_cur s = None
      then auto_mom_sel_no_anls None None (rset_mom_res s)
      else Some (rset_mom_res s))"

text \<open>The dynamic flags.\<close>

definition dyn_frame :: "core \<Rightarrow> bool \<times> bool \<times> bool \<times> bool" where
  "dyn_frame s = (dyn_mom s, dyn_gss s, dyn_sel s, dyn_nln s)"

text \<open>
  The invariant of the selection for the moments analysis. The arrays \<open>mom_sel_azm\<close>
  and \<open>mom_n_sel_cur\<close> have the shape \<open>[n_alt, n_azm]\<close>; the entry of \<open>mom_n_sel_cur\<close>
  for a look direction is the number of bins of that direction that are selected in the
  mask \<open>mom_sel_cur\<close>; a direction is selected only if that count is at least
  \<open>mom_min_sel_cur\<close>; and when fewer than \<open>mom_min_sel_azm\<close> directions reach that
  count, no direction is selected and \<open>mom_n_sel_azm\<close> is 0.
\<close>

definition mom_sel_valid :: "core \<Rightarrow> bool" where
  "mom_sel_valid s =
     (case (mom_sel_azm s, mom_n_sel_cur s) of
        (Some sel, Some n_cur) \<Rightarrow>
          shape2 (n_alt s) (n_azm s) sel \<and> shape2 (n_alt s) (n_azm s) n_cur \<and>
          (\<forall>t<n_alt s. \<forall>p<n_azm s.
             map_option count_true (row3 (mom_sel_cur s) t p) = Some (n_cur ! t ! p)) \<and>
          (\<forall>t<n_alt s. \<forall>p<n_azm s. sel ! t ! p \<longrightarrow> mom_min_sel_cur s \<le> int (n_cur ! t ! p)) \<and>
          (int (count_true2 (map (map (\<lambda>n. mom_min_sel_cur s \<le> int n)) n_cur)) < mom_min_sel_azm s \<longrightarrow>
             (\<forall>t<n_alt s. \<forall>p<n_azm s. \<not> sel ! t ! p) \<and> mom_n_sel_azm s = 0)
      | _ \<Rightarrow> False)"

section \<open>Properties\<close>

subsection \<open>Auxiliary facts about the primitives\<close>

lemma those_map_Some:
  "(\<And>x. x \<in> set xs \<Longrightarrow> f x = Some (g x)) \<Longrightarrow> those (map f xs) = Some (map g xs)"
  by (induction xs) auto

lemma those_map_eq_Some:
  "those (map f xs) = Some ys \<longleftrightarrow> length ys = length xs \<and> (\<forall>i<length xs. f (xs ! i) = Some (ys ! i))"
proof (induction xs arbitrary: ys)
  case Nil
  then show ?case by auto
next
  case (Cons x xs)
  show ?case
  proof (cases "f x")
    case None
    then show ?thesis by auto
  next
    case (Some y)
    show ?thesis
    proof (cases ys)
      case Nil
      then show ?thesis using Some by (auto split: option.splits)
    next
      case (Cons y' ys')
      then show ?thesis using Some Cons.IH [of ys']
        by (auto simp: nth_Cons split: option.splits nat.splits)
    qed
  qed
qed

lemma py_nth_nat: "v < length xs \<Longrightarrow> py_nth xs (int v) = Some (xs ! v)"
  by (simp add: py_nth_def py_index_def)

lemma cur_vld_bin_first:
  assumes "length row = Suc (Suc k)"
  shows "cur_vld_bin fmul jmp cmin (Suc (Suc k)) row 0 = Some (spec_cur_vld_bin fmul jmp cmin row 0)"
proof -
  have n: "nat (1 + int k) = Suc k" by arith
  have a: "py_nth row 0 = Some (row ! 0)" "py_nth row 1 = Some (row ! 1)"
    "py_nth row (- 1) = Some (row ! (Suc k))"
    using assms by (simp_all add: py_nth_def py_index_def n)
  show ?thesis using assms
    by (auto simp: cur_vld_bin_def spec_cur_vld_bin_def a)
qed

lemma cur_vld_bin_last:
  assumes "length row = Suc (Suc k)"
  shows "cur_vld_bin fmul jmp cmin (Suc (Suc k)) row (Suc k) = Some (spec_cur_vld_bin fmul jmp cmin row (Suc k))"
proof -
  have n: "nat (1 + int k) = Suc k" by arith
  have a: "py_nth row (1 + int k) = Some (row ! Suc k)" "py_nth row (int k) = Some (row ! k)"
    using assms by (simp_all add: py_nth_def py_index_def n)
  show ?thesis using assms
    by (auto simp: cur_vld_bin_def spec_cur_vld_bin_def a)
qed

lemma cur_vld_bin_mid:
  assumes "Suc (Suc j) < length row"
  shows "cur_vld_bin fmul jmp cmin (length row) row (Suc j) = Some (spec_cur_vld_bin fmul jmp cmin row (Suc j))"
proof -
  have n: "nat (1 + int j) = Suc j" "nat (2 + int j) = Suc (Suc j)" by arith+
  have a: "py_nth row (1 + int j) = Some (row ! Suc j)" "py_nth row (int j) = Some (row ! j)"
     "py_nth row (2 + int j) = Some (row ! Suc (Suc j))"
    using assms n by (simp_all add: py_nth_def py_index_def)
  have ne: "2 + int j \<noteq> int (length row)" "Suc j \<noteq> length row - Suc 0" using assms by linarith+
  show ?thesis using assms ne
    by (auto simp: cur_vld_bin_def spec_cur_vld_bin_def a)
qed

lemma cur_vld_bin_spec:
  assumes "2 \<le> nv" "length row = nv" "v < nv"
  shows "cur_vld_bin fmul jmp cmin nv row v = Some (spec_cur_vld_bin fmul jmp cmin row v)"
proof -
  obtain k where k: "nv = Suc (Suc k)" using assms(1) by (metis add_2_eq_Suc le_Suc_ex)
  have "v = 0 \<or> v = Suc k \<or> (\<exists>j. v = Suc j \<and> Suc (Suc j) < nv)"
    using assms(3) k by (cases v) auto
  then consider "v = 0" | "v = Suc k" | j where "v = Suc j" "Suc (Suc j) < nv"
    by blast
  then show ?thesis
  proof cases
    case 1
    then show ?thesis using cur_vld_bin_first [of row k] assms k by simp
  next
    case 2
    then show ?thesis using cur_vld_bin_last [of row k] assms k by simp
  next
    case 3
    then show ?thesis using cur_vld_bin_mid [of j row] assms by simp
  qed
qed

text \<open>With the floating-point product, the first of the currents 3.0, 0.03 and 5.0 is
  not a jump: the product of 100 and the number that \<open>0.03\<close> denotes is rounded to 3.\<close>

lemma cur_vld_bin_rounded:
  assumes "fmul 100 (1080863910568919 / 2 ^ 55) = 3" and "fmul 100 5 = 500"
  shows "cur_vld_bin fmul 100 1 3 [3, 1080863910568919 / 2 ^ 55, 5] 0 = Some True"
  using assms by (simp add: cur_vld_bin_def py_nth_def py_index_def)

lemma row3_Some: "t < length a \<Longrightarrow> p < length (a ! t) \<Longrightarrow> row3 (Some a) t p = Some (a ! t ! p)"
  by (simp add: row3_def nth_opt_def)

lemma shape3_nth: "shape3 n_t n_p n_v a \<Longrightarrow> t < n_t \<Longrightarrow> p < n_p \<Longrightarrow>
   length a = n_t \<and> length (a ! t) = n_p \<and> length (a ! t ! p) = n_v"
  by (auto simp: shape3_def shape2_def list_all_length)

lemma load_spec_cur_vld_spec:
  assumes "shape3 na np nv c3"
  shows "load_spec_cur_vld fmul jmp cmin na np nv c3 =
     Some (if nv < 2 then tile3 True na np nv
           else map (map (\<lambda>row. map (spec_cur_vld_bin fmul jmp cmin row) [0..<nv])) c3)"
proof (cases "nv < 2")
  case True
  then show ?thesis
    by (simp add: load_spec_cur_vld_def tile3_def those_map_eq_Some)
next
  case False
  have "those (map (\<lambda>t. those (map (\<lambda>p. do {
              row \<leftarrow> row3 (Some c3) t p;
              those (map (cur_vld_bin fmul jmp cmin nv row) [0..<nv])
            }) [0..<np])) [0..<na])
     = Some (map (\<lambda>t. map (\<lambda>p. map (spec_cur_vld_bin fmul jmp cmin (c3 ! t ! p)) [0..<nv]) [0..<np]) [0..<na])"
  proof (rule those_map_Some, rule those_map_Some)
    fix t p assume "t \<in> set [0..<na]" "p \<in> set [0..<np]"
    then have tp: "t < na" "p < np" by auto
    from shape3_nth [OF assms tp] have l: "length c3 = na" "length (c3 ! t) = np" "length (c3 ! t ! p) = nv" by auto
    have "those (map (cur_vld_bin fmul jmp cmin nv (c3 ! t ! p)) [0..<nv])
        = Some (map (spec_cur_vld_bin fmul jmp cmin (c3 ! t ! p)) [0..<nv])"
      using False l by (intro those_map_Some cur_vld_bin_spec) auto
    then show "do { row \<leftarrow> row3 (Some c3) t p;
              those (map (cur_vld_bin fmul jmp cmin nv row) [0..<nv]) }
       = Some (map (spec_cur_vld_bin fmul jmp cmin (c3 ! t ! p)) [0..<nv])"
      using tp l by (simp add: row3_Some)
  qed
  moreover have "map (\<lambda>t. map (\<lambda>p. map (spec_cur_vld_bin fmul jmp cmin (c3 ! t ! p)) [0..<nv]) [0..<np]) [0..<na]
    = map (map (\<lambda>row. map (spec_cur_vld_bin fmul jmp cmin row) [0..<nv])) c3"
    using assms by (auto simp: list_eq_iff_nth_eq shape3_def shape2_def list_all_length)
  ultimately show ?thesis using False by (simp add: load_spec_cur_vld_def)
qed


subsection \<open>The number of velocity windows\<close>

lemma n_vel_while_props:
  "n \<le> n_vel_while c1 c2 n \<and>
   (n \<le> min (length c1) (length c2) \<longrightarrow> n_vel_while c1 c2 n \<le> min (length c1) (length c2)) \<and>
   (\<forall>k. n \<le> k \<and> k < n_vel_while c1 c2 n \<longrightarrow> \<not> c1 ! k < c1 ! (k - 1) \<and> \<not> c2 ! k < c2 ! (k - 1)) \<and>
   (n_vel_while c1 c2 n < min (length c1) (length c2) \<longrightarrow>
      c1 ! n_vel_while c1 c2 n < c1 ! (n_vel_while c1 c2 n - 1) \<or>
      c2 ! n_vel_while c1 c2 n < c2 ! (n_vel_while c1 c2 n - 1))"
proof (induction c1 c2 n rule: n_vel_while.induct)
  case (1 c1 c2 n)
  show ?case
  proof (cases "n < length c1 \<and> n < length c2")
    case False
    then have "n_vel_while c1 c2 n = n" by (subst n_vel_while.simps) auto
    with False show ?thesis by auto
  next
    case inr: True
    show ?thesis
    proof (cases "c1 ! n < c1 ! (n - 1) \<or> c2 ! n < c2 ! (n - 1)")
      case True
      with inr have "n_vel_while c1 c2 n = n" by (subst n_vel_while.simps) simp
      with inr True show ?thesis by auto
    next
      case False
      with inr have eq: "n_vel_while c1 c2 n = n_vel_while c1 c2 (n + 1)"
        by (subst n_vel_while.simps) simp
      from "1.IH" [OF inr False] have ih:
        "n + 1 \<le> n_vel_while c1 c2 (n + 1)"
        "n + 1 \<le> min (length c1) (length c2) \<longrightarrow> n_vel_while c1 c2 (n + 1) \<le> min (length c1) (length c2)"
        "\<forall>k. n + 1 \<le> k \<and> k < n_vel_while c1 c2 (n + 1) \<longrightarrow> \<not> c1 ! k < c1 ! (k - 1) \<and> \<not> c2 ! k < c2 ! (k - 1)"
        "n_vel_while c1 c2 (n + 1) < min (length c1) (length c2) \<longrightarrow>
      c1 ! n_vel_while c1 c2 (n + 1) < c1 ! (n_vel_while c1 c2 (n + 1) - 1) \<or>
      c2 ! n_vel_while c1 c2 (n + 1) < c2 ! (n_vel_while c1 c2 (n + 1) - 1)"
        by blast+
      have "\<forall>k. n \<le> k \<and> k < n_vel_while c1 c2 (n + 1) \<longrightarrow> \<not> c1 ! k < c1 ! (k - 1) \<and> \<not> c2 ! k < c2 ! (k - 1)"
      proof (intro allI impI)
        fix k assume k: "n \<le> k \<and> k < n_vel_while c1 c2 (n + 1)"
        show "\<not> c1 ! k < c1 ! (k - 1) \<and> \<not> c2 ! k < c2 ! (k - 1)"
        proof (cases "k = n")
          case True with False show ?thesis by simp
        next
          case False with k ih(3) show ?thesis by (metis Suc_eq_plus1 Suc_leI le_neq_implies_less)
        qed
      qed
      with ih inr show ?thesis unfolding eq by auto
    qed
  qed
qed


lemma load_spec_store_fields:
  assumes "load_spec_store fmul epc az1 az2 cup1 cup2 s = Some s'"
  shows "n_vel s' = load_spec_n_vel (c_vel cup1) (c_vel cup2)"
    and "n_alt s' = 2" and "n_azm s' = 20"
    and "cur_jmp s' = cur_jmp s" and "cur_min s' = cur_min s"
    and "vel_cen s' = Some (take (n_vel s') (c_vel cup1))"
    and "vel_wid s' = Some (take (n_vel s') (d_vel cup1))"
    and "cur s' = Some [map (take (n_vel s')) (cup_cur cup1), map (take (n_vel s')) (cup_cur cup2)]"
    and "cur_vld s' = load_spec_cur_vld fmul (cur_jmp s) (cur_min s) 2 20 (n_vel s')
           [map (take (n_vel s')) (cup_cur cup1), map (take (n_vel s')) (cup_cur cup2)]"
  using assms
  by (auto simp: load_spec_store_def load_spec_trunc_def Let_def split: bind_splits)

text \<open>
  Claim C4, as amended. When both cups deliver at least one velocity window, the loader
  sets \<open>n_vel\<close> to the first index from 1 on at which the bin centre of either cup is
  strictly smaller than its predecessor, or to the length of the shorter array when
  there is no such index: \<open>n_vel\<close> is at least 1 and at most that length, no bin
  centre before \<open>n_vel\<close> is smaller than its predecessor, and when \<open>n_vel\<close> is still
  inside both arrays the bin centre of one cup decreases there. The bin centres, the
  bin widths and the currents are truncated to their first \<open>n_vel\<close> entries.
\<close>

theorem load_spec_n_vel_first_decrease:
  assumes "c_vel cup1 \<noteq> []" and "c_vel cup2 \<noteq> []"
    and "load_spec_store fmul epc az1 az2 cup1 cup2 s = Some s'"
  shows "1 \<le> n_vel s' \<and> n_vel s' \<le> min (length (c_vel cup1)) (length (c_vel cup2)) \<and>
     (\<forall>k. 1 \<le> k \<and> k < n_vel s' \<longrightarrow>
          c_vel cup1 ! (k - 1) \<le> c_vel cup1 ! k \<and> c_vel cup2 ! (k - 1) \<le> c_vel cup2 ! k) \<and>
     (n_vel s' < min (length (c_vel cup1)) (length (c_vel cup2)) \<longrightarrow>
          c_vel cup1 ! n_vel s' < c_vel cup1 ! (n_vel s' - 1) \<or>
          c_vel cup2 ! n_vel s' < c_vel cup2 ! (n_vel s' - 1)) \<and>
     vel_cen s' = Some (take (n_vel s') (c_vel cup1)) \<and>
     vel_wid s' = Some (take (n_vel s') (d_vel cup1)) \<and>
     cur s' = Some [map (take (n_vel s')) (cup_cur cup1), map (take (n_vel s')) (cup_cur cup2)]"
proof -
  note f = load_spec_store_fields [OF assms(3)]
  have n: "n_vel s' = n_vel_while (c_vel cup1) (c_vel cup2) 1"
    using f(1) by (simp add: load_spec_n_vel_def)
  have one: "1 \<le> min (length (c_vel cup1)) (length (c_vel cup2))"
    using assms(1,2) by (cases "c_vel cup1"; cases "c_vel cup2") auto
  note p = n_vel_while_props [of 1 "c_vel cup1" "c_vel cup2", folded n]
  have a: "1 \<le> n_vel s'" using p by blast
  have b: "n_vel s' \<le> min (length (c_vel cup1)) (length (c_vel cup2))" using p one by blast
  have c: "\<forall>k. 1 \<le> k \<and> k < n_vel s' \<longrightarrow>
          c_vel cup1 ! (k - 1) \<le> c_vel cup1 ! k \<and> c_vel cup2 ! (k - 1) \<le> c_vel cup2 ! k"
    using p by (meson not_less)
  have d: "n_vel s' < min (length (c_vel cup1)) (length (c_vel cup2)) \<longrightarrow>
          c_vel cup1 ! n_vel s' < c_vel cup1 ! (n_vel s' - 1) \<or>
          c_vel cup2 ! n_vel s' < c_vel cup2 ! (n_vel s' - 1)"
    using p by blast
  show ?thesis using a b c d f(6,7,8) by blast
qed

text \<open>The theorem at a spectrum whose bin centres are 1, 2, 2, 3, 2, 4: four windows are
  kept.\<close>

theorem load_spec_n_vel_first_decrease_witness:
  "map_option (\<lambda>s'. (n_vel s', vel_cen s', vel_wid s', cur s'))
     (load_spec_store fmul_exact 0 ex_azm ex_azm (ex_cup [1, 2, 2, 3, 2, 4] [1, 1, 1, 1, 1, 1] [5, 6, 7, 8, 9, 10])
        (ex_cup [1, 2, 2, 3, 2, 4] [1, 1, 1, 1, 1, 1] [5, 6, 7, 8, 9, 10]) init_var)
   = Some (4, Some [1, 2, 2, 3], Some [1, 1, 1, 1], Some (replicate 2 (replicate 20 [5, 6, 7, 8])))"
proof -
  let ?cup = "ex_cup [1, 2, 2, 3, 2, 4] [1, 1, 1, 1, 1, 1] [5, 6, 7, 8, 9, 10]"
  have "load_spec_store fmul_exact 0 ex_azm ex_azm ?cup ?cup init_var \<noteq> None"
    by code_simp
  then obtain s' where st: "load_spec_store fmul_exact 0 ex_azm ex_azm ?cup ?cup init_var = Some s'"
    by blast
  have ne: "c_vel ?cup \<noteq> []" by (simp add: ex_cup_def)
  have cv: "c_vel ?cup = [1, 2, 2, 3, 2, 4]" "d_vel ?cup = [1, 1, 1, 1, 1, 1]"
    "cup_cur ?cup = replicate 20 [5, 6, 7, 8, 9, 10]" by (simp_all add: ex_cup_def)
  note t = load_spec_n_vel_first_decrease [OF ne ne st]
  have lo: "\<not> n_vel s' < 4"
  proof
    assume l: "n_vel s' < 4"
    then have "n_vel s' < min (length (c_vel ?cup)) (length (c_vel ?cup))" by (simp add: cv)
    with t have "c_vel ?cup ! n_vel s' < c_vel ?cup ! (n_vel s' - 1)" by blast
    moreover from t l have "n_vel s' = 1 \<or> n_vel s' = 2 \<or> n_vel s' = 3" by linarith
    ultimately show False by (auto simp: cv)
  qed
  have hi: "\<not> 4 < n_vel s'"
  proof
    assume "4 < n_vel s'"
    with t have "c_vel ?cup ! (4 - 1) \<le> c_vel ?cup ! 4" by (metis one_le_numeral)
    then show False by (simp add: cv)
  qed
  from lo hi have n: "n_vel s' = 4" by linarith
  from t have "vel_cen s' = Some (take (n_vel s') (c_vel ?cup))"
    "vel_wid s' = Some (take (n_vel s') (d_vel ?cup))"
    "cur s' = Some [map (take (n_vel s')) (cup_cur ?cup), map (take (n_vel s')) (cup_cur ?cup)]"
    by blast+
  then show ?thesis unfolding st cv using n
    by (simp add: numeral_2_eq_2)
qed

text \<open>
  Claim C4 as stated fails: in the array 1, 2, 2, 3, 2, 4 the first element that is not
  larger than its predecessor stands at index 2, but equal neighbours do not stop the
  loader, which keeps four windows.
\<close>

theorem load_spec_n_vel_non_increasing_counterexample:
  "first_non_increasing [1, 2, 2, 3, 2, 4] = Some 2 \<and>
   map_option (\<lambda>s'. (n_vel s', vel_cen s'))
     (load_spec_store fmul_exact 0 ex_azm ex_azm (ex_cup [1, 2, 2, 3, 2, 4] [1, 1, 1, 1, 1, 1] [5, 6, 7, 8, 9, 10])
        (ex_cup [1, 2, 2, 3, 2, 4] [1, 1, 1, 1, 1, 1] [5, 6, 7, 8, 9, 10]) init_var)
   = Some (4, Some [1, 2, 2, 3])"
  by code_simp

subsection \<open>The validity mask\<close>

text \<open>
  Claim C3, as amended. For a spectrum stored by the loader with at least two velocity
  windows, a bin is marked invalid exactly when its current is below the floor
  \<open>cur_min\<close>, or it is the first or last bin and its current exceeds \<open>cur_jmp\<close> times
  its single neighbour, or it is an interior bin and its current exceeds \<open>cur_jmp\<close>
  times both neighbours, each product being the floating-point product \<open>fmul\<close> that the
  machine computes. With fewer than two windows every bin is marked valid.
\<close>

theorem load_spec_cur_vld_mask:
  assumes "load_spec_store fmul epc az1 az2 cup1 cup2 s = Some s'"
    and "cur s' = Some c"
    and "shape3 (n_alt s') (n_azm s') (n_vel s') c"
  shows "cur_vld s' =
     Some (if n_vel s' < 2 then tile3 True (n_alt s') (n_azm s') (n_vel s')
           else map (map (\<lambda>row. map (spec_cur_vld_bin fmul (cur_jmp s') (cur_min s') row)
                                   [0..<n_vel s'])) c)"
proof -
  note f = load_spec_store_fields [OF assms(1)]
  have "cur_vld s' = load_spec_cur_vld fmul (cur_jmp s') (cur_min s') (n_alt s') (n_azm s') (n_vel s') c"
    using f assms(2) by simp
  then show ?thesis
    using load_spec_cur_vld_spec [OF assms(3)] by simp
qed

text \<open>The theorem at a spectrum with three windows and the currents 500, 2 and 0.5 in
  every direction: the first bin is a jump, the last is below the floor.\<close>

theorem load_spec_cur_vld_mask_witness:
  "map_option (\<lambda>s'. (n_vel s', cur s', cur_vld s'))
     (load_spec_store fmul_exact 0 ex_azm ex_azm (ex_cup [1, 2, 3, 2] [1, 1, 1, 1] [500, 2, 1 / 2, 7])
        (ex_cup [1, 2, 3, 2] [1, 1, 1, 1] [500, 2, 1 / 2, 7]) init_var)
   = Some (3, Some (replicate 2 (replicate 20 [500, 2, 1 / 2])),
           Some (replicate 2 (replicate 20 [False, True, False])))"
proof -
  let ?cup = "ex_cup [1, 2, 3, 2] [1, 1, 1, 1] [500, 2, 1 / 2, 7]"
  let ?c = "replicate 2 (replicate 20 [500, 2, 1 / 2 :: real])"
  have "load_spec_store fmul_exact 0 ex_azm ex_azm ?cup ?cup init_var \<noteq> None"
    by code_simp
  then obtain s' where st: "load_spec_store fmul_exact 0 ex_azm ex_azm ?cup ?cup init_var = Some s'"
    by blast
  have "map_option (\<lambda>s'. (n_alt s', n_azm s', n_vel s', cur_jmp s', cur_min s', cur s'))
          (load_spec_store fmul_exact 0 ex_azm ex_azm ?cup ?cup init_var)
        = Some (2, 20, 3, 100, 1, Some ?c)"
    by code_simp
  with st have f: "n_alt s' = 2" "n_azm s' = 20" "n_vel s' = 3" "cur_jmp s' = 100"
    "cur_min s' = 1" "cur s' = Some ?c"
    by simp_all
  have sh: "shape3 (n_alt s') (n_azm s') (n_vel s') ?c"
    unfolding f by code_simp
  have m: "map (map (\<lambda>row. map (spec_cur_vld_bin fmul_exact 100 1 row) [0..<3])) ?c
           = replicate 2 (replicate 20 [False, True, False])"
    by code_simp
  from load_spec_cur_vld_mask [OF st f(6) sh]
  have "cur_vld s' = Some (replicate 2 (replicate 20 [False, True, False]))"
    unfolding f using m by simp
  with st f show ?thesis by simp
qed

text \<open>
  Claim C3 as stated fails for \<open>n_vel = 1\<close>: a spectrum whose second bin centre is
  smaller than the first keeps one window, and its currents of 0 pA, below the floor
  of 1 pA, are all marked valid.
\<close>

theorem load_spec_cur_vld_one_bin_counterexample:
  "map_option (\<lambda>s'. (n_vel s', cur_min s', cur s', cur_vld s'))
     (load_spec_store fmul_exact 0 ex_azm ex_azm (ex_cup [300, 200] [10, 10] [0, 0])
        (ex_cup [300, 200] [10, 10] [0, 0]) init_var)
   = Some (1, 1, Some (replicate 2 (replicate 20 [0])),
           Some (replicate 2 (replicate 20 [True])))"
  by code_simp

subsection \<open>Validating the moments selection\<close>

lemma fold_emit:
  "fold (\<lambda>(t, p). emit (f t p)) xs s = s\<lparr> emitted := emitted s @ map (\<lambda>(t, p). f t p) xs \<rparr>"
  by (induction xs arbitrary: s) (auto simp: emit_def)

lemma those_map_shape2:
  assumes "those (map (\<lambda>t. those (map (f t) [0..<np])) [0..<na]) = Some a"
  shows "shape2 na np a"
proof -
  from assms have l: "length a = na" and r: "\<forall>t<na. those (map (f t) [0..<np]) = Some (a ! t)"
    by (auto simp: those_map_eq_Some)
  have "\<forall>t<na. length (a ! t) = np"
  proof (intro allI impI)
    fix t assume "t < na"
    with r have "those (map (f t) [0..<np]) = Some (a ! t)" by blast
    then show "length (a ! t) = np" by (simp add: those_map_eq_Some)
  qed
  with l show ?thesis by (simp add: shape2_def list_all_length)
qed

lemma shape2_map_map: "shape2 na np a \<Longrightarrow> shape2 na np (map (map f) a)"
  by (simp add: shape2_def list_all_length)

lemma shape2_tile2: "shape2 na np (tile2 x na np)"
  by (simp add: shape2_def tile2_def list_all_length)

lemma vldt_mom_sel_alt:
  "vldt_mom_sel s = do {
     n_cur \<leftarrow> mom_n_cur s;
     old \<leftarrow> mom_sel_azm s;
     if \<not> shape2 (n_alt s) (n_azm s) old then None
     else Some (s\<lparr> mom_n_sel_cur := Some n_cur, mom_sel_azm := Some (vldt_sel s n_cur),
                   mom_n_sel_azm := vldt_n s n_cur,
                   emitted := emitted s @ vldt_chng s (vldt_sel s n_cur) old \<rparr>)
   }"
  unfolding vldt_mom_sel_def mom_n_cur_def [symmetric]
  by (auto simp: Let_def fold_emit shape2_def vldt_sel_def vldt_n_def vldt_chng_def
      split: bind_splits if_splits)

lemma vldt_chng_same: "vldt_chng s sel sel = []"
  by (simp add: vldt_chng_def)

lemma vldt_sel_shape:
  assumes "mom_n_cur s = Some n_cur"
  shows "shape2 (n_alt s) (n_azm s) (vldt_sel s n_cur)"
proof -
  have "shape2 (n_alt s) (n_azm s) n_cur"
    using assms unfolding mom_n_cur_def by (rule those_map_shape2)
  then show ?thesis by (simp add: vldt_sel_def shape2_map_map shape2_tile2)
qed

subsection \<open>What the analyses downstream leave alone\<close>

lemmas rset_defs = rset_var_def rset_swe_def rset_mfi_def rset_mom_win_def rset_mom_sel_def
  rset_mom_res_def rset_nln_ion_def rset_nln_set_def rset_nln_gss_def rset_nln_sel_def
  rset_nln_res_def rset_dsp_def rset_dyn_def no_var_def

lemma frame_upd [simp]:
  "mom_frame (time_epc_update f0 s) = mom_frame s"
  "mom_frame (alt_update f1 s) = mom_frame s"
  "mom_frame (azm_update f2 s) = mom_frame s"
  "mom_frame (vel_cen_update f3 s) = mom_frame s"
  "mom_frame (vel_wid_update f4 s) = mom_frame s"
  "mom_frame (cur_update f5 s) = mom_frame s"
  "mom_frame (cur_vld_update f6 s) = mom_frame s"
  "mom_frame (cur_jmp_update f7 s) = mom_frame s"
  "mom_frame (cur_min_update f8 s) = mom_frame s"
  "mom_frame (mag_x_update f9 s) = mom_frame s"
  "mom_frame (mag_y_update f10 s) = mom_frame s"
  "mom_frame (mag_z_update f11 s) = mom_frame s"
  "mom_frame (n_vel_update f12 s) = mom_frame s"
  "mom_frame (n_mfi_update f13 s) = mom_frame s"
  "mom_frame (mfi_avg_nrm_update f14 s) = mom_frame s"
  "mom_frame (mom_win_azm_req_update f15 s) = mom_frame s"
  "mom_frame (mom_win_cur_req_update f16 s) = mom_frame s"
  "mom_frame (mom_win_azm_txt_update f17 s) = mom_frame s"
  "mom_frame (mom_win_cur_txt_update f18 s) = mom_frame s"
  "mom_frame (mom_win_azm_update f19 s) = mom_frame s"
  "mom_frame (mom_win_cur_update f20 s) = mom_frame s"
  "mom_frame (mom_update f21 s) = mom_frame s"
  "mom_frame (nln_n_pop_update f22 s) = mom_frame s"
  "mom_frame (nln_pyon_update f23 s) = mom_frame s"
  "mom_frame (nln_pop_use_update f24 s) = mom_frame s"
  "mom_frame (nln_pop_vld_update f25 s) = mom_frame s"
  "mom_frame (nln_set_gss_n_update g0 s) = mom_frame s"
  "mom_frame (nln_set_gss_d_update g1 s) = mom_frame s"
  "mom_frame (nln_set_gss_w_update g2 s) = mom_frame s"
  "mom_frame (nln_set_gss_vld_update g3 s) = mom_frame s"
  "mom_frame (nln_set_sel_a_update f26 s) = mom_frame s"
  "mom_frame (nln_set_sel_b_update f27 s) = mom_frame s"
  "mom_frame (nln_set_sel_vld_update f28 s) = mom_frame s"
  "mom_frame (nln_gss_vld_update f29 s) = mom_frame s"
  "mom_frame (nln_gss_pop_update f30 s) = mom_frame s"
  "mom_frame (nln_gss_prm_update f31 s) = mom_frame s"
  "mom_frame (nln_gss_cur_tot_update f32 s) = mom_frame s"
  "mom_frame (nln_gss_cur_ion_update f33 s) = mom_frame s"
  "mom_frame (nln_sel_update f34 s) = mom_frame s"
  "mom_frame (nln_n_sel_update f35 s) = mom_frame s"
  "mom_frame (nln_min_sel_update f36 s) = mom_frame s"
  "mom_frame (nln_res_plas_update f37 s) = mom_frame s"
  "mom_frame (nln_res_sel_update f38 s) = mom_frame s"
  "mom_frame (nln_res_cur_tot_update f39 s) = mom_frame s"
  "mom_frame (nln_res_cur_ion_update f40 s) = mom_frame s"
  "mom_frame (series_update f41 s) = mom_frame s"
  "mom_frame (dsp_update f42 s) = mom_frame s"
  "mom_frame (dyn_gss_update f43 s) = mom_frame s"
  "mom_frame (dyn_sel_update f44 s) = mom_frame s"
  "mom_frame (dyn_nln_update f45 s) = mom_frame s"
  "mom_frame (emitted_update f46 s) = mom_frame s"
  by (simp_all add: mom_frame_def)

lemma frame_emit [simp]: "mom_frame (emit sg s) = mom_frame s"
  by (simp add: emit_def)

lemma frame_chng_dsp [simp]: "mom_frame (chng_dsp v s) = mom_frame s"
  by (simp add: chng_dsp_def)

lemma frame_chng_dyn [simp]: "anal \<noteq> ''mom'' \<Longrightarrow> mom_frame (chng_dyn anal v s) = mom_frame s"
  by (simp add: chng_dyn_def)

lemma frame_rset_var [simp]:
  "\<not> var_swe f \<Longrightarrow> \<not> var_mom_sel f \<Longrightarrow> \<not> var_dyn f \<Longrightarrow> mom_frame (rset_var f s) = mom_frame s"
  by (simp add: rset_var_def rset_mfi_def rset_mom_win_def
  rset_mom_res_def rset_nln_ion_def rset_nln_set_def rset_nln_gss_def rset_nln_sel_def
  rset_nln_res_def rset_dsp_def Let_def)

lemma frame_anls_nln: "anls_nln K s = Some s' \<Longrightarrow> mom_frame s' = mom_frame s"
  unfolding anls_nln_def Let_def
  by (auto simp: no_var_def split: bind_splits if_splits option.splits prod.splits)

lemma frame_prop_nln_sel: "prop_nln_sel K pnt s = Some s' \<Longrightarrow> mom_frame s' = mom_frame s"
  unfolding prop_nln_sel_def Let_def
  by (auto dest!: frame_anls_nln split: if_splits option.splits prod.splits)

lemma frame_auto_nln_sel: "auto_nln_sel K s = Some s' \<Longrightarrow> mom_frame s' = mom_frame s"
  unfolding auto_nln_sel_def Let_def
  by (auto dest!: frame_prop_nln_sel simp: no_var_def split: bind_splits if_splits)

lemma frame_chng_nln_sel: "chng_nln_sel K t p v s = Some s' \<Longrightarrow> mom_frame s' = mom_frame s"
  unfolding chng_nln_sel_def Let_def
  by (auto dest!: frame_prop_nln_sel split: bind_splits if_splits)

lemma frame_prop_nln_gss: "prop_nln_gss K s = Some s' \<Longrightarrow> mom_frame s' = mom_frame s"
  unfolding prop_nln_gss_def Let_def
  by (auto dest!: frame_auto_nln_sel frame_anls_nln split: if_splits)

lemma frame_make_nln_gss: "make_nln_gss K s = Some s' \<Longrightarrow> mom_frame s' = mom_frame s"
  unfolding make_nln_gss_def Let_def
  by (auto dest!: frame_prop_nln_gss split: bind_splits if_splits)

lemma frame_auto_nln_gss: "auto_nln_gss K s = Some s' \<Longrightarrow> mom_frame s' = mom_frame s"
  unfolding auto_nln_gss_def Let_def
  by (auto dest!: frame_make_nln_gss simp: no_var_def split: if_splits)

lemma rset_nln_sel_only:
  "rset_var (no_var\<lparr> var_nln_sel := True \<rparr>) s = rset_nln_sel s"
  "rset_var (no_var\<lparr> var_nln_res := True \<rparr>) s = rset_nln_res s"
  "rset_var (no_var\<lparr> var_nln_gss := True \<rparr>) s = rset_nln_gss s"
  "rset_var (no_var\<lparr> var_mom_res := True \<rparr>) s = rset_mom_res s"
  by (simp_all add: rset_var_def no_var_def)

lemma auto_mom_sel_win_fields:
  "dyn_mom (auto_mom_sel_win wa wc s) = dyn_mom s"
  "time_epc (auto_mom_sel_win wa wc s) = time_epc s"
  "n_alt (auto_mom_sel_win wa wc s) = n_alt s"
  "n_azm (auto_mom_sel_win wa wc s) = n_azm s"
  "n_vel (auto_mom_sel_win wa wc s) = n_vel s"
  "cur (auto_mom_sel_win wa wc s) = cur s"
  "cur_vld (auto_mom_sel_win wa wc s) = cur_vld s"
  "mom_min_sel_azm (auto_mom_sel_win wa wc s) = mom_min_sel_azm s"
  "mom_min_sel_cur (auto_mom_sel_win wa wc s) = mom_min_sel_cur s"
  "mom (auto_mom_sel_win wa wc s) = mom s"
  "emitted (auto_mom_sel_win wa wc s) = emitted s"
  "mom_win_cur (auto_mom_sel_win wa wc s) =
     min (max (case (case wc of None \<Rightarrow> mom_win_cur_req s | Some (txt, w) \<Rightarrow> w) of
                 None \<Rightarrow> mom_win_cur s | Some w \<Rightarrow> w) (mom_min_sel_cur s)) (int (n_vel s))"
  "mom_win_azm (auto_mom_sel_win wa wc s) =
     min (max (case (case wa of None \<Rightarrow> mom_win_azm_req s | Some (txt, w) \<Rightarrow> w) of
                 None \<Rightarrow> mom_win_azm s | Some w \<Rightarrow> w) (mom_min_sel_azm s)) (int (n_azm s))"
  by (cases wa; cases wc;
      simp add: auto_mom_sel_win_def Let_def rset_nln_sel_only rset_nln_sel_def
        split: option.splits prod.splits)+

subsection \<open>The selection stays valid\<close>

lemma mom_sel_valid_frame: "mom_frame s' = mom_frame s \<Longrightarrow> mom_sel_valid s' = mom_sel_valid s"
  by (auto simp: mom_frame_def mom_sel_valid_def split: option.splits)

lemma vldt_mom_sel_valid:
  assumes "vldt_mom_sel s = Some s'"
  shows "mom_sel_valid s'"
proof -
  from assms obtain n_cur old where r:
    "mom_n_cur s = Some n_cur" "mom_sel_azm s = Some old"
    "s' = s\<lparr> mom_n_sel_cur := Some n_cur, mom_sel_azm := Some (vldt_sel s n_cur),
                   mom_n_sel_azm := vldt_n s n_cur,
                   emitted := emitted s @ vldt_chng s (vldt_sel s n_cur) old \<rparr>"
    by (auto simp: vldt_mom_sel_alt split: bind_splits if_splits)
  have sh: "shape2 (n_alt s) (n_azm s) n_cur"
    using r(1) unfolding mom_n_cur_def by (rule those_map_shape2)
  note shs = vldt_sel_shape [OF r(1)]
  have a: "\<forall>t<n_alt s. \<forall>p<n_azm s. vldt_sel s n_cur ! t ! p \<longrightarrow> mom_min_sel_cur s \<le> int (n_cur ! t ! p)"
    using sh by (auto simp: vldt_sel_def tile2_def shape2_def list_all_length)
  have b: "int (count_true2 (map (map (\<lambda>n. mom_min_sel_cur s \<le> int n)) n_cur)) < mom_min_sel_azm s \<longrightarrow>
             (\<forall>t<n_alt s. \<forall>p<n_azm s. \<not> vldt_sel s n_cur ! t ! p) \<and> vldt_n s n_cur = 0"
    by (auto simp: vldt_sel_def vldt_n_def tile2_def)
  have c: "\<forall>t<n_alt s. \<forall>p<n_azm s.
             map_option count_true (row3 (mom_sel_cur s) t p) = Some (n_cur ! t ! p)"
  proof (intro allI impI)
    fix t p assume tp: "t < n_alt s" "p < n_azm s"
    from r(1) tp(1) have
      "those (map (\<lambda>p. map_option count_true (row3 (mom_sel_cur s) t p)) [0..<n_azm s]) = Some (n_cur ! t)"
      by (auto simp: mom_n_cur_def those_map_eq_Some)
    with tp(2) show "map_option count_true (row3 (mom_sel_cur s) t p) = Some (n_cur ! t ! p)"
      by (auto simp: those_map_eq_Some)
  qed
  show ?thesis
    using sh shs a b c by (simp add: mom_sel_valid_def r(3))
qed

lemma vldt_mom_sel_other:
  assumes "vldt_mom_sel s = Some s'"
  shows "dyn_mom s' = dyn_mom s" "mom_sel_cur s' = mom_sel_cur s" "mom_sel_azm s' \<noteq> None"
    "time_epc s' = time_epc s" "n_vel s' = n_vel s" "mom_min_sel_azm s' = mom_min_sel_azm s"
    "mom s' = mom s"
  using assms by (auto simp: vldt_mom_sel_alt split: bind_splits if_splits)

lemma auto_mom_sel_azm_other:
  assumes "auto_mom_sel_azm s = Some s'"
  shows "dyn_mom s' = dyn_mom s" "time_epc s' = time_epc s" "n_vel s' = n_vel s"
    "mom_min_sel_azm s' = mom_min_sel_azm s" "mom s' = mom s"
  using assms by (auto simp: auto_mom_sel_azm_def Let_def split: bind_splits if_splits)

lemma auto_mom_sel_cur_other:
  assumes "auto_mom_sel_cur s = Some s'"
  shows "dyn_mom s' = dyn_mom s" "mom_sel_cur s' \<noteq> None" "time_epc s' = time_epc s" "n_vel s' = n_vel s"
    "mom_min_sel_azm s' = mom_min_sel_azm s" "mom s' = mom s"
  using assms by (auto simp: auto_mom_sel_cur_def Let_def split: bind_splits if_splits)

lemma auto_mom_sel_no_anls_post:
  assumes "auto_mom_sel_no_anls wa wc s = Some s'"
  shows "mom_sel_valid s'" "dyn_mom s' = dyn_mom s" "mom_sel_azm s' \<noteq> None" "mom_sel_cur s' \<noteq> None"
    "time_epc s' = time_epc s" "n_vel s' = n_vel s" "mom_min_sel_azm s' = mom_min_sel_azm s"
    "mom s' = mom s"
proof -
  from assms obtain s1 s2 where
    a: "auto_mom_sel_azm (auto_mom_sel_win wa wc s) = Some s1" and c: "auto_mom_sel_cur s1 = Some s2"
    and v: "vldt_mom_sel (emit Janus_chng_mom_sel_all s2) = Some s'"
    unfolding auto_mom_sel_no_anls_def
    by (auto split: bind_splits)
  note s0 = auto_mom_sel_win_fields [of wa wc s]
  note o1 = auto_mom_sel_azm_other [OF a] and o2 = auto_mom_sel_cur_other [OF c]
    and o3 = vldt_mom_sel_other [OF v]
  show "mom_sel_valid s'" using v by (rule vldt_mom_sel_valid)
  show "dyn_mom s' = dyn_mom s" using s0 o1 o2 o3 by (simp add: emit_def)
  show "mom_sel_azm s' \<noteq> None" using o3 by simp
  show "mom_sel_cur s' \<noteq> None" using o2 o3 by (simp add: emit_def)
  show "time_epc s' = time_epc s" using s0 o1 o2 o3 by (simp add: emit_def)
  show "n_vel s' = n_vel s" using s0 o1 o2 o3 by (simp add: emit_def)
  show "mom_min_sel_azm s' = mom_min_sel_azm s" using s0 o1 o2 o3 by (simp add: emit_def)
  show "mom s' = mom s" using s0 o1 o2 o3 by (simp add: emit_def)
qed

lemma frame_rset_mom_res [simp]: "mom_frame (rset_mom_res s) = mom_frame s"
  by (simp add: rset_mom_res_def)

lemma anls_mom_cases:
  assumes "anls_mom K s = Some s'"
  obtains s1 where
    "if mom_sel_azm s = None \<or> mom_sel_cur s = None
     then auto_mom_sel_no_anls None None (rset_mom_res s) = Some s1
     else s1 = rset_mom_res s"
    "mom_frame s' = mom_frame s1"
proof -
  from assms obtain s1 where
    a: "(if mom_sel_azm (rset_mom_res s) = None \<or> mom_sel_cur (rset_mom_res s) = None
         then auto_mom_sel_no_anls None None (rset_mom_res s) else Some (rset_mom_res s)) = Some s1"
    unfolding anls_mom_def rset_nln_sel_only Let_def
    by (auto split: bind_splits)
  have b: "mom_frame s' = mom_frame s1"
    using assms a unfolding anls_mom_def rset_nln_sel_only Let_def
    by (auto split: bind_splits if_splits dest!: frame_auto_nln_gss)
  have c: "mom_sel_azm (rset_mom_res s) = mom_sel_azm s" "mom_sel_cur (rset_mom_res s) = mom_sel_cur s"
    by (simp_all add: rset_mom_res_def)
  show ?thesis
    using a b that [of s1] unfolding c by (auto split: if_splits)
qed

lemma anls_mom_valid:
  assumes "anls_mom K s = Some s'"
    and "mom_sel_valid s \<or> mom_sel_azm s = None \<or> mom_sel_cur s = None"
  shows "mom_sel_valid s'"
proof -
  from assms(1) obtain s1 where s1:
    "if mom_sel_azm s = None \<or> mom_sel_cur s = None
     then auto_mom_sel_no_anls None None (rset_mom_res s) = Some s1
     else s1 = rset_mom_res s"
    "mom_frame s' = mom_frame s1"
    by (rule anls_mom_cases)
  have "mom_sel_valid s1"
  proof (cases "mom_sel_azm s = None \<or> mom_sel_cur s = None")
    case True
    with s1(1) show ?thesis by (simp add: auto_mom_sel_no_anls_post(1))
  next
    case False
    with s1(1) assms(2) show ?thesis
      using mom_sel_valid_frame [of "rset_mom_res s" s] by simp
  qed
  then show ?thesis using mom_sel_valid_frame [OF s1(2)] by simp
qed

lemma frame_dyn_mom: "mom_frame s' = mom_frame s \<Longrightarrow> dyn_mom s' = dyn_mom s"
  by (simp add: mom_frame_def)

lemma anls_mom_dyn_mom:
  assumes "anls_mom K s = Some s'"
  shows "dyn_mom s' = dyn_mom s"
proof -
  from assms(1) obtain s1 where s1:
    "if mom_sel_azm s = None \<or> mom_sel_cur s = None
     then auto_mom_sel_no_anls None None (rset_mom_res s) = Some s1
     else s1 = rset_mom_res s"
    "mom_frame s' = mom_frame s1"
    by (rule anls_mom_cases)
  have "dyn_mom s1 = dyn_mom s"
    using s1(1) auto_mom_sel_no_anls_post(2) [of None None "rset_mom_res s" s1]
    by (auto simp: rset_mom_res_def split: if_splits)
  then show ?thesis using frame_dyn_mom [OF s1(2)] by simp
qed

lemma mom_sel_valid_cong:
  assumes "mom_sel_azm s' = mom_sel_azm s" "mom_n_sel_cur s' = mom_n_sel_cur s"
    "mom_sel_cur s' = mom_sel_cur s"
    "mom_n_sel_azm s' = mom_n_sel_azm s" "mom_min_sel_azm s' = mom_min_sel_azm s"
    "mom_min_sel_cur s' = mom_min_sel_cur s" "n_alt s' = n_alt s" "n_azm s' = n_azm s"
  shows "mom_sel_valid s' = mom_sel_valid s"
  using assms by (auto simp: mom_sel_valid_def split: option.splits)

lemma mom_sel_valid_chng_dyn: "mom_sel_valid (chng_dyn anal v s) = mom_sel_valid s"
  by (rule mom_sel_valid_cong) (simp_all add: chng_dyn_def emit_def)

lemma chng_mom_sel_valid:
  assumes "chng_mom_sel K t p v s = Some s'"
  shows "mom_sel_valid s'" "dyn_mom s'"
proof -
  from assms obtain s0 s1 where v: "vldt_mom_sel s0 = Some s1"
    and a: "anls_mom K (chng_dyn ''mom'' True s1) = Some s'"
    unfolding chng_mom_sel_def Let_def by (auto split: bind_splits)
  have "mom_sel_valid (chng_dyn ''mom'' True s1)"
    using vldt_mom_sel_valid [OF v] by (simp add: mom_sel_valid_chng_dyn)
  then show "mom_sel_valid s'" using anls_mom_valid [OF a] by blast
  have "dyn_mom (chng_dyn ''mom'' True s1)" by (simp add: chng_dyn_def emit_def)
  then show "dyn_mom s'" using anls_mom_dyn_mom [OF a] by simp
qed

lemma auto_mom_sel_valid:
  assumes "auto_mom_sel K wa wc na s = Some s'"
  shows "mom_sel_valid s'"
proof -
  from assms obtain s1 where s1: "auto_mom_sel_no_anls wa wc s = Some s1"
    and r: "(if \<not> na then anls_mom K s1 else Some s1) = Some s'"
    unfolding auto_mom_sel_def by (auto split: bind_splits)
  note v = auto_mom_sel_no_anls_post(1) [OF s1]
  show ?thesis
  proof (cases na)
    case True
    with r v show ?thesis by simp
  next
    case False
    with r have "anls_mom K s1 = Some s'" by simp
    then show ?thesis using v anls_mom_valid by blast
  qed
qed

lemma rset_mom_res_fields:
  "mom_sel_azm (rset_mom_res s) = mom_sel_azm s" "mom_sel_cur (rset_mom_res s) = mom_sel_cur s"
  "time_epc (rset_mom_res s) = time_epc s" "n_vel (rset_mom_res s) = n_vel s"
  "mom_n_sel_azm (rset_mom_res s) = mom_n_sel_azm s"
  "mom_min_sel_azm (rset_mom_res s) = mom_min_sel_azm s"
  "mom (rset_mom_res s) = mom_res_empty" "emitted (rset_mom_res s) = emitted s"
  "dyn_gss (rset_mom_res s) = dyn_gss s"
  by (simp_all add: rset_mom_res_def)

lemma anls_mom_norun:
  assumes "mom_sel_azm s \<noteq> None" and "mom_sel_cur s \<noteq> None"
    and "time_epc s = None \<or> n_vel s = 0 \<or> int (mom_n_sel_azm s) < mom_min_sel_azm s"
  shows "anls_mom K s =
     Some (emit Janus_chng_mom_res (emit (Janus_mesg ''core'' ''norun'' ''mom'') (rset_mom_res s)))"
  using assms unfolding anls_mom_def rset_nln_sel_only Let_def
  by (auto simp: rset_mom_res_fields)

lemma anls_mom_auto_norun:
  assumes "mom_sel_azm s = None \<or> mom_sel_cur s = None"
    and "auto_mom_sel_no_anls None None (rset_mom_res s) = Some s1"
    and "time_epc s1 = None \<or> n_vel s1 = 0 \<or> int (mom_n_sel_azm s1) < mom_min_sel_azm s1"
  shows "anls_mom K s =
     Some (emit Janus_chng_mom_res (emit (Janus_mesg ''core'' ''norun'' ''mom'') s1))"
  using assms unfolding anls_mom_def rset_nln_sel_only Let_def
  by (auto simp: rset_mom_res_fields)

lemma anls_mom_run:
  assumes "if mom_sel_azm s = None \<or> mom_sel_cur s = None
           then auto_mom_sel_no_anls None None (rset_mom_res s) = Some s1
           else s1 = rset_mom_res s"
    and "\<not> (time_epc s1 = None \<or> n_vel s1 = 0 \<or> int (mom_n_sel_azm s1) < mom_min_sel_azm s1)"
    and "mom_sel_azm s1 = Some sel"
    and "k_anls_mom K (emit (Janus_mesg ''core'' ''begin'' ''mom'') s1) = Some r"
    and "\<not> dyn_gss s1"
  shows "anls_mom K s =
     Some (chng_dsp ''mom'' (emit Janus_chng_mom_res (emit (Janus_mesg ''core'' ''end'' ''mom'')
       ((emit (Janus_mesg ''core'' ''begin'' ''mom'') s1)
          \<lparr> mom := r\<lparr> mom_n_eta := mom_n_sel_azm s1,
                        mom_eta_ind_t := Some (map fst (where2 sel)),
                        mom_eta_ind_p := Some (map snd (where2 sel)),
                        mom_corr_pears := mom_corr_pears (mom s1),
                        mom_corr_spear := mom_corr_spear (mom s1) \<rparr> \<rparr>))))"
  using assms unfolding anls_mom_def rset_nln_sel_only Let_def
  by (auto simp: rset_mom_res_fields emit_def split: if_splits)

subsection \<open>The example states\<close>

lemma ex_spec_loaded:
  "load_spec_store fmul_exact 0 ex_azm ex_azm (ex_cup [300, 320, 340, 360] [20, 20, 20, 20] [1, 1, 5, 5])
     (ex_cup [300, 320, 340, 360] [20, 20, 20, 20] [1, 1, 5, 5]) ex_init = Some ex_spec"
  by code_simp

lemma ex_sel_auto: "auto_mom_sel_no_anls None (Some (''3'', Some 3)) ex_spec = Some ex_sel"
  by code_simp

lemma ex_toggled_eq:
  "Option.bind (mom_sel_cur ex_sel) (\<lambda>sel. Option.bind (toggle3 sel 0 0 0) (\<lambda>sel'.
      Some (emit (Janus_chng_mom_sel_cur 0 0 0) (ex_sel\<lparr> mom_sel_cur := Some sel' \<rparr>)))) = Some ex_toggled"
  by code_simp

lemma ex_vldt_eq: "vldt_mom_sel ex_toggled = Some ex_vldt"
  by code_simp

lemmas ex_defs = ex_vldt_def ex_toggled_def ex_sel_def ex_spec_def ex_init_def init_var_def
  chng_dyn_def emit_def rset_defs Let_def

lemma ex_vldt_fields:
  "mom_sel_azm ex_vldt = Some [False # replicate 6 True @ replicate 13 False,
                                       replicate 7 True @ replicate 13 False]"
  "mom_sel_cur ex_vldt \<noteq> None" "time_epc ex_vldt = Some 0" "n_vel ex_vldt = 4"
  "mom_n_sel_azm ex_vldt = 13" "mom_min_sel_azm ex_vldt = 5" "\<not> dyn_gss ex_vldt" "\<not> dyn_mom ex_vldt"
  by (simp_all add: ex_defs)

lemma ex_dyn_fields:
  "mom_sel_azm (chng_dyn ''mom'' True ex_vldt) = mom_sel_azm ex_vldt"
  "mom_sel_cur (chng_dyn ''mom'' True ex_vldt) = mom_sel_cur ex_vldt"
  "time_epc (chng_dyn ''mom'' True ex_vldt) = time_epc ex_vldt"
  "n_vel (chng_dyn ''mom'' True ex_vldt) = n_vel ex_vldt"
  "mom_n_sel_azm (chng_dyn ''mom'' True ex_vldt) = mom_n_sel_azm ex_vldt"
  "mom_min_sel_azm (chng_dyn ''mom'' True ex_vldt) = mom_min_sel_azm ex_vldt"
  "dyn_gss (chng_dyn ''mom'' True ex_vldt) = dyn_gss ex_vldt"
  by (simp_all add: chng_dyn_def emit_def)

lemma chng_mom_sel_steps:
  assumes "Option.bind (mom_sel_cur s) (\<lambda>sel. Option.bind (toggle3 sel t p v) (\<lambda>sel'.
      Some (emit (Janus_chng_mom_sel_cur t p v) (s\<lparr> mom_sel_cur := Some sel' \<rparr>)))) = Some s0"
    and "vldt_mom_sel s0 = Some s1"
  shows "chng_mom_sel K t p v s = anls_mom K (chng_dyn ''mom'' True s1)"
  using assms by (auto simp: chng_mom_sel_def split: bind_splits)

lemma ex_chng_mom_sel: "chng_mom_sel ex_kernels 0 0 0 ex_sel \<noteq> None"
proof -
  let ?s = "chng_dyn ''mom'' True ex_vldt"
  have k: "k_anls_mom ex_kernels (emit (Janus_mesg ''core'' ''begin'' ''mom'') (rset_mom_res ?s)) =
     Some (mom_res_empty\<lparr> mom_n := Some 5, mom_v := Some 400,
                                   mom_w := Some 30, mom_v_vec := Some [- 400, 0, 0] \<rparr>)"
    by (simp add: ex_kernels_def)
  have "anls_mom ex_kernels ?s \<noteq> None"
    using anls_mom_run [of ?s "rset_mom_res ?s" _ ex_kernels, OF _ _ _ k]
    by (simp add: ex_dyn_fields ex_vldt_fields rset_mom_res_fields)
  then show ?thesis
    using chng_mom_sel_steps [OF ex_toggled_eq ex_vldt_eq, of ex_kernels] by simp
qed

subsection \<open>The claims about the validation\<close>

text \<open>
  Claim C2. The validation of the moments selection is idempotent: when a call of
  \<open>vldt_mom_sel\<close> returns, a second call right after it returns the very same state.
  So \<open>mom_sel_azm\<close>, \<open>mom_n_sel_azm\<close> and \<open>mom_n_sel_cur\<close> keep their values, and
  the log of emitted signals is unchanged: the second call fires no signal.
\<close>

theorem vldt_mom_sel_idempotent:
  assumes "vldt_mom_sel s = Some s1"
  shows "vldt_mom_sel s1 = Some s1"
proof -
  from assms obtain n_cur old where r:
    "mom_n_cur s = Some n_cur" "mom_sel_azm s = Some old"
    "s1 = s\<lparr> mom_n_sel_cur := Some n_cur, mom_sel_azm := Some (vldt_sel s n_cur),
                   mom_n_sel_azm := vldt_n s n_cur,
                   emitted := emitted s @ vldt_chng s (vldt_sel s n_cur) old \<rparr>"
    by (auto simp: vldt_mom_sel_alt split: bind_splits if_splits)
  have nc: "mom_n_cur s1 = Some n_cur" using r(1) by (simp add: r(3) mom_n_cur_def)
  have e: "vldt_sel s1 n_cur = vldt_sel s n_cur" "vldt_n s1 n_cur = vldt_n s n_cur"
    by (simp_all add: vldt_sel_def vldt_n_def r(3))
  have f: "mom_sel_azm s1 = Some (vldt_sel s n_cur)" "n_alt s1 = n_alt s" "n_azm s1 = n_azm s"
    "mom_n_sel_cur s1 = Some n_cur" "mom_n_sel_azm s1 = vldt_n s n_cur"
    by (simp_all add: r(3))
  have "vldt_mom_sel s1 = Some (s1\<lparr> mom_n_sel_cur := Some n_cur,
     mom_sel_azm := Some (vldt_sel s n_cur), mom_n_sel_azm := vldt_n s n_cur,
     emitted := emitted s1 @ [] \<rparr>)"
    using vldt_sel_shape [OF r(1)]
    by (simp add: vldt_mom_sel_alt nc e f vldt_chng_same)
  moreover have "s1\<lparr> mom_n_sel_cur := Some n_cur,
     mom_sel_azm := Some (vldt_sel s n_cur), mom_n_sel_azm := vldt_n s n_cur,
     emitted := emitted s1 @ [] \<rparr> = s1"
    using f by simp
  ultimately show ?thesis by simp
qed

text \<open>The theorem at the example in which one bin has just been deselected.\<close>

theorem vldt_mom_sel_idempotent_witness:
  "vldt_mom_sel ex_toggled = Some ex_vldt \<and> vldt_mom_sel ex_vldt = Some ex_vldt"
  using vldt_mom_sel_idempotent [OF ex_vldt_eq] ex_vldt_eq by simp

text \<open>
  Claim C1. After \<open>vldt_mom_sel\<close> has run, the entry of \<open>mom_n_sel_cur\<close> for each look
  direction is the number of bins of that direction selected in \<open>mom_sel_cur\<close>, a
  look direction is selected in \<open>mom_sel_azm\<close> only if that count is at least
  \<open>mom_min_sel_cur\<close>, and if fewer than \<open>mom_min_sel_azm\<close> directions reach that count,
  no direction is selected and \<open>mom_n_sel_azm\<close> is 0. The same holds after the
  automatic selection \<open>auto_mom_sel\<close> and after the manual change of one datum
  \<open>chng_mom_sel\<close>: both call the validation, and nothing they do afterwards changes
  the selection.
\<close>

theorem mom_sel_valid_after_selection:
  "(vldt_mom_sel s = Some s' \<longrightarrow> mom_sel_valid s') \<and>
   (auto_mom_sel K win_azm win_cur no_anls s = Some s' \<longrightarrow> mom_sel_valid s') \<and>
   (chng_mom_sel K t p v s = Some s' \<longrightarrow> mom_sel_valid s')"
  using vldt_mom_sel_valid auto_mom_sel_valid chng_mom_sel_valid(1) by blast

text \<open>The theorem at the examples: the validation after one bin was deselected, the
  automatic selection on the example spectrum, and the manual change of one bin.\<close>

theorem mom_sel_valid_after_selection_witness:
  "vldt_mom_sel ex_toggled = Some ex_vldt \<and> mom_sel_valid ex_vldt \<and>
   auto_mom_sel ex_kernels None (Some (''3'', Some 3)) True ex_spec = Some ex_sel \<and>
   mom_sel_valid ex_sel \<and>
   chng_mom_sel ex_kernels 0 0 0 ex_sel \<noteq> None \<and>
   mom_sel_valid (the (chng_mom_sel ex_kernels 0 0 0 ex_sel))"
proof -
  have a: "auto_mom_sel ex_kernels None (Some (''3'', Some 3)) True ex_spec = Some ex_sel"
    by (simp add: auto_mom_sel_def ex_sel_auto)
  obtain s' where c: "chng_mom_sel ex_kernels 0 0 0 ex_sel = Some s'"
    using ex_chng_mom_sel by blast
  have "mom_sel_valid ex_vldt"
    using mom_sel_valid_after_selection [where s = ex_toggled and s' = ex_vldt] ex_vldt_eq
    by blast
  moreover have "mom_sel_valid ex_sel"
    using mom_sel_valid_after_selection [where s = ex_spec and s' = ex_sel and K = ex_kernels
        and win_azm = None and win_cur = "Some (''3'', Some 3)" and no_anls = True] a
    by blast
  moreover have "mom_sel_valid s'"
    using mom_sel_valid_after_selection [where s = ex_sel and s' = s' and K = ex_kernels
        and t = 0 and p = 0 and v = 0] c
    by blast
  ultimately show ?thesis using a c ex_vldt_eq by simp
qed

subsection \<open>The dynamic flags\<close>

lemma dyn_frame_upd [simp]:
  "dyn_frame (time_epc_update f0 s) = dyn_frame s"
  "dyn_frame (alt_update f1 s) = dyn_frame s"
  "dyn_frame (azm_update f2 s) = dyn_frame s"
  "dyn_frame (vel_cen_update f3 s) = dyn_frame s"
  "dyn_frame (vel_wid_update f4 s) = dyn_frame s"
  "dyn_frame (cur_update f5 s) = dyn_frame s"
  "dyn_frame (cur_vld_update f6 s) = dyn_frame s"
  "dyn_frame (cur_jmp_update f7 s) = dyn_frame s"
  "dyn_frame (cur_min_update f8 s) = dyn_frame s"
  "dyn_frame (mag_x_update f9 s) = dyn_frame s"
  "dyn_frame (mag_y_update f10 s) = dyn_frame s"
  "dyn_frame (mag_z_update f11 s) = dyn_frame s"
  "dyn_frame (n_alt_update f12 s) = dyn_frame s"
  "dyn_frame (n_azm_update f13 s) = dyn_frame s"
  "dyn_frame (n_vel_update f14 s) = dyn_frame s"
  "dyn_frame (n_mfi_update f15 s) = dyn_frame s"
  "dyn_frame (mfi_avg_nrm_update f16 s) = dyn_frame s"
  "dyn_frame (mom_win_azm_req_update f17 s) = dyn_frame s"
  "dyn_frame (mom_win_cur_req_update f18 s) = dyn_frame s"
  "dyn_frame (mom_win_azm_txt_update f19 s) = dyn_frame s"
  "dyn_frame (mom_win_cur_txt_update f20 s) = dyn_frame s"
  "dyn_frame (mom_win_azm_update f21 s) = dyn_frame s"
  "dyn_frame (mom_win_cur_update f22 s) = dyn_frame s"
  "dyn_frame (mom_n_sel_azm_update f23 s) = dyn_frame s"
  "dyn_frame (mom_n_sel_cur_update f24 s) = dyn_frame s"
  "dyn_frame (mom_min_sel_azm_update f25 s) = dyn_frame s"
  "dyn_frame (mom_min_sel_cur_update f26 s) = dyn_frame s"
  "dyn_frame (mom_sel_azm_update f27 s) = dyn_frame s"
  "dyn_frame (mom_sel_cur_update f28 s) = dyn_frame s"
  "dyn_frame (mom_update f29 s) = dyn_frame s"
  "dyn_frame (nln_n_pop_update f30 s) = dyn_frame s"
  "dyn_frame (nln_pyon_update f31 s) = dyn_frame s"
  "dyn_frame (nln_pop_use_update f32 s) = dyn_frame s"
  "dyn_frame (nln_pop_vld_update f33 s) = dyn_frame s"
  "dyn_frame (nln_set_gss_n_update g0 s) = dyn_frame s"
  "dyn_frame (nln_set_gss_d_update g1 s) = dyn_frame s"
  "dyn_frame (nln_set_gss_w_update g2 s) = dyn_frame s"
  "dyn_frame (nln_set_gss_vld_update g3 s) = dyn_frame s"
  "dyn_frame (nln_set_sel_a_update f34 s) = dyn_frame s"
  "dyn_frame (nln_set_sel_b_update f35 s) = dyn_frame s"
  "dyn_frame (nln_set_sel_vld_update f36 s) = dyn_frame s"
  "dyn_frame (nln_gss_vld_update f37 s) = dyn_frame s"
  "dyn_frame (nln_gss_pop_update f38 s) = dyn_frame s"
  "dyn_frame (nln_gss_prm_update f39 s) = dyn_frame s"
  "dyn_frame (nln_gss_cur_tot_update f40 s) = dyn_frame s"
  "dyn_frame (nln_gss_cur_ion_update f41 s) = dyn_frame s"
  "dyn_frame (nln_sel_update f42 s) = dyn_frame s"
  "dyn_frame (nln_n_sel_update f43 s) = dyn_frame s"
  "dyn_frame (nln_min_sel_update f44 s) = dyn_frame s"
  "dyn_frame (nln_res_plas_update f45 s) = dyn_frame s"
  "dyn_frame (nln_res_sel_update f46 s) = dyn_frame s"
  "dyn_frame (nln_res_cur_tot_update f47 s) = dyn_frame s"
  "dyn_frame (nln_res_cur_ion_update f48 s) = dyn_frame s"
  "dyn_frame (series_update f49 s) = dyn_frame s"
  "dyn_frame (dsp_update f50 s) = dyn_frame s"
  "dyn_frame (emitted_update f51 s) = dyn_frame s"
  by (simp_all add: dyn_frame_def)

lemma dyn_frame_emit [simp]: "dyn_frame (emit sg s) = dyn_frame s"
  by (simp add: emit_def)

lemma dyn_frame_chng_dsp [simp]: "dyn_frame (chng_dsp v s) = dyn_frame s"
  by (simp add: chng_dsp_def)

lemma dyn_frame_rset_nln_res [simp]: "dyn_frame (rset_nln_res s) = dyn_frame s"
  by (simp add: rset_nln_res_def)

lemma dyn_frame_anls_nln: "anls_nln K s = Some s' \<Longrightarrow> dyn_frame s' = dyn_frame s"
  unfolding anls_nln_def rset_nln_sel_only Let_def
  by (auto split: bind_splits if_splits option.splits prod.splits)

lemma dyn_frame_prop_nln_sel: "prop_nln_sel K pnt s = Some s' \<Longrightarrow> dyn_frame s' = dyn_frame s"
  unfolding prop_nln_sel_def Let_def
  by (auto dest!: dyn_frame_anls_nln split: if_splits option.splits prod.splits)

lemma dyn_frame_chng_dyn:
  "dyn_frame (chng_dyn ''mom'' v s) = (v, dyn_gss s, dyn_sel s, dyn_nln s)"
  "dyn_frame (chng_dyn ''gss'' v s) = (dyn_mom s, v, dyn_sel s, dyn_nln s)"
  "dyn_frame (chng_dyn ''sel'' v s) = (dyn_mom s, dyn_gss s, v, dyn_nln s)"
  by (auto simp: chng_dyn_def dyn_frame_def emit_def)

lemma dyn_frame_rset_var [simp]: "\<not> var_dyn f \<Longrightarrow> dyn_frame (rset_var f s) = dyn_frame s"
  by (simp add: rset_var_def rset_swe_def rset_mfi_def rset_mom_win_def rset_mom_sel_def
      rset_mom_res_def rset_nln_ion_def rset_nln_set_def rset_nln_gss_def rset_nln_sel_def
      rset_nln_res_def rset_dsp_def Let_def)

lemma dyn_frame_auto_nln_sel:
  assumes "auto_nln_sel K s = Some s'"
  shows "dyn_frame s' = (dyn_mom s, dyn_gss s, True, dyn_nln s)"
proof -
  from assms obtain s1 where r: "prop_nln_sel K None s1 = Some s'"
    and f: "dyn_frame s1 = dyn_frame (chng_dyn ''sel'' True s)"
    unfolding auto_nln_sel_def Let_def
    by (auto simp: no_var_def split: bind_splits if_splits)
  from dyn_frame_prop_nln_sel [OF r] f show ?thesis by (simp add: dyn_frame_chng_dyn)
qed

lemma dyn_frame_prop_nln_gss:
  assumes "prop_nln_gss K s = Some s'"
  shows "dyn_frame s' = dyn_frame s"
proof (cases "dyn_sel s")
  case True
  with assms have "auto_nln_sel K (emit Janus_chng_nln_gss s) = Some s'"
    by (simp add: prop_nln_gss_def emit_def)
  from dyn_frame_auto_nln_sel [OF this] True show ?thesis
    by (simp add: dyn_frame_def emit_def)
next
  case False
  with assms show ?thesis
    unfolding prop_nln_gss_def Let_def
    by (auto simp: emit_def dest!: dyn_frame_anls_nln split: if_splits)
qed

lemma dyn_frame_make_nln_gss: "make_nln_gss K s = Some s' \<Longrightarrow> dyn_frame s' = dyn_frame s"
  unfolding make_nln_gss_def Let_def
  by (auto dest!: dyn_frame_prop_nln_gss split: bind_splits if_splits)

lemma dyn_frame_auto_nln_gss:
  assumes "auto_nln_gss K s = Some s'"
  shows "dyn_frame s' = (dyn_mom s, True, dyn_sel s, dyn_nln s)"
proof -
  from assms obtain s1 where r: "make_nln_gss K s1 = Some s'"
    and f: "dyn_frame s1 = dyn_frame (chng_dyn ''gss'' True s)"
    unfolding auto_nln_gss_def Let_def
    by (auto simp: no_var_def split: if_splits)
  from dyn_frame_make_nln_gss [OF r] f show ?thesis by (simp add: dyn_frame_chng_dyn)
qed

lemma dyn_frame_prop_nln_ion:
  assumes "prop_nln_ion K s = Some s'"
  shows "dyn_frame s' = dyn_frame s"
proof -
  from assms obtain pv where
    r0: "(if dyn_gss (emit Janus_chng_nln_ion (s\<lparr> nln_pop_vld := pv \<rparr>))
          then auto_nln_gss K (emit Janus_chng_nln_ion (s\<lparr> nln_pop_vld := pv \<rparr>))
          else make_nln_gss K (emit Janus_chng_nln_ion (s\<lparr> nln_pop_vld := pv \<rparr>))) = Some s'"
    unfolding prop_nln_ion_def Let_def
    by (auto split: bind_splits if_splits)
  define s1 where "s1 = emit Janus_chng_nln_ion (s\<lparr> nln_pop_vld := pv \<rparr>)"
  have f: "dyn_frame s1 = dyn_frame s" by (simp add: s1_def)
  have r: "(if dyn_gss s1 then auto_nln_gss K s1 else make_nln_gss K s1) = Some s'"
    using r0 unfolding s1_def .
  show ?thesis
  proof (cases "dyn_gss s1")
    case True
    with r have "auto_nln_gss K s1 = Some s'" by simp
    from dyn_frame_auto_nln_gss [OF this] True f show ?thesis by (simp add: dyn_frame_def)
  next
    case False
    with r have "make_nln_gss K s1 = Some s'" by simp
    from dyn_frame_make_nln_gss [OF this] f show ?thesis by simp
  qed
qed

lemma dyn_frame_chng_nln_set_store:
  "chng_nln_set_store i param val s = Some s' \<Longrightarrow> dyn_frame s' = dyn_frame s"
  unfolding chng_nln_set_store_def Let_def
  by (auto split: if_splits)

lemma dyn_frame_chng_nln_set_vldt:
  "chng_nln_set_vldt i s = Some s' \<Longrightarrow> dyn_frame s' = dyn_frame s"
  unfolding chng_nln_set_vldt_def
  by (auto split: bind_splits if_splits)

lemma dyn_frame_prop_nln_set:
  assumes "prop_nln_set K chng s = Some s'"
  shows "chng = ''gss'' \<Longrightarrow> dyn_frame s' = (dyn_mom s, True, dyn_sel s, dyn_nln s)"
    and "chng = ''sel'' \<Longrightarrow> dyn_frame s' = (dyn_mom s, dyn_gss s, True, dyn_nln s)"
proof -
  assume c: "chng = ''gss''"
  with assms obtain s1 where r: "auto_nln_gss K (emit Janus_chng_nln_set s) = Some s1"
    and e: "dyn_frame s' = dyn_frame s1"
    unfolding prop_nln_set_def Let_def by (auto split: bind_splits if_splits)
  from dyn_frame_auto_nln_gss [OF r] e
  show "dyn_frame s' = (dyn_mom s, True, dyn_sel s, dyn_nln s)" by (simp add: emit_def)
next
  assume c: "chng = ''sel''"
  with assms obtain s1 where r: "auto_nln_sel K (emit Janus_chng_nln_set s) = Some s1"
    and e: "dyn_frame s' = dyn_frame s1"
    unfolding prop_nln_set_def Let_def by (auto split: bind_splits if_splits)
  from dyn_frame_auto_nln_sel [OF r] e
  show "dyn_frame s' = (dyn_mom s, dyn_gss s, True, dyn_nln s)" by (simp add: emit_def)
qed

lemma chng_nln_set_flags:
  assumes "chng_nln_set K i param sv s = Some s'"
  shows "if 0 \<le> i \<and> i < int (nln_n_pop s) \<and> param \<in> set [''gss_n'', ''gss_d'', ''gss_w'']
         then dyn_frame s' = (dyn_mom s, True, dyn_sel s, dyn_nln s)
         else if 0 \<le> i \<and> i < int (nln_n_pop s) \<and> param = ''sel''
         then dyn_frame s' = (dyn_mom s, dyn_gss s, True, dyn_nln s)
         else s' = s"
proof (cases "0 \<le> i \<and> i < int (nln_n_pop s) \<and> param \<in> set [''gss_n'', ''gss_d'', ''gss_w'', ''sel'']")
  case False
  with assms show ?thesis by (auto simp: chng_nln_set_def split: if_splits)
next
  case True
  with assms obtain s1 s2 where a: "chng_nln_set_store (nat i) param sv s = Some s1"
    and b: "chng_nln_set_vldt (nat i) s1 = Some s2"
    and c: "prop_nln_set K (take 3 param) s2 = Some s'"
    unfolding chng_nln_set_def by (auto split: bind_splits if_splits)
  have f: "dyn_frame s2 = dyn_frame s"
    using dyn_frame_chng_nln_set_store [OF a] dyn_frame_chng_nln_set_vldt [OF b] by simp
  then have g: "dyn_mom s2 = dyn_mom s" "dyn_gss s2 = dyn_gss s" "dyn_sel s2 = dyn_sel s"
    "dyn_nln s2 = dyn_nln s" by (simp_all add: dyn_frame_def)
  show ?thesis
  proof (cases "param = ''sel''")
    case sel: True
    then have "take 3 param = ''sel''" by simp
    from dyn_frame_prop_nln_set(2) [OF c this] sel True show ?thesis by (simp add: g)
  next
    case False
    with True have p: "param \<in> set [''gss_n'', ''gss_d'', ''gss_w'']" by auto
    then have "take 3 param = ''gss''" by auto
    from dyn_frame_prop_nln_set(1) [OF c this] p True show ?thesis by (simp add: g)
  qed
qed

lemma chng_nln_gss_flags:
  assumes "chng_nln_gss K i param val s = Some s'"
  shows "s' = chng_dyn ''gss'' False s \<or>
         (\<exists>s1. dyn_frame s1 = (dyn_mom s, False, dyn_sel s, dyn_nln s) \<and> make_nln_gss K s1 = Some s')"
    and "dyn_frame s' = (dyn_mom s, False, dyn_sel s, dyn_nln s)"
proof -
  have "s' = chng_dyn ''gss'' False s \<or>
     (\<exists>pl. make_nln_gss K ((chng_dyn ''gss'' False s)\<lparr> nln_pyon := pl \<rparr>) = Some s')"
    using assms unfolding chng_nln_gss_def Let_def by (auto split: bind_splits if_splits)
  then show a: "s' = chng_dyn ''gss'' False s \<or>
         (\<exists>s1. dyn_frame s1 = (dyn_mom s, False, dyn_sel s, dyn_nln s) \<and> make_nln_gss K s1 = Some s')"
  proof
    assume "s' = chng_dyn ''gss'' False s"
    then show ?thesis by simp
  next
    assume "\<exists>pl. make_nln_gss K ((chng_dyn ''gss'' False s)\<lparr> nln_pyon := pl \<rparr>) = Some s'"
    then obtain pl where m: "make_nln_gss K ((chng_dyn ''gss'' False s)\<lparr> nln_pyon := pl \<rparr>) = Some s'"
      by blast
    have "dyn_frame ((chng_dyn ''gss'' False s)\<lparr> nln_pyon := pl \<rparr>) = (dyn_mom s, False, dyn_sel s, dyn_nln s)"
      by (simp add: dyn_frame_chng_dyn)
    with m show ?thesis by blast
  qed
  from a show "dyn_frame s' = (dyn_mom s, False, dyn_sel s, dyn_nln s)"
    using dyn_frame_make_nln_gss by (auto simp: dyn_frame_chng_dyn)
qed

lemma chng_nln_sel_flags:
  assumes "chng_nln_sel K t p v s = Some s'"
  shows "\<exists>s1. dyn_frame s1 = (dyn_mom s, dyn_gss s, False, dyn_nln s) \<and>
              prop_nln_sel K (Some (t, p, v)) s1 = Some s'"
    and "dyn_frame s' = (dyn_mom s, dyn_gss s, False, dyn_nln s)"
proof -
  from assms obtain sel' where
    r: "prop_nln_sel K (Some (t, p, v)) ((chng_dyn ''sel'' False s)\<lparr> nln_sel := Some sel' \<rparr>) = Some s'"
    unfolding chng_nln_sel_def Let_def
    by (auto split: bind_splits if_splits)
  have f: "dyn_frame ((chng_dyn ''sel'' False s)\<lparr> nln_sel := Some sel' \<rparr>) = (dyn_mom s, dyn_gss s, False, dyn_nln s)"
    by (simp add: dyn_frame_chng_dyn)
  with r show "\<exists>s1. dyn_frame s1 = (dyn_mom s, dyn_gss s, False, dyn_nln s) \<and>
              prop_nln_sel K (Some (t, p, v)) s1 = Some s'" by blast
  from dyn_frame_prop_nln_sel [OF r] f show "dyn_frame s' = (dyn_mom s, dyn_gss s, False, dyn_nln s)"
    by simp
qed

lemma dyn_frame_auto_mom_sel_win: "dyn_frame (auto_mom_sel_win wa wc s) = dyn_frame s"
  by (cases wa; cases wc;
      simp add: auto_mom_sel_win_def Let_def rset_nln_sel_only rset_nln_sel_def
        split: option.splits prod.splits)

lemma dyn_frame_vldt_mom_sel: "vldt_mom_sel s = Some s' \<Longrightarrow> dyn_frame s' = dyn_frame s"
  by (auto simp: vldt_mom_sel_alt split: bind_splits if_splits)

lemma dyn_frame_auto_mom_sel_no_anls:
  assumes "auto_mom_sel_no_anls wa wc s = Some s'"
  shows "dyn_frame s' = dyn_frame s"
proof -
  from assms obtain s1 s2 where
    a: "auto_mom_sel_azm (auto_mom_sel_win wa wc s) = Some s1" and c: "auto_mom_sel_cur s1 = Some s2"
    and v: "vldt_mom_sel (emit Janus_chng_mom_sel_all s2) = Some s'"
    unfolding auto_mom_sel_no_anls_def
    by (auto split: bind_splits)
  have "dyn_frame s1 = dyn_frame (auto_mom_sel_win wa wc s)"
    using a by (auto simp: auto_mom_sel_azm_def Let_def split: bind_splits if_splits)
  moreover have "dyn_frame s2 = dyn_frame s1"
    using c by (auto simp: auto_mom_sel_cur_def Let_def split: bind_splits if_splits)
  ultimately show ?thesis
    using dyn_frame_vldt_mom_sel [OF v] by (simp add: dyn_frame_auto_mom_sel_win)
qed

lemma dyn_frame_rset_mom_res [simp]: "dyn_frame (rset_mom_res s) = dyn_frame s"
  by (simp add: rset_mom_res_def)

lemma dyn_frame_anls_mom:
  assumes "anls_mom K s = Some s'"
  shows "dyn_frame s' = dyn_frame s"
proof -
  from assms obtain s1 where
    a: "(if mom_sel_azm (rset_mom_res s) = None \<or> mom_sel_cur (rset_mom_res s) = None
         then auto_mom_sel_no_anls None None (rset_mom_res s) else Some (rset_mom_res s)) = Some s1"
    unfolding anls_mom_def rset_nln_sel_only Let_def
    by (auto split: bind_splits)
  have f: "dyn_frame s1 = dyn_frame s"
    using a dyn_frame_auto_mom_sel_no_anls [of None None "rset_mom_res s" s1]
    by (auto split: if_splits)
  have "dyn_frame s' = dyn_frame s1"
  proof (cases "dyn_gss s1")
    case False
    with assms a show ?thesis unfolding anls_mom_def rset_nln_sel_only Let_def
      by (auto simp: emit_def split: bind_splits if_splits)
  next
    case True
    have "dyn_frame s' = dyn_frame s1 \<or>
       (\<exists>s2. dyn_frame s2 = dyn_frame s1 \<and> auto_nln_gss K s2 = Some s')"
      using assms a unfolding anls_mom_def rset_nln_sel_only Let_def
      by (auto simp: emit_def split: bind_splits if_splits)
    then show ?thesis
    proof
      assume "dyn_frame s' = dyn_frame s1" then show ?thesis .
    next
      assume "\<exists>s2. dyn_frame s2 = dyn_frame s1 \<and> auto_nln_gss K s2 = Some s'"
      then obtain s2 where g: "dyn_frame s2 = dyn_frame s1" "auto_nln_gss K s2 = Some s'" by blast
      from dyn_frame_auto_nln_gss [OF g(2)] g(1) True show ?thesis by (simp add: dyn_frame_def)
    qed
  qed
  with f show ?thesis by simp
qed

lemma chng_mom_sel_flags:
  assumes "chng_mom_sel K t p v s = Some s'"
  shows "\<exists>s1. dyn_frame s1 = (True, dyn_gss s, dyn_sel s, dyn_nln s) \<and> anls_mom K s1 = Some s'"
    and "dyn_frame s' = (True, dyn_gss s, dyn_sel s, dyn_nln s)"
proof -
  from assms obtain sel' s1 where
    v: "vldt_mom_sel (emit (Janus_chng_mom_sel_cur t p v) (s\<lparr> mom_sel_cur := Some sel' \<rparr>)) = Some s1"
    and a: "anls_mom K (chng_dyn ''mom'' True s1) = Some s'"
    unfolding chng_mom_sel_def Let_def by (auto split: bind_splits)
  have "dyn_frame s1 = dyn_frame s" using dyn_frame_vldt_mom_sel [OF v] by simp
  then have g: "dyn_gss s1 = dyn_gss s" "dyn_sel s1 = dyn_sel s" "dyn_nln s1 = dyn_nln s"
    by (simp_all add: dyn_frame_def)
  have f: "dyn_frame (chng_dyn ''mom'' True s1) = (True, dyn_gss s, dyn_sel s, dyn_nln s)"
    by (simp add: dyn_frame_chng_dyn g)
  with a show "\<exists>s1. dyn_frame s1 = (True, dyn_gss s, dyn_sel s, dyn_nln s) \<and> anls_mom K s1 = Some s'"
    by blast
  from dyn_frame_anls_mom [OF a] f show "dyn_frame s' = (True, dyn_gss s, dyn_sel s, dyn_nln s)"
    by simp
qed

text \<open>The functions that compute with \<open>pi\<close>, sines, cosines and square roots are
  not evaluated when the examples are.\<close>

declare deg2rad_def [code del] calc_dir_look_def [code del] auto_nln_sel_w_def [code del]
  auto_nln_sel_rng_def [code del]

lemma ex_manual_runs:
  "chng_mom_sel ex_kernels 0 0 0 ex_sel \<noteq> None"
  "chng_nln_gss ex_kernels 0 ''n'' (Some 5) (ex_sel\<lparr> dyn_gss := True \<rparr>) \<noteq> None"
  "chng_nln_sel ex_kernels 0 0 0 ex_sel \<noteq> None"
  "chng_nln_set ex_kernels 0 ''gss_n'' ex_set_val ex_sel \<noteq> None"
  "chng_nln_set ex_kernels 0 ''sel'' ex_set_val ex_manual \<noteq> None"
  "prop_nln_ion ex_kernels ex_sel \<noteq> None"
  by code_simp+

lemma ex_manual_flags:
  "dyn_frame ex_sel = (False, False, True, False)"
  "dyn_frame (ex_sel\<lparr> dyn_gss := True \<rparr>) = (False, True, True, False)"
  "dyn_frame ex_manual = (False, False, False, False)"
  "nln_n_pop ex_sel = 5" "nln_n_pop ex_manual = 5"
  by code_simp+

text \<open>
  Claim C9, as amended. A manual edit sets the dynamic flag of its stage before the
  stage is re-run once, but not always to \<open>False\<close>, and the other three flags keep their
  values; each line gives the flags \<open>(dyn_mom, dyn_gss, dyn_sel, dyn_nln)\<close> both of the
  state from which the one re-run starts and of the state returned.
  \<^item> The toggle of one bin of the moments selection (\<open>chng_mom_sel\<close>) sets \<open>dyn_mom\<close> to
    \<open>True\<close> and then runs \<open>anls_mom\<close> once.
  \<^item> The change of one value of the guess (\<open>chng_nln_gss\<close>) sets \<open>dyn_gss\<close> to \<open>False\<close>
    and then runs \<open>make_nln_gss\<close> once, or returns at once when the index of the
    population is out of range.
  \<^item> The toggle of one bin of the selection for the fit (\<open>chng_nln_sel\<close>) sets \<open>dyn_sel\<close>
    to \<open>False\<close> and then propagates the selection once (\<open>prop_nln_sel\<close>).
  \<^item> The change of a setting (\<open>chng_nln_set\<close>) regenerates the guess (\<open>auto_nln_gss\<close>) or
    the selection (\<open>auto_nln_sel\<close>), which set \<open>dyn_gss\<close> or \<open>dyn_sel\<close> to \<open>True\<close>; with
    an index out of range or an unknown parameter it changes nothing.
  \<^item> \<open>prop_nln_ion\<close>, with which the change of a species or of a population ends, leaves
    the four flags as they are.
  \<^item> The automatic selection with new window widths (\<open>auto_mom_sel\<close>) leaves the four
    flags as they are.
\<close>

lemma dyn_frame_auto_mom_sel:
  assumes "auto_mom_sel K wa wc na s = Some s'"
  shows "dyn_frame s' = dyn_frame s"
proof -
  from assms obtain s1 where s1: "auto_mom_sel_no_anls wa wc s = Some s1"
    and r: "(if \<not> na then anls_mom K s1 else Some s1) = Some s'"
    unfolding auto_mom_sel_def by (auto split: bind_splits)
  from r have "dyn_frame s' = dyn_frame s1"
    using dyn_frame_anls_mom [of K s1 s'] by (auto split: if_splits)
  with dyn_frame_auto_mom_sel_no_anls [OF s1] show ?thesis by simp
qed

theorem manual_edit_dyn_flags:
  "(chng_mom_sel K t p v s = Some s' \<longrightarrow>
      (\<exists>s1. dyn_frame s1 = (True, dyn_gss s, dyn_sel s, dyn_nln s) \<and> anls_mom K s1 = Some s') \<and>
      dyn_frame s' = (True, dyn_gss s, dyn_sel s, dyn_nln s)) \<and>
   (chng_nln_gss K i param val s = Some s' \<longrightarrow>
      (s' = chng_dyn ''gss'' False s \<or>
       (\<exists>s1. dyn_frame s1 = (dyn_mom s, False, dyn_sel s, dyn_nln s) \<and> make_nln_gss K s1 = Some s')) \<and>
      dyn_frame s' = (dyn_mom s, False, dyn_sel s, dyn_nln s)) \<and>
   (chng_nln_sel K t p v s = Some s' \<longrightarrow>
      (\<exists>s1. dyn_frame s1 = (dyn_mom s, dyn_gss s, False, dyn_nln s) \<and>
            prop_nln_sel K (Some (t, p, v)) s1 = Some s') \<and>
      dyn_frame s' = (dyn_mom s, dyn_gss s, False, dyn_nln s)) \<and>
   (chng_nln_set K i sparam sval s = Some s' \<longrightarrow>
      (if 0 \<le> i \<and> i < int (nln_n_pop s) \<and> sparam \<in> set [''gss_n'', ''gss_d'', ''gss_w'']
       then dyn_frame s' = (dyn_mom s, True, dyn_sel s, dyn_nln s)
       else if 0 \<le> i \<and> i < int (nln_n_pop s) \<and> sparam = ''sel''
       then dyn_frame s' = (dyn_mom s, dyn_gss s, True, dyn_nln s)
       else s' = s)) \<and>
   (prop_nln_ion K s = Some s' \<longrightarrow> dyn_frame s' = dyn_frame s) \<and>
   (auto_mom_sel K win_azm win_cur no_anls s = Some s' \<longrightarrow> dyn_frame s' = dyn_frame s)"
  using chng_mom_sel_flags [of K t p v s s'] chng_nln_gss_flags [of K i param val s s']
    chng_nln_sel_flags [of K t p v s s'] chng_nln_set_flags [of K i sparam sval s s']
    dyn_frame_prop_nln_ion [of K s s'] dyn_frame_auto_mom_sel [of K win_azm win_cur no_anls s s']
  by blast

text \<open>The theorem at the examples: each of the edits on the example selection (for
  \<open>chng_nln_gss\<close> with the dynamic guess switched on before, for the window setting on
  the state without selected directions).\<close>

theorem manual_edit_dyn_flags_witness:
  "chng_mom_sel ex_kernels 0 0 0 ex_sel \<noteq> None \<and>
   dyn_frame ex_sel = (False, False, True, False) \<and>
   dyn_frame (the (chng_mom_sel ex_kernels 0 0 0 ex_sel)) = (True, False, True, False) \<and>
   chng_nln_gss ex_kernels 0 ''n'' (Some 5) (ex_sel\<lparr> dyn_gss := True \<rparr>) \<noteq> None \<and>
   dyn_frame (ex_sel\<lparr> dyn_gss := True \<rparr>) = (False, True, True, False) \<and>
   dyn_frame (the (chng_nln_gss ex_kernels 0 ''n'' (Some 5) (ex_sel\<lparr> dyn_gss := True \<rparr>)))
     = (False, False, True, False) \<and>
   chng_nln_sel ex_kernels 0 0 0 ex_sel \<noteq> None \<and>
   dyn_frame (the (chng_nln_sel ex_kernels 0 0 0 ex_sel)) = (False, False, False, False) \<and>
   chng_nln_set ex_kernels 0 ''gss_n'' ex_set_val ex_sel \<noteq> None \<and>
   dyn_frame (the (chng_nln_set ex_kernels 0 ''gss_n'' ex_set_val ex_sel)) = (False, True, True, False) \<and>
   chng_nln_set ex_kernels 0 ''sel'' ex_set_val ex_manual \<noteq> None \<and>
   dyn_frame ex_manual = (False, False, False, False) \<and>
   dyn_frame (the (chng_nln_set ex_kernels 0 ''sel'' ex_set_val ex_manual)) = (False, False, True, False) \<and>
   prop_nln_ion ex_kernels ex_sel \<noteq> None \<and>
   dyn_frame (the (prop_nln_ion ex_kernels ex_sel)) = (False, False, True, False) \<and>
   auto_mom_sel ex_kernels None (Some (''3'', Some 3)) True ex_spec = Some ex_sel \<and>
   dyn_frame ex_spec = (False, False, True, False)"
proof -
  note r = ex_manual_runs and f = ex_manual_flags
  from f have g: "dyn_mom ex_sel = False" "dyn_gss ex_sel = False" "dyn_sel ex_sel = True"
    "dyn_nln ex_sel = False"
    "dyn_mom (ex_sel\<lparr> dyn_gss := True \<rparr>) = False" "dyn_sel (ex_sel\<lparr> dyn_gss := True \<rparr>) = True"
    "dyn_nln (ex_sel\<lparr> dyn_gss := True \<rparr>) = False"
    "dyn_mom ex_manual = False" "dyn_gss ex_manual = False" "dyn_nln ex_manual = False"
    by (simp_all add: dyn_frame_def)
  obtain s1 where a1: "chng_mom_sel ex_kernels 0 0 0 ex_sel = Some s1" using r(1) by blast
  obtain s2 where a2: "chng_nln_gss ex_kernels 0 ''n'' (Some 5) (ex_sel\<lparr> dyn_gss := True \<rparr>) = Some s2"
    using r(2) by blast
  obtain s3 where a3: "chng_nln_sel ex_kernels 0 0 0 ex_sel = Some s3" using r(3) by blast
  obtain s4 where a4: "chng_nln_set ex_kernels 0 ''gss_n'' ex_set_val ex_sel = Some s4"
    using r(4) by blast
  obtain s5 where a5: "chng_nln_set ex_kernels 0 ''sel'' ex_set_val ex_manual = Some s5"
    using r(5) by blast
  obtain s6 where a6: "prop_nln_ion ex_kernels ex_sel = Some s6" using r(6) by blast
  have "dyn_frame s1 = (True, False, True, False)"
    using manual_edit_dyn_flags [where K = ex_kernels and t = 0 and p = 0 and v = 0
        and s = ex_sel and s' = s1] a1 g by simp
  moreover have "dyn_frame s2 = (False, False, True, False)"
    using manual_edit_dyn_flags [where K = ex_kernels and i = 0 and param = "''n''"
        and val = "Some 5" and s = "ex_sel\<lparr> dyn_gss := True \<rparr>" and s' = s2] a2 g by simp
  moreover have "dyn_frame s3 = (False, False, False, False)"
    using manual_edit_dyn_flags [where K = ex_kernels and t = 0 and p = 0 and v = 0
        and s = ex_sel and s' = s3] a3 g by simp
  moreover have "dyn_frame s4 = (False, True, True, False)"
    using manual_edit_dyn_flags [where K = ex_kernels and i = 0 and sparam = "''gss_n''"
        and sval = ex_set_val and s = ex_sel and s' = s4] a4 g f(4) by simp
  moreover have "dyn_frame s5 = (False, False, True, False)"
    using manual_edit_dyn_flags [where K = ex_kernels and i = 0 and sparam = "''sel''"
        and sval = ex_set_val and s = ex_manual and s' = s5] a5 g f(5) by simp
  moreover have "dyn_frame s6 = (False, False, True, False)"
    using manual_edit_dyn_flags [where K = ex_kernels and s = ex_sel and s' = s6] a6 f(1) by simp
  moreover have a7: "auto_mom_sel ex_kernels None (Some (''3'', Some 3)) True ex_spec = Some ex_sel"
    by (simp add: auto_mom_sel_def ex_sel_auto)
  moreover have "dyn_frame ex_spec = (False, False, True, False)"
    using manual_edit_dyn_flags [where K = ex_kernels and win_azm = None
        and win_cur = "Some (''3'', Some 3)" and no_anls = True and s = ex_spec and s' = ex_sel]
      a7 f(1) by simp
  ultimately show ?thesis using a1 a2 a3 a4 a5 a6 f by simp
qed

text \<open>
  Claim C9 as stated fails for the moments: on a core whose flag \<open>dyn_mom\<close> is off,
  the manual toggle of one bin of the moments selection leaves the flag on.
\<close>

theorem chng_mom_sel_dyn_mom_counterexample:
  "\<not> dyn_mom ex_sel \<and> map_option dyn_mom (chng_mom_sel ex_kernels 0 0 0 ex_sel) = Some True"
proof -
  obtain s1 where a: "chng_mom_sel ex_kernels 0 0 0 ex_sel = Some s1"
    using ex_chng_mom_sel by blast
  have "dyn_mom s1" using chng_mom_sel_valid(2) [OF a] .
  moreover have "\<not> dyn_mom ex_sel" by (simp add: ex_defs)
  ultimately show ?thesis using a by simp
qed

subsection \<open>The moments analysis without a result\<close>

lemma ex_auto_eq: "auto_mom_sel_no_anls None None (rset_mom_res ex_spec) = Some ex_auto"
  by code_simp

lemma anls_mom_sel_init: "anls_mom_sel init_var \<noteq> None"
  by code_simp

lemma anls_mom_sel_fields:
  assumes "anls_mom_sel s = Some s1"
  shows "mom s1 = mom_res_empty" "time_epc s1 = time_epc s" "n_vel s1 = n_vel s"
    "mom_sel_azm s \<noteq> None \<and> mom_sel_cur s \<noteq> None \<longrightarrow> s1 = rset_mom_res s"
proof -
  show "mom_sel_azm s \<noteq> None \<and> mom_sel_cur s \<noteq> None \<longrightarrow> s1 = rset_mom_res s"
    using assms by (auto simp: anls_mom_sel_def)
  show "mom s1 = mom_res_empty"
    using assms auto_mom_sel_no_anls_post(8) [of None None "rset_mom_res s" s1]
    by (auto simp: anls_mom_sel_def rset_mom_res_fields split: if_splits)
  show "time_epc s1 = time_epc s"
    using assms auto_mom_sel_no_anls_post(5) [of None None "rset_mom_res s" s1]
    by (auto simp: anls_mom_sel_def rset_mom_res_fields split: if_splits)
  show "n_vel s1 = n_vel s"
    using assms auto_mom_sel_no_anls_post(6) [of None None "rset_mom_res s" s1]
    by (auto simp: anls_mom_sel_def rset_mom_res_fields split: if_splits)
qed

text \<open>
  Claim C7, as amended. \<open>anls_mom\<close> first resets every variable of the moments results
  and, when the selection arrays are not populated, runs the automatic selection. If
  then no spectrum is loaded (\<open>time_epc\<close> is \<open>None\<close> or \<open>n_vel\<close> is 0) or fewer than
  \<open>mom_min_sel_azm\<close> directions are selected, it emits the did-not-run message and the
  results-changed signal and returns: the moments are not computed and their variables
  hold their empty values. When the arrays were populated at the call, the count is
  the one at the call and nothing but the reset has happened.
\<close>

theorem anls_mom_no_result:
  assumes "anls_mom_sel s = Some s1"
    and "time_epc s = None \<or> n_vel s = 0 \<or> int (mom_n_sel_azm s1) < mom_min_sel_azm s1"
  shows "anls_mom K s =
           Some (emit Janus_chng_mom_res (emit (Janus_mesg ''core'' ''norun'' ''mom'') s1)) \<and>
         mom s1 = mom_res_empty \<and>
         (mom_sel_azm s \<noteq> None \<and> mom_sel_cur s \<noteq> None \<longrightarrow> s1 = rset_mom_res s)"
proof -
  note f = anls_mom_sel_fields [OF assms(1)]
  have g: "time_epc s1 = None \<or> n_vel s1 = 0 \<or> int (mom_n_sel_azm s1) < mom_min_sel_azm s1"
    using assms(2) f(2,3) by simp
  have "anls_mom K s =
           Some (emit Janus_chng_mom_res (emit (Janus_mesg ''core'' ''norun'' ''mom'') s1))"
  proof (cases "mom_sel_azm s = None \<or> mom_sel_cur s = None")
    case True
    with assms(1) have "auto_mom_sel_no_anls None None (rset_mom_res s) = Some s1"
      by (simp add: anls_mom_sel_def)
    with True g show ?thesis by (intro anls_mom_auto_norun)
  next
    case False
    with assms(1) have e: "s1 = rset_mom_res s" by (simp add: anls_mom_sel_def)
    from False g show ?thesis
      unfolding e by (intro anls_mom_norun) (simp_all add: rset_mom_res_fields)
  qed
  then show ?thesis using f by simp
qed

text \<open>The theorem at a core that has just been initialised: no spectrum is loaded.\<close>

theorem anls_mom_no_result_witness:
  "anls_mom_sel init_var \<noteq> None \<and> time_epc init_var = None \<and>
   anls_mom ex_kernels init_var =
     Some (emit Janus_chng_mom_res (emit (Janus_mesg ''core'' ''norun'' ''mom'')
             (the (anls_mom_sel init_var)))) \<and>
   mom (the (anls_mom_sel init_var)) = mom_res_empty"
proof -
  obtain s1 where a: "anls_mom_sel init_var = Some s1"
    using anls_mom_sel_init by blast
  have t: "time_epc init_var = None" by (simp add: init_var_def rset_defs Let_def)
  from anls_mom_no_result [OF a, of ex_kernels] t a show ?thesis by simp
qed

text \<open>
  Claim C7 as stated fails when the selection arrays are not populated: on the example
  spectrum, right after it was stored, no direction is selected (0 is fewer than 5),
  yet \<open>anls_mom\<close> selects fourteen directions itself and computes the moments.
\<close>

theorem anls_mom_unpopulated_counterexample:
  "mom_sel_azm ex_spec = None \<and> time_epc ex_spec \<noteq> None \<and> n_vel ex_spec \<noteq> 0 \<and>
   int (mom_n_sel_azm ex_spec) < mom_min_sel_azm ex_spec \<and>
   map_option (\<lambda>s'. (mom_n (mom s'), emitted s')) (anls_mom ex_kernels ex_spec) =
     Some (Some 5, [Janus_chng_dyn, Janus_chng_dyn, Janus_chng_mom_sel_all,
                    Janus_mesg ''core'' ''begin'' ''mom'', Janus_mesg ''core'' ''end'' ''mom'',
                    Janus_chng_mom_res])"
proof -
  have f: "mom_sel_azm ex_spec = None" "time_epc ex_spec \<noteq> None" "n_vel ex_spec \<noteq> 0"
    "int (mom_n_sel_azm ex_spec) < mom_min_sel_azm ex_spec"
    by (simp_all add: ex_defs)
  have g: "time_epc ex_auto = Some 0" "n_vel ex_auto = 4" "mom_n_sel_azm ex_auto = 14"
    "mom_min_sel_azm ex_auto = 5" "\<not> dyn_gss ex_auto" "dsp ex_auto = Some ''mom''"
    "mom_sel_azm ex_auto = Some (replicate 2 (replicate 7 True @ replicate 13 False))"
    "emitted ex_auto = [Janus_chng_dyn, Janus_chng_dyn, Janus_chng_mom_sel_all]"
    by (simp_all add: ex_auto_def ex_defs)
  have k: "k_anls_mom ex_kernels (emit (Janus_mesg ''core'' ''begin'' ''mom'') ex_auto) =
     Some (mom_res_empty\<lparr> mom_n := Some 5, mom_v := Some 400,
                                   mom_w := Some 30, mom_v_vec := Some [- 400, 0, 0] \<rparr>)"
    by (simp add: ex_kernels_def)
  have "map_option (\<lambda>s'. (mom_n (mom s'), emitted s')) (anls_mom ex_kernels ex_spec) =
     Some (Some 5, [Janus_chng_dyn, Janus_chng_dyn, Janus_chng_mom_sel_all,
                    Janus_mesg ''core'' ''begin'' ''mom'', Janus_mesg ''core'' ''end'' ''mom'',
                    Janus_chng_mom_res])"
    using anls_mom_run [of ex_spec ex_auto _ ex_kernels, OF _ _ g(7) k]
    by (simp add: f g ex_auto_eq chng_dsp_def emit_def)
  with f show ?thesis by simp
qed

subsection \<open>A failed fit\<close>

lemma nln_fit_data_cong:
  assumes "vel_cen s' = vel_cen s" "vel_wid s' = vel_wid s" "alt s' = alt s" "azm s' = azm s"
    "mag_x s' = mag_x s" "mag_y s' = mag_y s" "mag_z s' = mag_z s" "cur s' = cur s"
  shows "nln_fit_data s' sel = nln_fit_data s sel"
  using assms by (simp add: nln_fit_data_def)

lemma rset_nln_res_fields:
  "n_vel (rset_nln_res s) = n_vel s" "n_mfi (rset_nln_res s) = n_mfi s"
  "nln_gss_pop (rset_nln_res s) = nln_gss_pop s" "nln_gss_prm (rset_nln_res s) = nln_gss_prm s"
  "nln_n_sel (rset_nln_res s) = nln_n_sel s" "nln_min_sel (rset_nln_res s) = nln_min_sel s"
  "nln_sel (rset_nln_res s) = nln_sel s" "emitted (rset_nln_res s) = emitted s"
  "series (rset_nln_res s) = series s"
  "nln_res_plas (rset_nln_res s) = plas_new False" "nln_res_sel (rset_nln_res s) = None"
  "nln_res_cur_tot (rset_nln_res s) = None" "nln_res_cur_ion (rset_nln_res s) = None"
  by (simp_all add: rset_nln_res_def)

lemma ex_fit_data: "nln_fit_data ex_fit (replicate 2 (replicate 20 [True, True, True, True])) \<noteq> None"
  by code_simp

text \<open>
  Claim C6. When the non-linear analysis gets as far as the fit and the fit raises an
  error, \<open>anls_nln\<close> returns with every variable of the fit results at its freshly
  reset value (\<open>nln_res_plas\<close> a new empty object, \<open>nln_res_sel\<close>,
  \<open>nln_res_cur_tot\<close> and \<open>nln_res_cur_ion\<close> \<open>None\<close>), the begin and the failure
  messages and the results-changed signal emitted, and nothing appended to the results
  log; nothing else in the state has changed.
\<close>

theorem anls_nln_fit_failure:
  assumes "\<not> (n_vel s = 0 \<or> n_mfi s = 0 \<or> length (nln_gss_pop s) = 0 \<or> 0 \<notin> set (nln_gss_pop s) \<or>
              length (nln_gss_prm s) = 0 \<or> nln_n_sel s < nln_min_sel s)"
    and "nln_sel s = Some sel"
    and "nln_fit_data s sel = Some (x, y)"
    and "\<And>s1. k_curve_fit K s1 x y (nln_gss_prm s) = None"
  shows "\<exists>s'. anls_nln K s = Some s' \<and>
           s' = (rset_nln_res s)\<lparr> emitted := emitted s @
                  [Janus_mesg ''core'' ''begin'' ''nln'', Janus_mesg ''core'' ''fail'' ''nln'',
                   Janus_chng_nln_res] \<rparr> \<and>
           nln_res_plas s' = plas_new False \<and> nln_res_sel s' = None \<and>
           nln_res_cur_tot s' = None \<and> nln_res_cur_ion s' = None \<and>
           series s' = series s"
proof -
  let ?s1 = "(emit (Janus_mesg ''core'' ''begin'' ''nln'') (rset_nln_res s))\<lparr> nln_res_sel := Some sel \<rparr>"
  have d: "nln_fit_data ?s1 sel = Some (x, y)"
    using assms(3) nln_fit_data_cong [of ?s1 s sel] by (simp add: emit_def rset_nln_res_def)
  have e: "rset_nln_res (emit (Janus_mesg ''core'' ''fail'' ''nln'') ?s1) =
      (rset_nln_res s)\<lparr> emitted := emitted s @
                  [Janus_mesg ''core'' ''begin'' ''nln'', Janus_mesg ''core'' ''fail'' ''nln''] \<rparr>"
    by (simp add: emit_def rset_nln_res_def)
  have "anls_nln K s = Some ((rset_nln_res s)\<lparr> emitted := emitted s @
                  [Janus_mesg ''core'' ''begin'' ''nln'', Janus_mesg ''core'' ''fail'' ''nln'',
                   Janus_chng_nln_res] \<rparr>)"
    unfolding anls_nln_def rset_nln_sel_only Let_def
    using assms(1,2,4) d
    by (simp add: rset_nln_res_fields emit_def rset_nln_res_def)
  then show ?thesis by (simp add: rset_nln_res_def)
qed

text \<open>The theorem at the example state that is ready for the fit, with a fit routine
  that raises.\<close>

theorem anls_nln_fit_failure_witness:
  "nln_sel ex_fit \<noteq> None \<and> nln_fit_data ex_fit (the (nln_sel ex_fit)) \<noteq> None \<and>
   map_option (\<lambda>s'. (nln_res_plas s', nln_res_sel s', nln_res_cur_tot s', nln_res_cur_ion s',
                     series s', emitted s')) (anls_nln ex_kernels ex_fit) =
     Some (plas_new False, None, None, None, [],
           [Janus_chng_dyn, Janus_chng_dyn, Janus_chng_mom_sel_all,
            Janus_mesg ''core'' ''begin'' ''nln'', Janus_mesg ''core'' ''fail'' ''nln'',
            Janus_chng_nln_res])"
proof -
  let ?sel = "replicate 2 (replicate 20 [True, True, True, True])"
  have f: "nln_sel ex_fit = Some ?sel" "n_vel ex_fit = 4" "n_mfi ex_fit = 1"
    "nln_gss_pop ex_fit = [0]"
    "nln_gss_prm ex_fit = [Some (- 400), Some 0, Some 0, Some 5, Some 30, Some 30]"
    "nln_n_sel ex_fit = 160" "nln_min_sel ex_fit = 30" "series ex_fit = []"
    "emitted ex_fit = [Janus_chng_dyn, Janus_chng_dyn, Janus_chng_mom_sel_all]"
    by (simp_all add: ex_fit_def ex_auto_def ex_defs)
  obtain x y where d: "nln_fit_data ex_fit ?sel = Some (x, y)"
    using ex_fit_data by fastforce
  have g: "\<not> (n_vel ex_fit = 0 \<or> n_mfi ex_fit = 0 \<or> length (nln_gss_pop ex_fit) = 0 \<or>
              0 \<notin> set (nln_gss_pop ex_fit) \<or> length (nln_gss_prm ex_fit) = 0 \<or>
              nln_n_sel ex_fit < nln_min_sel ex_fit)"
    by (simp add: f)
  have k: "\<And>s1. k_curve_fit ex_kernels s1 x y (nln_gss_prm ex_fit) = None"
    by (simp add: ex_kernels_def)
  from anls_nln_fit_failure [OF g f(1) d k] show ?thesis
    using d by (auto simp: f)
qed

subsection \<open>The span selected by the automatic selection\<close>

text \<open>The search loop returns the start it was given or one of the starts it visited;
  it keeps the start it was given when no total exceeds the current best; otherwise it
  returns the first of the visited starts whose total is the largest.\<close>

lemma win_scan_bound:
  "fst (win_scan xs v (v0, c0)) = v0 \<or>
   (v \<le> fst (win_scan xs v (v0, c0)) \<and> fst (win_scan xs v (v0, c0)) < v + length xs)"
proof (induction xs arbitrary: v v0 c0)
  case Nil
  show ?case by simp
next
  case (Cons x xs)
  show ?case using Cons [of "Suc v" v x] Cons [of "Suc v" v0 c0] by auto
qed

lemma win_scan_none: "\<forall>x\<in>set xs. x \<le> c0 \<Longrightarrow> win_scan xs v (v0, c0) = (v0, c0)"
  by (induction xs arbitrary: v) auto

lemma win_scan_first_max:
  assumes "\<exists>x\<in>set xs. c0 < x"
  shows "\<exists>i<length xs. win_scan xs v (v0, c0) = (v + i, xs ! i) \<and>
           (\<forall>j<length xs. xs ! j \<le> xs ! i) \<and> (\<forall>j<i. xs ! j < xs ! i)"
  using assms
proof (induction xs arbitrary: v v0 c0)
  case Nil
  then show ?case by simp
next
  case (Cons x xs)
  show ?case
  proof (cases "c0 < x")
    case True
    show ?thesis
    proof (cases "\<exists>y\<in>set xs. x < y")
      case ex: True
      from Cons.IH [OF ex, of "Suc v" v] obtain i where i: "i < length xs"
        "win_scan xs (Suc v) (v, x) = (Suc v + i, xs ! i)"
        "\<forall>j<length xs. xs ! j \<le> xs ! i" "\<forall>j<i. xs ! j < xs ! i" by blast
      from ex obtain k where "k < length xs" "x < xs ! k" by (auto simp: in_set_conv_nth)
      with i(3) have xi: "x < xs ! i" by force
      have "\<forall>j<length (x # xs). (x # xs) ! j \<le> (x # xs) ! Suc i"
        using i(3) xi by (auto simp: nth_Cons split: nat.splits)
      moreover have "\<forall>j<Suc i. (x # xs) ! j < (x # xs) ! Suc i"
        using i(4) xi by (auto simp: nth_Cons split: nat.splits)
      ultimately show ?thesis using i(1,2) True
        by (intro exI [of _ "Suc i"]) simp
    next
      case False
      then have le: "\<forall>y\<in>set xs. y \<le> x" by auto
      then have "win_scan xs (Suc v) (v, x) = (v, x)" by (rule win_scan_none)
      moreover have "\<forall>j<length (x # xs). (x # xs) ! j \<le> x"
        using le by (auto simp: nth_Cons split: nat.splits)
      ultimately show ?thesis using True by (intro exI [of _ 0]) simp
    qed
  next
    case False
    with Cons.prems have ex: "\<exists>y\<in>set xs. c0 < y" by auto
    from Cons.IH [OF ex, of "Suc v" v0] obtain i where i: "i < length xs"
      "win_scan xs (Suc v) (v0, c0) = (Suc v + i, xs ! i)"
      "\<forall>j<length xs. xs ! j \<le> xs ! i" "\<forall>j<i. xs ! j < xs ! i" by blast
    from ex obtain k where "k < length xs" "c0 < xs ! k" by (auto simp: in_set_conv_nth)
    with i(3) have "c0 < xs ! i" by force
    with False have xi: "x < xs ! i" by simp
    have "\<forall>j<length (x # xs). (x # xs) ! j \<le> (x # xs) ! Suc i"
      using i(3) xi by (auto simp: nth_Cons split: nat.splits)
    moreover have "\<forall>j<Suc i. (x # xs) ! j < (x # xs) ! Suc i"
      using i(4) xi by (auto simp: nth_Cons split: nat.splits)
    ultimately show ?thesis using i(1,2) False
      by (intro exI [of _ "Suc i"]) simp
  qed
qed

lemma py_slice_set_window:
  assumes "0 \<le> w" "v0 + nat w \<le> n"
  shows "py_slice_set (replicate n False) (int v0) (int v0 + w) True =
           replicate v0 False @ replicate (nat w) True @ replicate (n - v0 - nat w) False"
  using assms
  by (auto simp: py_slice_set_def py_slice_bound_def list_eq_iff_nth_eq nth_append)

lemma count_true_window:
  "count_true (replicate a False @ replicate b True @ replicate c False) = b"
  by (simp add: count_true_def)

lemma auto_mom_sel_cur_sum_no_valid:
  assumes "row3 (cur_vld s) t p = Some vld" "True \<notin> set vld" "auto_mom_sel_cur_sum s t p v = Some r"
  shows "r = 0"
proof -
  have "filter (\<lambda>j. j \<ge> v \<and> int j < int v + mom_win_cur s \<and> vld ! j) [0..<length vld] = []"
    using assms(2) by (auto simp: filter_empty_conv in_set_conv_nth)
  with assms(1,3) show ?thesis
    by (auto simp: auto_mom_sel_cur_sum_def split: bind_splits if_splits)
qed

lemma auto_mom_sel_cur_dir_window:
  assumes d: "auto_mom_sel_cur_dir s t p = Some row"
    and w: "0 \<le> mom_win_cur s" "mom_win_cur s \<le> int (n_vel s)"
    and c: "0 < count_true row"
  shows "\<exists>v_0. v_0 + nat (mom_win_cur s) \<le> n_vel s \<and>
           row = replicate v_0 False @ replicate (nat (mom_win_cur s)) True
                   @ replicate (n_vel s - v_0 - nat (mom_win_cur s)) False \<and>
           (\<forall>vld. row3 (cur_vld s) t p = Some vld \<longrightarrow> True \<notin> set vld \<longrightarrow> v_0 = 0)"
proof -
  from d c obtain totals where
    t: "those (map (auto_mom_sel_cur_sum s t p) [0..<nat (int (n_vel s) - mom_win_cur s)]) = Some totals"
    and r: "row = py_slice_set (replicate (n_vel s) False) (int (fst (win_scan totals 0 (0, 0))))
                    (int (fst (win_scan totals 0 (0, 0))) + mom_win_cur s) True"
    by (auto simp: auto_mom_sel_cur_dir_def Let_def count_true_def split: bind_splits if_splits)
  define v_0 where "v_0 = fst (win_scan totals 0 (0, 0))"
  from t have l: "length totals = nat (int (n_vel s) - mom_win_cur s)"
    and ti: "\<forall>i<nat (int (n_vel s) - mom_win_cur s). auto_mom_sel_cur_sum s t p i = Some (totals ! i)"
    by (auto simp: those_map_eq_Some)
  from win_scan_bound [of totals 0 0 0] l w have b: "v_0 + nat (mom_win_cur s) \<le> n_vel s"
    unfolding v_0_def by auto
  have "\<forall>vld. row3 (cur_vld s) t p = Some vld \<longrightarrow> True \<notin> set vld \<longrightarrow> v_0 = 0"
  proof (intro allI impI)
    fix vld assume v: "row3 (cur_vld s) t p = Some vld" "True \<notin> set vld"
    have "\<forall>x\<in>set totals. x \<le> 0"
      using ti l auto_mom_sel_cur_sum_no_valid [OF v] by (fastforce simp: in_set_conv_nth)
    then have "win_scan totals 0 (0, 0) = (0, 0)" by (rule win_scan_none)
    then show "v_0 = 0" by (simp add: v_0_def)
  qed
  moreover from r have "row = replicate v_0 False @ replicate (nat (mom_win_cur s)) True
                   @ replicate (n_vel s - v_0 - nat (mom_win_cur s)) False"
    unfolding v_0_def [symmetric] using py_slice_set_window [OF w(1) b] by simp
  ultimately show ?thesis using b by blast
qed

lemma auto_mom_sel_azm_keep:
  assumes "auto_mom_sel_azm s = Some s'"
  shows "n_alt s' = n_alt s" "n_azm s' = n_azm s" "mom_win_cur s' = mom_win_cur s"
    "mom_min_sel_cur s' = mom_min_sel_cur s" "cur_vld s' = cur_vld s" "cur s' = cur s"
  using assms by (auto simp: auto_mom_sel_azm_def Let_def split: bind_splits if_splits)

lemma auto_mom_sel_cur_keep:
  assumes "auto_mom_sel_cur s = Some s'"
  shows "n_alt s' = n_alt s" "n_azm s' = n_azm s" "mom_win_cur s' = mom_win_cur s"
    "mom_min_sel_cur s' = mom_min_sel_cur s" "cur_vld s' = cur_vld s" "cur s' = cur s"
    "mom_sel_azm s' = mom_sel_azm s"
  using assms by (auto simp: auto_mom_sel_cur_def Let_def split: bind_splits if_splits)

lemma auto_mom_sel_cur_rows:
  assumes "auto_mom_sel_cur s = Some s'" "t < n_alt s" "p < n_azm s"
  shows "\<exists>row. auto_mom_sel_cur_dir s t p = Some row \<and> row3 (mom_sel_cur s') t p = Some row"
proof -
  from assms(1) obtain sel where
    a: "those (map (\<lambda>t. those (map (auto_mom_sel_cur_dir s t) [0..<n_azm s])) [0..<n_alt s]) = Some sel"
    and s': "mom_sel_cur s' = Some sel"
    by (auto simp: auto_mom_sel_cur_def split: bind_splits)
  from a assms(2) have l: "length sel = n_alt s"
    and b: "those (map (auto_mom_sel_cur_dir s t) [0..<n_azm s]) = Some (sel ! t)"
    by (auto simp: those_map_eq_Some)
  from b assms(3) have l2: "length (sel ! t) = n_azm s"
    and c: "auto_mom_sel_cur_dir s t p = Some (sel ! t ! p)"
    by (auto simp: those_map_eq_Some)
  show ?thesis using c s' l l2 assms(2,3) by (simp add: row3_Some)
qed

lemma vldt_mom_sel_keep:
  assumes "vldt_mom_sel s = Some s'"
  shows "mom_win_cur s' = mom_win_cur s" "cur_vld s' = cur_vld s"
  using assms by (auto simp: vldt_mom_sel_alt split: bind_splits if_splits)

lemma vldt_mom_sel_selected:
  assumes v: "vldt_mom_sel s = Some s'" and e: "elem2 (mom_sel_azm s') t p = Some True"
    and tp: "t < n_alt s" "p < n_azm s"
  shows "\<exists>row. row3 (mom_sel_cur s) t p = Some row \<and> mom_min_sel_cur s \<le> int (count_true row)"
proof -
  from v obtain n_cur where n: "mom_n_cur s = Some n_cur"
    and s': "mom_sel_azm s' = Some (vldt_sel s n_cur)"
    by (auto simp: vldt_mom_sel_alt split: bind_splits if_splits)
  from n tp have l: "length n_cur = n_alt s"
    and b: "those (map (\<lambda>p. map_option count_true (row3 (mom_sel_cur s) t p)) [0..<n_azm s]) = Some (n_cur ! t)"
    by (auto simp: mom_n_cur_def those_map_eq_Some)
  from b tp have l2: "length (n_cur ! t) = n_azm s"
    and c: "map_option count_true (row3 (mom_sel_cur s) t p) = Some (n_cur ! t ! p)"
    by (auto simp: those_map_eq_Some)
  have sh: "shape2 (n_alt s) (n_azm s) n_cur"
    using n unfolding mom_n_cur_def by (rule those_map_shape2)
  from e s' have "vldt_sel s n_cur ! t ! p"
    by (auto simp: elem2_def nth_opt_def split: bind_splits if_splits)
  then have "mom_min_sel_cur s \<le> int (n_cur ! t ! p)"
    using sh tp by (auto simp: vldt_sel_def tile2_def shape2_def list_all_length split: if_splits)
  with c show ?thesis by auto
qed

lemma auto_mom_sel_no_anls_window:
  assumes a: "auto_mom_sel_no_anls wa wc s = Some s'"
    and m: "0 < mom_min_sel_cur s"
    and tp: "t < n_alt s" "p < n_azm s"
    and e: "elem2 (mom_sel_azm s') t p = Some True"
  shows "\<exists>v_0. v_0 + nat (mom_win_cur s') \<le> n_vel s' \<and>
           row3 (mom_sel_cur s') t p =
             Some (replicate v_0 False @ replicate (nat (mom_win_cur s')) True
                     @ replicate (n_vel s' - v_0 - nat (mom_win_cur s')) False) \<and>
           (\<forall>vld. row3 (cur_vld s') t p = Some vld \<longrightarrow> True \<notin> set vld \<longrightarrow> v_0 = 0)"
proof -
  from a obtain s1 s2 where
    a1: "auto_mom_sel_azm (auto_mom_sel_win wa wc s) = Some s1" and a2: "auto_mom_sel_cur s1 = Some s2"
    and a3: "vldt_mom_sel (emit Janus_chng_mom_sel_all s2) = Some s'"
    unfolding auto_mom_sel_no_anls_def by (auto split: bind_splits)
  note s0 = auto_mom_sel_win_fields [of wa wc s]
  note k1 = auto_mom_sel_azm_keep [OF a1] auto_mom_sel_azm_other [OF a1]
  note k2 = auto_mom_sel_cur_keep [OF a2] auto_mom_sel_cur_other [OF a2]
  note k3 = vldt_mom_sel_keep [OF a3] vldt_mom_sel_other [OF a3]
  have w: "0 \<le> mom_win_cur s1" "mom_win_cur s1 \<le> int (n_vel s1)"
    using m s0 k1 by auto
  have tp1: "t < n_alt s1" "p < n_azm s1" using tp s0 k1 by auto
  from auto_mom_sel_cur_rows [OF a2 tp1] obtain row where
    r: "auto_mom_sel_cur_dir s1 t p = Some row" "row3 (mom_sel_cur s2) t p = Some row" by blast
  have "t < n_alt (emit Janus_chng_mom_sel_all s2)" "p < n_azm (emit Janus_chng_mom_sel_all s2)"
    using tp1 k2 by (simp_all add: emit_def)
  from vldt_mom_sel_selected [OF a3 e this] r(2) have "mom_min_sel_cur s2 \<le> int (count_true row)"
    by (simp add: emit_def)
  with m s0 k1 k2 have c: "0 < count_true row" by simp
  from auto_mom_sel_cur_dir_window [OF r(1) w c] obtain v_0 where
    v: "v_0 + nat (mom_win_cur s1) \<le> n_vel s1"
       "row = replicate v_0 False @ replicate (nat (mom_win_cur s1)) True
                   @ replicate (n_vel s1 - v_0 - nat (mom_win_cur s1)) False"
       "\<forall>vld. row3 (cur_vld s1) t p = Some vld \<longrightarrow> True \<notin> set vld \<longrightarrow> v_0 = 0" by blast
  have eq: "mom_win_cur s' = mom_win_cur s1" "n_vel s' = n_vel s1" "cur_vld s' = cur_vld s1"
    "mom_sel_cur s' = mom_sel_cur s2"
    using k2 k3 by (simp_all add: emit_def)
  show ?thesis using v r(2) unfolding eq by blast
qed

text \<open>The moments analysis and what it sets off leave the widths, the number of bins
  and the validity flags alone.\<close>

lemma win_frame_upd [simp]:
  "win_frame (time_epc_update f0 s) = win_frame s"
  "win_frame (alt_update f1 s) = win_frame s"
  "win_frame (azm_update f2 s) = win_frame s"
  "win_frame (vel_cen_update f3 s) = win_frame s"
  "win_frame (vel_wid_update f4 s) = win_frame s"
  "win_frame (cur_update f5 s) = win_frame s"
  "win_frame (cur_jmp_update f6 s) = win_frame s"
  "win_frame (cur_min_update f7 s) = win_frame s"
  "win_frame (mag_x_update f8 s) = win_frame s"
  "win_frame (mag_y_update f9 s) = win_frame s"
  "win_frame (mag_z_update f10 s) = win_frame s"
  "win_frame (n_alt_update f11 s) = win_frame s"
  "win_frame (n_azm_update f12 s) = win_frame s"
  "win_frame (n_mfi_update f13 s) = win_frame s"
  "win_frame (mfi_avg_nrm_update f14 s) = win_frame s"
  "win_frame (mom_win_azm_req_update f15 s) = win_frame s"
  "win_frame (mom_win_cur_req_update f16 s) = win_frame s"
  "win_frame (mom_win_azm_txt_update f17 s) = win_frame s"
  "win_frame (mom_win_cur_txt_update f18 s) = win_frame s"
  "win_frame (mom_win_azm_update f19 s) = win_frame s"
  "win_frame (mom_n_sel_azm_update f20 s) = win_frame s"
  "win_frame (mom_n_sel_cur_update f21 s) = win_frame s"
  "win_frame (mom_min_sel_azm_update f22 s) = win_frame s"
  "win_frame (mom_min_sel_cur_update f23 s) = win_frame s"
  "win_frame (mom_sel_azm_update f24 s) = win_frame s"
  "win_frame (mom_sel_cur_update f25 s) = win_frame s"
  "win_frame (mom_update f26 s) = win_frame s"
  "win_frame (nln_n_pop_update f27 s) = win_frame s"
  "win_frame (nln_pyon_update f28 s) = win_frame s"
  "win_frame (nln_pop_use_update f29 s) = win_frame s"
  "win_frame (nln_pop_vld_update f30 s) = win_frame s"
  "win_frame (nln_set_gss_n_update g0 s) = win_frame s"
  "win_frame (nln_set_gss_d_update g1 s) = win_frame s"
  "win_frame (nln_set_gss_w_update g2 s) = win_frame s"
  "win_frame (nln_set_gss_vld_update g3 s) = win_frame s"
  "win_frame (nln_set_sel_a_update f31 s) = win_frame s"
  "win_frame (nln_set_sel_b_update f32 s) = win_frame s"
  "win_frame (nln_set_sel_vld_update f33 s) = win_frame s"
  "win_frame (nln_gss_vld_update f34 s) = win_frame s"
  "win_frame (nln_gss_pop_update f35 s) = win_frame s"
  "win_frame (nln_gss_prm_update f36 s) = win_frame s"
  "win_frame (nln_gss_cur_tot_update f37 s) = win_frame s"
  "win_frame (nln_gss_cur_ion_update f38 s) = win_frame s"
  "win_frame (nln_sel_update f39 s) = win_frame s"
  "win_frame (nln_n_sel_update f40 s) = win_frame s"
  "win_frame (nln_min_sel_update f41 s) = win_frame s"
  "win_frame (nln_res_plas_update f42 s) = win_frame s"
  "win_frame (nln_res_sel_update f43 s) = win_frame s"
  "win_frame (nln_res_cur_tot_update f44 s) = win_frame s"
  "win_frame (nln_res_cur_ion_update f45 s) = win_frame s"
  "win_frame (series_update f46 s) = win_frame s"
  "win_frame (dsp_update f47 s) = win_frame s"
  "win_frame (emitted_update f48 s) = win_frame s"
  "win_frame (dyn_mom_update f49 s) = win_frame s"
  "win_frame (dyn_gss_update f50 s) = win_frame s"
  "win_frame (dyn_sel_update f51 s) = win_frame s"
  "win_frame (dyn_nln_update f52 s) = win_frame s"
  by (simp_all add: win_frame_def)

lemma win_frame_emit [simp]: "win_frame (emit sg s) = win_frame s"
  by (simp add: emit_def)

lemma win_frame_chng_dsp [simp]: "win_frame (chng_dsp v s) = win_frame s"
  by (simp add: chng_dsp_def)

lemma win_frame_chng_dyn [simp]: "win_frame (chng_dyn anal v s) = win_frame s"
  by (simp add: chng_dyn_def)

lemma win_frame_rset_var [simp]:
  "\<not> var_swe f \<Longrightarrow> \<not> var_mom_win f \<Longrightarrow> win_frame (rset_var f s) = win_frame s"
  by (simp add: rset_var_def rset_mfi_def rset_mom_sel_def rset_dyn_def
  rset_mom_res_def rset_nln_ion_def rset_nln_set_def rset_nln_gss_def rset_nln_sel_def
  rset_nln_res_def rset_dsp_def Let_def)

lemma win_frame_anls_nln: "anls_nln K s = Some s' \<Longrightarrow> win_frame s' = win_frame s"
  unfolding anls_nln_def Let_def
  by (auto simp: no_var_def split: bind_splits if_splits option.splits prod.splits)

lemma win_frame_prop_nln_sel: "prop_nln_sel K pnt s = Some s' \<Longrightarrow> win_frame s' = win_frame s"
  unfolding prop_nln_sel_def Let_def
  by (auto dest!: win_frame_anls_nln split: if_splits option.splits prod.splits)

lemma win_frame_auto_nln_sel: "auto_nln_sel K s = Some s' \<Longrightarrow> win_frame s' = win_frame s"
  unfolding auto_nln_sel_def Let_def
  by (auto dest!: win_frame_prop_nln_sel simp: no_var_def split: bind_splits if_splits)

lemma win_frame_prop_nln_gss: "prop_nln_gss K s = Some s' \<Longrightarrow> win_frame s' = win_frame s"
  unfolding prop_nln_gss_def Let_def
  by (auto dest!: win_frame_auto_nln_sel win_frame_anls_nln split: if_splits)

lemma win_frame_make_nln_gss: "make_nln_gss K s = Some s' \<Longrightarrow> win_frame s' = win_frame s"
  unfolding make_nln_gss_def Let_def
  by (auto dest!: win_frame_prop_nln_gss split: bind_splits if_splits)

lemma win_frame_auto_nln_gss: "auto_nln_gss K s = Some s' \<Longrightarrow> win_frame s' = win_frame s"
  unfolding auto_nln_gss_def Let_def
  by (auto dest!: win_frame_make_nln_gss simp: no_var_def split: if_splits)

lemma win_frame_rset_mom_res [simp]: "win_frame (rset_mom_res s) = win_frame s"
  by (simp add: rset_mom_res_def)

lemma win_frame_anls_mom:
  assumes "anls_mom K s = Some s'" "mom_sel_azm s \<noteq> None" "mom_sel_cur s \<noteq> None"
  shows "win_frame s' = win_frame s" "mom_sel_azm s' = mom_sel_azm s" "mom_sel_cur s' = mom_sel_cur s"
proof -
  have c: "mom_sel_azm (rset_mom_res s) = mom_sel_azm s" "mom_sel_cur (rset_mom_res s) = mom_sel_cur s"
    by (simp_all add: rset_mom_res_def)
  show "win_frame s' = win_frame s"
    using assms c unfolding anls_mom_def rset_nln_sel_only Let_def
    by (auto split: bind_splits if_splits dest!: win_frame_auto_nln_gss)
  from assms(1) obtain s1 where
    a: "(if mom_sel_azm s = None \<or> mom_sel_cur s = None
         then auto_mom_sel_no_anls None None (rset_mom_res s) = Some s1
         else s1 = rset_mom_res s)" and b: "mom_frame s' = mom_frame s1"
    by (rule anls_mom_cases)
  from a assms(2,3) have "s1 = rset_mom_res s" by simp
  with b have "mom_frame s' = mom_frame s" by simp
  then show "mom_sel_azm s' = mom_sel_azm s" "mom_sel_cur s' = mom_sel_cur s"
    by (simp_all add: mom_frame_def)
qed

lemma ex_dark_auto: "auto_mom_sel_no_anls None (Some (''3'', Some 3)) ex_dark = Some ex_dark_sel"
  by code_simp

text \<open>
  Claim C10. The minimum number of selected data per direction, \<open>mom_min_sel_cur\<close>, is
  positive (\<open>rset_var\<close> sets it to 3 and nothing else assigns it). After the automatic
  selection \<open>auto_mom_sel\<close> has selected and validated the data, every look direction
  that is selected has exactly \<open>mom_win_cur\<close> contiguous bins selected in
  \<open>mom_sel_cur\<close>: the bins \<open>v_0, ..., v_0 + mom_win_cur - 1\<close> of a span that fits in
  \<open>[0, n_vel)\<close>, and no other bin. The selected bins are given by \<open>v_0\<close> and the width
  alone, whatever the validity flags \<open>cur_vld\<close> of the bins are; and when no bin of the
  direction is valid, the span starts at bin 0.
\<close>

theorem auto_mom_sel_window:
  assumes a: "auto_mom_sel K wa wc no_anls s = Some s'"
    and m: "0 < mom_min_sel_cur s"
    and tp: "t < n_alt s" "p < n_azm s"
    and e: "elem2 (mom_sel_azm s') t p = Some True"
  shows "\<exists>v_0. v_0 + nat (mom_win_cur s') \<le> n_vel s' \<and>
           row3 (mom_sel_cur s') t p =
             Some (replicate v_0 False @ replicate (nat (mom_win_cur s')) True
                     @ replicate (n_vel s' - v_0 - nat (mom_win_cur s')) False) \<and>
           (\<forall>vld. row3 (cur_vld s') t p = Some vld \<longrightarrow> True \<notin> set vld \<longrightarrow> v_0 = 0)"
proof -
  from a obtain s1 where s1: "auto_mom_sel_no_anls wa wc s = Some s1"
    and r: "(if \<not> no_anls then anls_mom K s1 else Some s1) = Some s'"
    unfolding auto_mom_sel_def by (auto split: bind_splits)
  have eq: "win_frame s' = win_frame s1 \<and> mom_sel_azm s' = mom_sel_azm s1 \<and> mom_sel_cur s' = mom_sel_cur s1"
  proof (cases no_anls)
    case True
    with r show ?thesis by simp
  next
    case False
    with r have "anls_mom K s1 = Some s'" by simp
    from win_frame_anls_mom [OF this auto_mom_sel_no_anls_post(3,4) [OF s1]] show ?thesis by simp
  qed
  then have f: "mom_win_cur s' = mom_win_cur s1" "n_vel s' = n_vel s1" "cur_vld s' = cur_vld s1"
    "mom_sel_azm s' = mom_sel_azm s1" "mom_sel_cur s' = mom_sel_cur s1"
    by (simp_all add: win_frame_def)
  from e have "elem2 (mom_sel_azm s1) t p = Some True" by (simp add: f)
  from auto_mom_sel_no_anls_window [OF s1 m tp this] show ?thesis by (simp add: f)
qed

text \<open>The theorem at the example spectrum with every current marked invalid: the first
  three bins of the first direction are selected.\<close>

theorem auto_mom_sel_window_witness:
  "auto_mom_sel ex_kernels None (Some (''3'', Some 3)) True ex_dark = Some ex_dark_sel \<and>
   0 < mom_min_sel_cur ex_dark \<and>
   elem2 (mom_sel_azm ex_dark_sel) 0 0 = Some True \<and>
   row3 (cur_vld ex_dark_sel) 0 0 = Some [False, False, False, False] \<and>
   mom_win_cur ex_dark_sel = 3 \<and> n_vel ex_dark_sel = 4 \<and>
   row3 (mom_sel_cur ex_dark_sel) 0 0 = Some [True, True, True, False]"
proof -
  have a: "auto_mom_sel ex_kernels None (Some (''3'', Some 3)) True ex_dark = Some ex_dark_sel"
    using ex_dark_auto by (simp add: auto_mom_sel_def)
  have f: "0 < mom_min_sel_cur ex_dark" "0 < n_alt ex_dark" "0 < n_azm ex_dark"
    "elem2 (mom_sel_azm ex_dark_sel) 0 0 = Some True"
    "row3 (cur_vld ex_dark_sel) 0 0 = Some [False, False, False, False]"
    "mom_win_cur ex_dark_sel = 3" "n_vel ex_dark_sel = 4"
    by code_simp+
  from auto_mom_sel_window [OF a f(1,2,3,4)] obtain v_0 where
    v: "row3 (mom_sel_cur ex_dark_sel) 0 0 =
          Some (replicate v_0 False @ replicate (nat (mom_win_cur ex_dark_sel)) True
                  @ replicate (n_vel ex_dark_sel - v_0 - nat (mom_win_cur ex_dark_sel)) False)"
       "\<forall>vld. row3 (cur_vld ex_dark_sel) 0 0 = Some vld \<longrightarrow> True \<notin> set vld \<longrightarrow> v_0 = 0"
    by blast
  from v(2) f(5) have "v_0 = 0" by simp
  with v(1) f(6,7) have "row3 (mom_sel_cur ex_dark_sel) 0 0 = Some [True, True, True, False]"
    by (simp add: numeral_3_eq_3)
  with a f show ?thesis by simp
qed

subsection \<open>The spans that the automatic selection considers\<close>

text \<open>
  Claim C5 does not hold of the loop \<open>for v in range( self.n_vel - self.mom_win_cur )\<close>:
  the span that starts at \<open>n_vel - mom_win_cur\<close>, the last one that fits in
  \<open>[0, n_vel)\<close>, is never a candidate. On the example spectrum, with four bins of
  valid currents 1, 1, 5 and 5 in each direction and a width of 3, the span of bins 0 to
  2 has the total 7 and the span of bins 1 to 3 the total 11; the automatic selection
  selects bins 0 to 2 in the first direction, which is a selected one.
\<close>

theorem auto_mom_sel_cur_last_span_skipped:
  "auto_mom_sel_no_anls None (Some (''3'', Some 3)) ex_spec = Some ex_sel \<and>
   mom_win_cur ex_sel = 3 \<and> n_vel ex_sel = 4 \<and>
   elem2 (mom_sel_azm ex_sel) 0 0 = Some True \<and>
   row3 (cur ex_sel) 0 0 = Some [1, 1, 5, 5] \<and>
   row3 (cur_vld ex_sel) 0 0 = Some [True, True, True, True] \<and>
   auto_mom_sel_cur_sum ex_sel 0 0 0 = Some 7 \<and>
   auto_mom_sel_cur_sum ex_sel 0 0 1 = Some 11 \<and>
   auto_mom_sel_cur_dir ex_sel 0 0 = Some [True, True, True, False] \<and>
   row3 (mom_sel_cur ex_sel) 0 0 = Some [True, True, True, False]"
  by code_simp

subsection \<open>The thermal speed along the look direction\<close>

text \<open>
  Claim C8 does not hold of the thermal speed that \<open>auto_nln_sel\<close> computes: it passes
  the absolute value of the cosine of the angle between the look direction and the mean
  field direction to \<open>sin\<close> and \<open>cos\<close> as if it were the angle. For the look direction of
  altitude 15 and azimuth 0 degrees and a field along the y-axis, which is perpendicular
  to it, and a population with a perpendicular thermal speed of 1 and a parallel one of
  2, \<open>auto_nln_sel\<close> computes the speed 2 where the forward model \<open>calc_cur_bmx\<close> computes
  the projection 1.
\<close>

theorem auto_nln_sel_w_not_projection:
  "auto_nln_sel_w (Some [0, 1, 0]) (calc_dir_look 15 0) ex_aniso = Some 2 \<and>
   calc_cur_bmx_w 15 0 [0, 1, 0] 1 2 = 1"
  by (simp add: auto_nln_sel_w_def calc_cur_bmx_w_def calc_dir_look_def np_dot_def
      calc_arr_nrm_def calc_arr_dot_def deg2rad_def ex_aniso_def pop_new_def Let_def)

end
